theory Spec2Isabelle
  imports Main "HOL-Library.Sublist"
begin

section \<open>Strings\<close>

text \<open>
  A string is the list of bytes of its UTF-8 encoding. Every character the scripts
  test for (quotes, \<open>_\<close>, \<open>/\<close>, \<open>it(\<close>) is ASCII, so scanning bytes finds the same
  occurrences as scanning the UTF-16 code units of the JavaScript string.
\<close>

definition nl :: string where
  "nl = [CHR 0x0A]"

text \<open>\<open>Array.prototype.join\<close>.\<close>

fun join :: "string \<Rightarrow> string list \<Rightarrow> string" where
  "join sep [] = []"
| "join sep [x] = x"
| "join sep (x # y # ys) = x @ sep @ join sep (y # ys)"

text \<open>Decimal rendering of a non-negative integer (\<open>String(n)\<close> for an array length).\<close>

definition digit :: "nat \<Rightarrow> char" where
  "digit d = char_of (48 + d)"

fun showNat :: "nat \<Rightarrow> string" where
  "showNat n = (if n < 10 then [digit n] else showNat (n div 10) @ [digit (n mod 10)])"

declare showNat.simps [simp del]

section \<open>Test-title extraction (scripts/generate-docs.ts, extractTestInfo)\<close>

text \<open>The character class \<open>['"`]\<close> of the regular expression.\<close>

definition isQuote :: "char \<Rightarrow> bool" where
  "isQuote c \<longleftrightarrow> c = CHR 0x27 \<or> c = CHR 0x22 \<or> c = CHR 0x60"

text \<open>
  One attempt of \<open>/it\(['"`]([^'"`]+)['"`]/\<close> at the head of the remaining input:
  the literal \<open>it(\<close>, one quote character, the longest non-empty run of non-quote
  characters (the capture group), one quote character. The greedy \<open>+\<close> has nothing to
  backtrack to: a shorter run is followed by a non-quote character. The result is the
  capture and the input after the match (where \<open>lastIndex\<close> points).
\<close>

fun testRegex_at :: "string \<Rightarrow> (string \<times> string) option" where
  "testRegex_at (a # b # c # q # rest) =
     (if a = CHR ''i'' \<and> b = CHR ''t'' \<and> c = CHR ''('' \<and> isQuote q then
        (let title = takeWhile (\<lambda>x. \<not> isQuote x) rest;
             after = dropWhile (\<lambda>x. \<not> isQuote x) rest
         in if title \<noteq> [] \<and> after \<noteq> [] then Some (title, tl after) else None)
      else None)"
| "testRegex_at _ = None"

text \<open>
  The loop \<open>while ((match = testRegex.exec(content)) !== null) testCases.push(match[1])\<close>
  with the global flag: the search resumes after the previous match, and an attempt that
  fails at one position is retried one character further.
\<close>

function testCases_of :: "string \<Rightarrow> string list" where
  "testCases_of [] = []"
| "testCases_of (c # cs) =
     (case testRegex_at (c # cs) of
        Some (title, rest) \<Rightarrow> title # testCases_of rest
      | None \<Rightarrow> testCases_of cs)"
  by pat_completeness auto
termination
proof (relation "measure length")
  fix c cs x2 title rest
  assume m: "testRegex_at (c # cs) = Some x2" and x2: "(title, rest) = x2"
  have "length (tl (dropWhile (\<lambda>x. \<not> isQuote x) r)) \<le> length r" for r
    using length_dropWhile_le [of "\<lambda>x. \<not> isQuote x" r] by simp
  with m x2 have "length rest < length (c # cs)"
    by (cases "c # cs" rule: testRegex_at.cases)
      (auto simp: Let_def less_Suc_eq_le le_SucI split: if_splits)
  then show "(rest, c # cs) \<in> measure length" by simp
qed auto

section \<open>The file system, the console and the clock\<close>

text \<open>
  A path as the scripts hold it is a string. \<open>path.join\<close> concatenates its non-empty
  arguments with \<open>/\<close> and normalises the result: empty and \<open>.\<close> segments vanish, and
  \<open>..\<close> removes the segment before it; where there is none to remove, \<open>..\<close> is kept in
  a relative path and dropped in an absolute one. The result is absolute when the first
  non-empty argument starts with \<open>/\<close>. A normalised path is held as the pair of whether
  it is absolute and the list of its segments. (A trailing \<open>/\<close>, which \<open>path.join\<close>
  keeps, is not recorded: the file system reaches the same place with and without it.)
\<close>

type_synonym pathname = "bool \<times> string list"

fun splitOn :: "char \<Rightarrow> string \<Rightarrow> string list" where
  "splitOn d [] = [[]]"
| "splitOn d (c # cs) =
     (if c = d then [] # splitOn d cs
      else (case splitOn d cs of [] \<Rightarrow> [[c]] | seg # segs \<Rightarrow> (c # seg) # segs))"

definition normalizeStep :: "bool \<Rightarrow> string list \<Rightarrow> string \<Rightarrow> string list" where
  "normalizeStep allowAboveRoot acc seg =
     (if seg = [] \<or> seg = ''.'' then acc
      else if seg = ''..'' then
        (if acc \<noteq> [] \<and> last acc \<noteq> ''..'' then butlast acc
         else if allowAboveRoot then acc @ [''..'']
         else acc)
      else acc @ [seg])"

definition path_join :: "string list \<Rightarrow> pathname" where
  "path_join parts =
     (let joined = filter (\<lambda>part. part \<noteq> []) parts;
          isAbsolute = (joined \<noteq> [] \<and> hd (hd joined) = CHR ''/'')
      in (isAbsolute,
          foldl (normalizeStep (\<not> isAbsolute)) [] (concat (map (splitOn (CHR ''/'')) joined))))"

text \<open>\<open>path.dirname\<close> of a normalised path, and the string the path is.\<close>

definition path_dirname :: "pathname \<Rightarrow> pathname" where
  "path_dirname p = (fst p, butlast (snd p))"

definition showPath :: "pathname \<Rightarrow> string" where
  "showPath p =
     (if fst p then ''/'' @ join ''/'' (snd p)
      else if snd p = [] then ''.''
      else join ''/'' (snd p))"

text \<open>
  A place in the file system is the list of the names that lead to it from the root
  directory. The file system finds the place a path names by starting at the root for
  an absolute path and at the working directory of the process for a relative one;
  \<open>..\<close> leads to the parent, and from the root to the root.
\<close>

type_synonym path = "string list"

definition resolve :: "path \<Rightarrow> pathname \<Rightarrow> path" where
  "resolve workdir p = foldl (normalizeStep False) (if fst p then [] else workdir) (snd p)"

text \<open>
  The file system is a map from paths to what is there: a regular file with its
  content, or a directory.
\<close>

datatype entry = File string | Dir

type_synonym fsys = "path \<Rightarrow> entry option"

datatype io_error = ENOENT | EISDIR | ENOTDIR | SyntaxError | TypeError

definition existsSync :: "fsys \<Rightarrow> path \<Rightarrow> bool" where
  "existsSync fs p \<longleftrightarrow> fs p \<noteq> None"

definition isFile :: "fsys \<Rightarrow> path \<Rightarrow> bool" where
  "isFile fs p \<longleftrightarrow> (case fs p of Some (File c) \<Rightarrow> True | _ \<Rightarrow> False)"

text \<open>
  \<open>fs.mkdirSync(p, { recursive: true })\<close>: every missing directory on the way to
  \<open>p\<close> is created; a regular file on the way is an error and nothing is created.
\<close>

definition mkdirSync_recursive :: "path \<Rightarrow> fsys \<Rightarrow> io_error option \<times> fsys" where
  "mkdirSync_recursive p fs =
     (if list_ex (isFile fs) (prefixes p) then (Some ENOTDIR, fs)
      else (None, (\<lambda>q. if prefix q p \<and> fs q = None then Some Dir else fs q)))"

text \<open>
  \<open>fs.existsSync\<close> and \<open>fs.mkdirSync\<close> on a path given as the caller wrote it, for
  the working directory \<open>workdir\<close>: the empty string names nothing and cannot be
  created.
\<close>

definition existsSync_at :: "path \<Rightarrow> fsys \<Rightarrow> string \<Rightarrow> bool" where
  "existsSync_at workdir fs filePath \<longleftrightarrow>
     filePath \<noteq> [] \<and> existsSync fs (resolve workdir (path_join [filePath]))"

definition mkdirSync_at :: "path \<Rightarrow> string \<Rightarrow> fsys \<Rightarrow> io_error option \<times> fsys" where
  "mkdirSync_at workdir dirPath fs =
     (if dirPath = [] then (Some ENOENT, fs)
      else mkdirSync_recursive (resolve workdir (path_join [dirPath])) fs)"

text \<open>
  \<open>fs.writeFileSync(p, data)\<close>, and the destination side of \<open>fs.copyFileSync\<close>, at
  the place \<open>p\<close>: the parent \<open>butlast p\<close> must be a directory and \<open>p\<close> itself must
  not be one; an existing file is overwritten.
\<close>

definition writeFileSync :: "path \<Rightarrow> string \<Rightarrow> fsys \<Rightarrow> io_error option \<times> fsys" where
  "writeFileSync p data fs =
     (case fs (butlast p) of
        None \<Rightarrow> (Some ENOENT, fs)
      | Some (File c) \<Rightarrow> (Some ENOTDIR, fs)
      | Some Dir \<Rightarrow>
          (case fs p of
             Some Dir \<Rightarrow> (Some EISDIR, fs)
           | _ \<Rightarrow> (None, fs(p \<mapsto> File data))))"

definition readFileSync :: "fsys \<Rightarrow> path \<Rightarrow> io_error + string" where
  "readFileSync fs p =
     (case fs p of
        None \<Rightarrow> Inl ENOENT
      | Some Dir \<Rightarrow> Inl EISDIR
      | Some (File c) \<Rightarrow> Inr c)"

text \<open>
  A directory tree that is only read (the base template, the payload directories): the
  entries of a directory in the order \<open>readdirSync\<close> lists them.
\<close>

datatype tnode = TFile string | TDir "(string \<times> tnode) list"

text \<open>\<open>fs.copyFileSync(src, dest)\<close> for a source that exists.\<close>

definition copyFileSync :: "tnode \<Rightarrow> path \<Rightarrow> fsys \<Rightarrow> io_error option \<times> fsys" where
  "copyFileSync src dest fs =
     (case src of
        TDir es \<Rightarrow> (Some EISDIR, fs)
      | TFile c \<Rightarrow> writeFileSync dest c fs)"

text \<open>The console: what was printed, with the channel it was printed on.\<close>

datatype log_entry =
    Log string
  | Warn string
  | Error string
  | ErrorObj string io_error


text \<open>
  The state the scripts act on. \<open>ticks\<close> counts the evaluations of
  \<open>new Date().toISOString()\<close> made so far; the host supplies the reading of each.
\<close>

record world =
  disk :: fsys
  console :: "log_entry list"
  ticks :: nat

datatype status = Completed | Exited nat | Thrown io_error

type_synonym step = "world \<Rightarrow> io_error option \<times> world"

definition andThen :: "step \<Rightarrow> step \<Rightarrow> step" where
  "andThen f g w = (case f w of (None, w') \<Rightarrow> g w' | (Some e, w') \<Rightarrow> (Some e, w'))"

definition skip :: step where
  "skip w = (None, w)"

text \<open>Statements in sequence; an exception ends the sequence, keeping what was done.\<close>

definition steps :: "step list \<Rightarrow> step" where
  "steps ss = foldr andThen ss skip"

definition say :: "log_entry \<Rightarrow> world \<Rightarrow> world" where
  "say m w = w\<lparr>console := console w @ [m]\<rparr>"

definition logStep :: "log_entry \<Rightarrow> step" where
  "logStep m w = (None, say m w)"

definition fsStep :: "(fsys \<Rightarrow> io_error option \<times> fsys) \<Rightarrow> step" where
  "fsStep f w = (case f (disk w) of (r, fs') \<Rightarrow> (r, w\<lparr>disk := fs'\<rparr>))"

definition whenStep :: "(fsys \<Rightarrow> bool) \<Rightarrow> step \<Rightarrow> step" where
  "whenStep c body w = (if c (disk w) then body w else (None, w))"

section \<open>JSON values\<close>

text \<open>
  The values \<open>JSON.parse\<close> produces. An object is the list of its own properties in
  enumeration order. The scripts never calculate with a number they parsed: they only
  write it back. A number is therefore held as the numeral by which \<open>JSON.stringify\<close>
  writes it (\<open>1.5\<close>, \<open>1e+21\<close>, \<open>9007199254740992\<close>); the parser, which is the
  host's, chooses it.
\<close>

datatype json =
    JNull
  | JBool bool
  | JNumber string
  | JString string
  | JArray "json list"
  | JObject "(string \<times> json) list"

definition hexDigit :: "nat \<Rightarrow> char" where
  "hexDigit d = (if d < 10 then char_of (48 + d) else char_of (87 + d))"

text \<open>\<open>QuoteJSONString\<close>, character by character.\<close>

definition escapeChar :: "char \<Rightarrow> string" where
  \<open>escapeChar c =
     (if c = CHR 0x22 then [CHR 0x5C, CHR 0x22]
      else if c = CHR 0x5C then [CHR 0x5C, CHR 0x5C]
      else if c = CHR 0x08 then [CHR 0x5C, CHR ''b'']
      else if c = CHR 0x0C then [CHR 0x5C, CHR ''f'']
      else if c = CHR 0x0A then [CHR 0x5C, CHR ''n'']
      else if c = CHR 0x0D then [CHR 0x5C, CHR ''r'']
      else if c = CHR 0x09 then [CHR 0x5C, CHR ''t'']
      else if of_char c < (32 :: nat) then
        [CHR 0x5C, CHR ''u'', CHR ''0'', CHR ''0'',
         hexDigit (of_char c div 16), hexDigit (of_char c mod 16)]
      else [c])\<close>

definition quoteJSON :: "string \<Rightarrow> string" where
  \<open>quoteJSON s = [CHR 0x22] @ concat (map escapeChar s) @ [CHR 0x22]\<close>

definition spaces :: "nat \<Rightarrow> string" where
  "spaces n = replicate n (CHR '' '')"

text \<open>
  \<open>JSON.stringify(value, null, 2)\<close> for a value nested at indentation \<open>ind\<close>: members
  one per line, two more spaces per level, an empty array or object on one line.
\<close>

fun stringify_at :: "nat \<Rightarrow> json \<Rightarrow> string" where
  "stringify_at ind JNull = ''null''"
| "stringify_at ind (JBool b) = (if b then ''true'' else ''false'')"
| "stringify_at ind (JNumber digits) = digits"
| "stringify_at ind (JString s) = quoteJSON s"
| "stringify_at ind (JArray vs) =
     (if vs = [] then ''[]''
      else ''['' @ nl
        @ join ('','' @ nl) (map (\<lambda>v. spaces (ind + 2) @ stringify_at (ind + 2) v) vs)
        @ nl @ spaces ind @ '']'')"
| "stringify_at ind (JObject kvs) =
     (if kvs = [] then ''{}''
      else ''{'' @ nl
        @ join ('','' @ nl)
            (map (\<lambda>kv. spaces (ind + 2) @ quoteJSON (fst kv) @ '': ''
                        @ stringify_at (ind + 2) (snd kv)) kvs)
        @ nl @ spaces ind @ ''}'')"

definition JSON_stringify :: "json \<Rightarrow> string" where
  "JSON_stringify v = stringify_at 0 v"

text \<open>
  \<open>obj[k] = v\<close> on a plain object: an existing own property keeps its place, a new one
  goes last.
\<close>

fun setField :: "string \<Rightarrow> json \<Rightarrow> (string \<times> json) list \<Rightarrow> (string \<times> json) list" where
  "setField k v [] = [(k, v)]"
| "setField k v ((k', v') # kvs) =
     (if k' = k then (k, v) # kvs else (k', v') # setField k v kvs)"

text \<open>
  The assignments \<open>packageJson.f1 = v1; ...; packageJson.fn = vn\<close> on whatever
  \<open>JSON.parse\<close> returned. The scripts are modules, hence strict code: assigning a
  property of \<open>null\<close> or of a primitive throws \<open>TypeError\<close>. An array takes the named
  properties, but \<open>JSON.stringify\<close> writes only its elements.
\<close>

definition assignFields :: "(string \<times> json) list \<Rightarrow> json \<Rightarrow> io_error + json" where
  "assignFields updates target =
     (case target of
        JObject kvs \<Rightarrow> Inr (JObject (foldl (\<lambda>acc kv. setField (fst kv) (snd kv) acc) kvs updates))
      | JArray vs \<Rightarrow> Inr (JArray vs)
      | _ \<Rightarrow> Inl TypeError)"

definition fieldOf :: "json \<Rightarrow> string \<Rightarrow> json option" where
  "fieldOf v k = (case v of JObject kvs \<Rightarrow> map_of kvs k | _ \<Rightarrow> None)"

section \<open>The host\<close>

text \<open>
  What the scripts read and never write: the working directory of the process
  (\<open>process.cwd()\<close>, a place), the clock, the library functions \<open>JSON.parse\<close>
  (\<open>None\<close> where it throws \<open>SyntaxError\<close>) and \<open>String.prototype.toUpperCase\<close> (the
  case mapping of Unicode, on strings held as UTF-8), the base template directory and
  the two payload directories next to the scripts (\<open>__dirname/../base-template\<close>,
  \<open>__dirname/../contracts\<close>, \<open>__dirname/../test\<close>). The destination of a generated
  project lies outside these three directories.
\<close>

record host =
  cwd :: path
  clock :: "nat \<Rightarrow> string"
  JSON_parse :: "string \<Rightarrow> json option"
  toUpperCase :: "string \<Rightarrow> string"
  base_template :: "(string \<times> tnode) list"
  contracts_dir :: "string \<Rightarrow> tnode option"
  test_dir :: "string \<Rightarrow> tnode option"

text \<open>The place at which the file system finds \<open>path.join(parts)\<close>.\<close>

definition fs_path :: "host \<Rightarrow> string list \<Rightarrow> path" where
  "fs_path h parts = resolve (cwd h) (path_join parts)"

text \<open>\<open>new Date().toISOString()\<close>: the next reading of the clock.\<close>

definition toISOString_now :: "host \<Rightarrow> world \<Rightarrow> string \<times> world" where
  "toISOString_now h w = (clock h (ticks w), w\<lparr>ticks := Suc (ticks w)\<rparr>)"

section \<open>The registry (scripts/create-fhevm-example.ts)\<close>

record Documentation =
  overview :: string
  keyFeatures :: "string list"
  learningOutcomes :: "string list"

record ExampleConfig =
  name :: string
  description :: string
  category :: string
  contractFile :: string
  testFile :: string
  complexity :: string
  keywords_field :: "string list"
  documentation :: Documentation

text \<open>
  (The field \<open>keywords\<close> is called \<open>keywords_field\<close>: the former is reserved.)
  A registry is the list of its entries in the order \<open>Object.entries\<close> enumerates
  them. The functions below take the registry as an argument; \<open>EXAMPLES_MAP\<close> is the
  one the script ships.
\<close>

type_synonym registry = "(string \<times> ExampleConfig) list"

text \<open>
  \<open>EXAMPLES_MAP\<close>, \<open>CATEGORIES\<close> and \<open>DOCS_CONFIG\<close> are object literals, so
  \<open>table[key]\<close> finds an own property first (\<open>map_of\<close>) and then what every object
  inherits from \<open>Object.prototype\<close>: eleven functions and the accessor \<open>__proto__\<close>,
  which yields \<open>Object.prototype\<close> itself. Each of these values is truthy. Of the
  properties the scripts read from an entry it has only \<open>name\<close>, and only if it is a
  function; every other one is \<open>undefined\<close>. The list gives, for each inherited key,
  the \<open>name\<close> of its value.
\<close>

definition Object_prototype :: "(string \<times> string option) list" where
  "Object_prototype =
     [(''constructor'', Some ''Object''),
      (''__defineGetter__'', Some ''__defineGetter__''),
      (''__defineSetter__'', Some ''__defineSetter__''),
      (''hasOwnProperty'', Some ''hasOwnProperty''),
      (''__lookupGetter__'', Some ''__lookupGetter__''),
      (''__lookupSetter__'', Some ''__lookupSetter__''),
      (''isPrototypeOf'', Some ''isPrototypeOf''),
      (''propertyIsEnumerable'', Some ''propertyIsEnumerable''),
      (''toString'', Some ''toString''),
      (''valueOf'', Some ''valueOf''),
      (''__proto__'', None),
      (''toLocaleString'', Some ''toLocaleString'')]"

text \<open>A property that may be \<open>undefined\<close>, as a template literal prints it.\<close>

definition printed :: "string option \<Rightarrow> string" where
  "printed v = (case v of None \<Rightarrow> ''undefined'' | Some text \<Rightarrow> text)"

definition EXAMPLES_MAP :: registry where
  \<open>EXAMPLES_MAP =
    [(''confidential-supplier-management'',
      \<lparr>name = ''Confidential Supplier Management System'',
       description = ''Privacy-preserving supplier management with encrypted ratings and comparisons'',
       category = ''enterprise'',
       contractFile = ''SupplierManagement.sol'',
       testFile = ''SupplierManagement.ts'',
       complexity = ''advanced'',
       keywords_field = [''access-control'', ''privacy'', ''enterprise'', ''supplier-management''],
       documentation =
         \<lparr>overview = ''Demonstrates FHE-based supplier management with encrypted ratings, access control, and privacy-preserving operations.'',
          keyFeatures =
            [''Encrypted supplier ratings (euint8)'',
             ''Privacy-preserving comparisons'',
             ''Owner-only decryption access'',
             ''Async callback-based decryption'',
             ''Proper FHE permission handling''],
          learningOutcomes =
            [''How to encrypt sensitive business data'',
             ''Managing permissions for encrypted values'',
             ''Implementing access control patterns'',
             ''Async decryption workflows'',
             ''Real-world enterprise applications of FHE'']\<rparr>\<rparr>),
     (''fhe-counter'',
      \<lparr>name = ''FHE Counter'',
       description = ''Simple encrypted counter demonstrating basic FHE operations'',
       category = ''basic'',
       contractFile = ''FHECounter.sol'',
       testFile = ''FHECounter.ts'',
       complexity = ''beginner'',
       keywords_field = [''counter'', ''arithmetic'', ''encryption''],
       documentation =
         \<lparr>overview = ''Demonstrates simple FHE counter with increment and decrement operations.'',
          keyFeatures =
            [''Encrypted counter state'',
             ''Arithmetic operations on encrypted values'',
             ''Basic permission handling'',
             ''Event logging''],
          learningOutcomes =
            [''How to work with encrypted integers'',
             ''Basic FHE operations (add, subtract)'',
             ''Permission management'',
             ''Testing FHE contracts'']\<rparr>\<rparr>)]\<close>

section \<open>The example generator (scripts/create-fhevm-example.ts)\<close>

text \<open>
  \<open>copyDirectory(src, dest)\<close>, for the list of entry names it skips (the two scripts
  each have their own copy of the function, with different lists). \<open>src\<close> is given by
  its entries; a name \<open>readdirSync\<close> returns is one path component, so
  \<open>path.join(dest, entry.name)\<close> is \<open>dest @ [name]\<close>.
\<close>

fun copyDirectoryWith ::
      "string list \<Rightarrow> (string \<times> tnode) list \<Rightarrow> path \<Rightarrow> fsys \<Rightarrow> io_error option \<times> fsys"
  and copyEntriesWith ::
      "string list \<Rightarrow> (string \<times> tnode) list \<Rightarrow> path \<Rightarrow> fsys \<Rightarrow> io_error option \<times> fsys"
where
  "copyDirectoryWith skipped es dest fs =
     (case (if \<not> existsSync fs dest then mkdirSync_recursive dest fs else (None, fs)) of
        (Some e, fs') \<Rightarrow> (Some e, fs')
      | (None, fs') \<Rightarrow> copyEntriesWith skipped es dest fs')"
| "copyEntriesWith skipped [] dest fs = (None, fs)"
| "copyEntriesWith skipped ((entryName, node) # rest) dest fs =
     (if entryName \<in> set skipped then copyEntriesWith skipped rest dest fs
      else
        (case (case node of
                 TDir sub \<Rightarrow> copyDirectoryWith skipped sub (dest @ [entryName]) fs
               | TFile c \<Rightarrow> copyFileSync node (dest @ [entryName]) fs) of
           (Some e, fs') \<Rightarrow> (Some e, fs')
         | (None, fs') \<Rightarrow> copyEntriesWith skipped rest dest fs'))"

definition copyDirectory :: "(string \<times> tnode) list \<Rightarrow> path \<Rightarrow> fsys \<Rightarrow> io_error option \<times> fsys" where
  "copyDirectory src dest fs =
     copyDirectoryWith [''node_modules'', ''artifacts'', ''cache'', ''.git''] src dest fs"

text \<open>
  \<open>s.charAt(0).toUpperCase() + s.slice(1)\<close> on a string held as UTF-8.
  \<open>charAt(0)\<close> is the first UTF-16 code unit: the whole first character when it lies in
  the basic plane (one to three bytes of UTF-8), and one half of a surrogate pair
  otherwise (four bytes), which \<open>toUpperCase\<close> leaves as it is and \<open>slice(1)\<close>
  completes again. On the empty string both parts are empty.
\<close>

definition firstCharLength :: "string \<Rightarrow> nat" where
  "firstCharLength s =
     (case s of
        [] \<Rightarrow> 0
      | c # cs \<Rightarrow>
          (if of_char c < (128 :: nat) then 1
           else if of_char c < (224 :: nat) then 2
           else if of_char c < (240 :: nat) then 3
           else 4))"

definition capitalize :: "host \<Rightarrow> string \<Rightarrow> string" where
  "capitalize h s =
     (if s = [] \<or> firstCharLength s = 4 then s
      else toUpperCase h (take (firstCharLength s) s) @ drop (firstCharLength s) s)"

text \<open>\<open>s.replace(/_/g, "-")\<close>.\<close>

definition replaceUnderscores :: "string \<Rightarrow> string" where
  "replaceUnderscores s = map (\<lambda>c. if c = CHR ''_'' then CHR ''-'' else c) s"

text \<open>A text given line by line, each line ended by a line feed.\<close>

definition unlines :: "string list \<Rightarrow> string" where
  "unlines ls = concat (map (\<lambda>l. l @ nl) ls)"

definition bullets :: "string list \<Rightarrow> string" where
  "bullets xs = join nl (map (\<lambda>x. ''- '' @ x) xs)"

definition JStrings :: "string list \<Rightarrow> json" where
  "JStrings xs = JArray (map JString xs)"

text \<open>\<open>updatePackageJson(outputPath, exampleName, config)\<close>.\<close>

definition updatePackageJson :: "host \<Rightarrow> string \<Rightarrow> string \<Rightarrow> ExampleConfig \<Rightarrow> step" where
  "updatePackageJson h outputPath exampleName config w =
     (let packageJsonPath = fs_path h [outputPath, ''package.json''] in
      case readFileSync (disk w) packageJsonPath of
        Inl e \<Rightarrow> (Some e, w)
      | Inr content \<Rightarrow>
          (case JSON_parse h content of
             None \<Rightarrow> (Some SyntaxError, w)
           | Some packageJson \<Rightarrow>
               (case assignFields
                       [(''name'', JString (replaceUnderscores exampleName)),
                        (''description'', JString (ExampleConfig.description config)),
                        (''keywords'', JStrings (keywords_field config))] packageJson of
                  Inl e \<Rightarrow> (Some e, w)
                | Inr named \<Rightarrow>
                    (case toISOString_now h w of
                       (now, w') \<Rightarrow>
                         (case assignFields
                                 [(''fhevmExample'',
                                   JObject
                                     [(''name'', JString (ExampleConfig.name config)),
                                      (''category'', JString (ExampleConfig.category config)),
                                      (''complexity'', JString (ExampleConfig.complexity config)),
                                      (''generatedAt'', JString now)])] named of
                            Inl e \<Rightarrow> (Some e, w')
                          | Inr patched \<Rightarrow>
                              fsStep (writeFileSync packageJsonPath (JSON_stringify patched)) w')))))"

definition readme_quick_start :: "string list" where
  \<open>readme_quick_start = [[],
     ''## Quick Start'',
     [],
     ''### Installation'',
     ''```bash'',
     ''npm install'',
     ''```'',
     [],
     ''### Compilation'',
     ''```bash'',
     ''npm run compile'',
     ''```'',
     [],
     ''### Testing'',
     ''```bash'',
     ''npm run test'',
     ''```'',
     [],
     ''### Deployment'',
     ''```bash'',
     ''npm run deploy:sepolia'',
     ''```'',
     [],
     ''## Files'',
     []]\<close>

definition readme_resources :: "string list" where
  \<open>readme_resources = [[],
     ''## Resources'',
     [],
     ''- [FHEVM Documentation](https://docs.zama.ai/fhevm)'',
     ''- [Hardhat Documentation](https://hardhat.org/)'',
     ''- [Zama Community](https://www.zama.ai/community)'',
     [],
     ''---'',
     []]\<close>

text \<open>The README text of \<open>generateReadme\<close>, for the clock reading \<open>now\<close>.\<close>

definition readme_text :: "host \<Rightarrow> ExampleConfig \<Rightarrow> string \<Rightarrow> string" where
  \<open>readme_text h config now =
     unlines
       ([''# '' @ ExampleConfig.name config,
         [],
         ''## Overview'',
         [],
         overview (documentation config),
         [],
         ''## Complexity Level'',
         ''**'' @ toUpperCase h (ExampleConfig.complexity config) @ ''**'',
         [],
         ''## Key Features'',
         [],
         bullets (keyFeatures (documentation config)),
         [],
         ''## Learning Outcomes'',
         [],
         bullets (learningOutcomes (documentation config))]
        @ readme_quick_start
        @ [''- **Contract**: `contracts/'' @ contractFile config @ ''`'',
           ''- **Tests**: `test/'' @ testFile config @ ''`'',
           ''- **Deployment**: `scripts/deploy.ts`'',
           [],
           ''## Category'',
           ''**'' @ capitalize h (ExampleConfig.category config) @ ''**'']
        @ readme_resources
        @ [''Generated: '' @ now])\<close>

text \<open>\<open>generateReadme(outputPath, exampleName, config)\<close>.\<close>

definition generateReadme :: "host \<Rightarrow> string \<Rightarrow> string \<Rightarrow> ExampleConfig \<Rightarrow> step" where
  "generateReadme h outputPath exampleName config w =
     (case toISOString_now h w of
        (now, w') \<Rightarrow>
          fsStep (writeFileSync (fs_path h [outputPath, ''README.md'']) (readme_text h config now)) w')"

definition documentation_json :: "Documentation \<Rightarrow> json" where
  "documentation_json d =
     JObject
       [(''overview'', JString (overview d)),
        (''keyFeatures'', JStrings (keyFeatures d)),
        (''learningOutcomes'', JStrings (learningOutcomes d))]"

definition metadata_json :: "string \<Rightarrow> ExampleConfig \<Rightarrow> string \<Rightarrow> json" where
  "metadata_json exampleName config now =
     JObject
       [(''id'', JString exampleName),
        (''name'', JString (ExampleConfig.name config)),
        (''description'', JString (ExampleConfig.description config)),
        (''category'', JString (ExampleConfig.category config)),
        (''complexity'', JString (ExampleConfig.complexity config)),
        (''keywords'', JStrings (keywords_field config)),
        (''contractFile'', JString (contractFile config)),
        (''testFile'', JString (testFile config)),
        (''generatedAt'', JString now),
        (''documentation'', documentation_json (documentation config))]"

text \<open>\<open>createMetadata(outputPath, exampleName, config)\<close>.\<close>

definition createMetadata :: "host \<Rightarrow> string \<Rightarrow> string \<Rightarrow> ExampleConfig \<Rightarrow> step" where
  "createMetadata h outputPath exampleName config w =
     (case toISOString_now h w of
        (now, w') \<Rightarrow>
          fsStep (writeFileSync (fs_path h [outputPath, ''.fhevm-example.json''])
                    (JSON_stringify (metadata_json exampleName config now))) w')"

text \<open>
  The \<open>try\<close> block of \<open>createExample\<close>. A payload file that is not on disk is passed
  over: the \<open>if\<close> has no \<open>else\<close>.
\<close>

definition createExample_try :: "host \<Rightarrow> string \<Rightarrow> string \<Rightarrow> ExampleConfig \<Rightarrow> step" where
  \<open>createExample_try h exampleName outputPath config =
     steps
       [whenStep (\<lambda>fs. \<not> existsSync_at (cwd h) fs outputPath)
          (steps [fsStep (mkdirSync_at (cwd h) outputPath),
                  logStep (Log (([CHR 0xE2, CHR 0x9C, CHR 0x85] @ '' Created directory: '') @ outputPath))]),
        fsStep (copyDirectory (base_template h) (fs_path h [outputPath])),
        logStep (Log ([CHR 0xE2, CHR 0x9C, CHR 0x85] @ '' Copied base template'')),
        (case contracts_dir h (contractFile config) of
           None \<Rightarrow> skip
         | Some contractSrc \<Rightarrow>
             steps [fsStep (copyFileSync contractSrc
                              (fs_path h [outputPath, ''contracts'', contractFile config])),
                    logStep (Log (([CHR 0xE2, CHR 0x9C, CHR 0x85] @ '' Copied contract: '') @ contractFile config))]),
        (case test_dir h (testFile config) of
           None \<Rightarrow> skip
         | Some testSrc \<Rightarrow>
             steps [fsStep (copyFileSync testSrc
                              (fs_path h [outputPath, ''test'', testFile config])),
                    logStep (Log (([CHR 0xE2, CHR 0x9C, CHR 0x85] @ '' Copied test: '') @ testFile config))]),
        updatePackageJson h outputPath exampleName config,
        logStep (Log ([CHR 0xE2, CHR 0x9C, CHR 0x85] @ '' Updated package.json'')),
        generateReadme h outputPath exampleName config,
        logStep (Log ([CHR 0xE2, CHR 0x9C, CHR 0x85] @ '' Generated README.md'')),
        createMetadata h outputPath exampleName config,
        logStep (Log ([CHR 0xE2, CHR 0x9C, CHR 0x85] @ '' Created example metadata'')),
        logStep (Log (nl @ ([CHR 0xE2, CHR 0x9C, CHR 0x85] @ '' Example created successfully!'') @ nl)),
        logStep (Log ''Next steps:''),
        logStep (Log (''  cd '' @ outputPath)),
        logStep (Log ''  npm install''),
        logStep (Log ''  npm run compile''),
        logStep (Log ''  npm run test'')]\<close>

text \<open>
  The \<open>try\<close> block when \<open>config\<close> is a value inherited from \<open>Object.prototype\<close>:
  steps 1 and 2 run as for an entry, then \<open>config.contractFile\<close> is \<open>undefined\<close> and
  \<open>path.join\<close> throws \<open>TypeError\<close>. The result is the exception that ends the block.
\<close>

definition createExample_inherited :: "host \<Rightarrow> string \<Rightarrow> world \<Rightarrow> io_error \<times> world" where
  \<open>createExample_inherited h outputPath w =
     (case steps
             [whenStep (\<lambda>fs. \<not> existsSync_at (cwd h) fs outputPath)
                (steps [fsStep (mkdirSync_at (cwd h) outputPath),
                        logStep (Log (([CHR 0xE2, CHR 0x9C, CHR 0x85] @ '' Created directory: '') @ outputPath))]),
              fsStep (copyDirectory (base_template h) (fs_path h [outputPath])),
              logStep (Log ([CHR 0xE2, CHR 0x9C, CHR 0x85] @ '' Copied base template''))] w of
        (Some e, w') \<Rightarrow> (e, w')
      | (None, w') \<Rightarrow> (TypeError, w'))\<close>

text \<open>
  \<open>createExample(exampleName, outputPath)\<close>: an unknown example and any exception of
  the \<open>try\<close> block end in \<open>process.exit(1)\<close>.
\<close>

definition createExample :: "host \<Rightarrow> registry \<Rightarrow> string \<Rightarrow> string \<Rightarrow> world \<Rightarrow> status \<times> world" where
  \<open>createExample h reg exampleName outputPath w =
     (case map_of reg exampleName of
        None \<Rightarrow>
          (case map_of Object_prototype exampleName of
             None \<Rightarrow>
               (Exited 1,
                say (Log (''Available examples: '' @ join '', '' (map fst reg)))
                  (say (Error (([CHR 0xE2, CHR 0x9D, CHR 0x8C] @ '' Example not found: '') @ exampleName)) w))
           | Some inheritedName \<Rightarrow>
               (case createExample_inherited h outputPath
                       (say (Log (([CHR 0xF0, CHR 0x9F, CHR 0x93, CHR 0x8D] @ '' Output: '') @ outputPath @ nl))
                          (say (Log (nl @ ([CHR 0xF0, CHR 0x9F, CHR 0x93, CHR 0xA6] @ '' Creating FHEVM Example: '') @ printed inheritedName)) w)) of
                  (e, w') \<Rightarrow> (Exited 1, say (ErrorObj ([CHR 0xE2, CHR 0x9D, CHR 0x8C] @ '' Error creating example:'') e) w')))
      | Some config \<Rightarrow>
          (case createExample_try h exampleName outputPath config
                  (say (Log (([CHR 0xF0, CHR 0x9F, CHR 0x93, CHR 0x8D] @ '' Output: '') @ outputPath @ nl))
                     (say (Log (nl @ ([CHR 0xF0, CHR 0x9F, CHR 0x93, CHR 0xA6] @ '' Creating FHEVM Example: '') @ ExampleConfig.name config)) w)) of
             (None, w') \<Rightarrow> (Completed, w')
           | (Some e, w') \<Rightarrow> (Exited 1, say (ErrorObj ([CHR 0xE2, CHR 0x9D, CHR 0x8C] @ '' Error creating example:'') e) w')))\<close>

section \<open>The category generator (scripts/create-fhevm-category.ts)\<close>

record CategoryConfig =
  name :: string
  description :: string
  examples :: "string list"
  keyTopics :: "string list"

type_synonym categories = "(string \<times> CategoryConfig) list"

definition CATEGORIES :: categories where
  \<open>CATEGORIES =
    [(''enterprise'',
      \<lparr>name = ''Enterprise Applications'',
       description = ''Production-grade FHE examples for business applications'',
       examples = [''confidential-supplier-management''],
       keyTopics =
         [''Privacy-preserving business logic'',
          ''Access control patterns'',
          ''Enterprise data protection'',
          ''Real-world FHE applications'']\<rparr>),
     (''basic'',
      \<lparr>name = ''Basic Examples'',
       description = ''Foundational FHEVM concepts and operations'',
       examples = [''fhe-counter''],
       keyTopics =
         [''Encryption basics'',
          ''Arithmetic operations'',
          ''Permission management'',
          ''Testing FHE contracts'']\<rparr>)]\<close>

text \<open>The category script's own \<open>copyDirectory\<close>: two more names are skipped.\<close>

definition copyDirectory_category ::
    "(string \<times> tnode) list \<Rightarrow> path \<Rightarrow> fsys \<Rightarrow> io_error option \<times> fsys" where
  "copyDirectory_category src dest fs =
     copyDirectoryWith
       [''node_modules'', ''artifacts'', ''cache'', ''.git'', ''contracts'', ''test''] src dest fs"

text \<open>
  One payload file of the loop in \<open>createCategory\<close>: copied and recorded when it is on
  disk, passed over when it is not.
\<close>

definition copyPayload ::
    "tnode option \<Rightarrow> path \<Rightarrow> string \<Rightarrow> string list \<Rightarrow> world
      \<Rightarrow> io_error option \<times> string list \<times> world" where
  "copyPayload src dest fileName copied w =
     (case src of
        None \<Rightarrow> (None, copied, w)
      | Some node \<Rightarrow>
          (case fsStep (copyFileSync node dest) w of
             (Some e, w') \<Rightarrow> (Some e, copied, w')
           | (None, w') \<Rightarrow> (None, copied @ [fileName], w')))"

text \<open>
  The loop \<open>for (const exampleName of config.examples)\<close>, with the two arrays
  \<open>contractFiles\<close> and \<open>testFiles\<close> it fills. An identifier that names an inherited
  member passes the test \<open>if (!exampleConfig)\<close>; its \<open>contractFile\<close> is
  \<open>undefined\<close>, on which \<open>path.join\<close> throws \<open>TypeError\<close>.
\<close>

fun copyExamples ::
    "host \<Rightarrow> registry \<Rightarrow> string \<Rightarrow> string list \<Rightarrow> string list \<times> string list \<Rightarrow> world
      \<Rightarrow> io_error option \<times> (string list \<times> string list) \<times> world" where
  \<open>copyExamples h reg outputPath [] (contractFiles, testFiles) w =
     (None, (contractFiles, testFiles), w)\<close>
| \<open>copyExamples h reg outputPath (exampleName # rest) (contractFiles, testFiles) w =
     (case map_of reg exampleName of
        None \<Rightarrow>
          (case map_of Object_prototype exampleName of
             None \<Rightarrow>
               copyExamples h reg outputPath rest (contractFiles, testFiles)
                 (say (Warn (([CHR 0xE2, CHR 0x9A, CHR 0xA0, CHR 0xEF, CHR 0xB8, CHR 0x8F] @ ''  Example not found: '') @ exampleName)) w)
           | Some inheritedName \<Rightarrow> (Some TypeError, (contractFiles, testFiles), w))
      | Some exampleConfig \<Rightarrow>
          (case copyPayload (contracts_dir h (contractFile exampleConfig))
                  (fs_path h [outputPath, ''contracts'', contractFile exampleConfig])
                  (contractFile exampleConfig) contractFiles w of
             (Some e, contractFiles', w') \<Rightarrow> (Some e, (contractFiles', testFiles), w')
           | (None, contractFiles', w') \<Rightarrow>
               (case copyPayload (test_dir h (testFile exampleConfig))
                       (fs_path h [outputPath, ''test'', testFile exampleConfig])
                       (testFile exampleConfig) testFiles w' of
                  (Some e, testFiles', w'') \<Rightarrow> (Some e, (contractFiles', testFiles'), w'')
                | (None, testFiles', w'') \<Rightarrow>
                    copyExamples h reg outputPath rest (contractFiles', testFiles') w'')))\<close>

text \<open>\<open>updatePackageJson(outputPath, categoryName, config)\<close> of the category script.\<close>

definition updatePackageJson_category :: "host \<Rightarrow> string \<Rightarrow> string \<Rightarrow> CategoryConfig \<Rightarrow> step" where
  "updatePackageJson_category h outputPath categoryName config w =
     (let packageJsonPath = fs_path h [outputPath, ''package.json''] in
      case readFileSync (disk w) packageJsonPath of
        Inl e \<Rightarrow> (Some e, w)
      | Inr content \<Rightarrow>
          (case JSON_parse h content of
             None \<Rightarrow> (Some SyntaxError, w)
           | Some packageJson \<Rightarrow>
               (case assignFields
                       [(''name'', JString (''fhevm-'' @ categoryName @ ''-examples'')),
                        (''description'', JString (CategoryConfig.description config)),
                        (''keywords'', JStrings [categoryName, ''fhevm'', ''examples''])]
                       packageJson of
                  Inl e \<Rightarrow> (Some e, w)
                | Inr named \<Rightarrow>
                    (case toISOString_now h w of
                       (now, w') \<Rightarrow>
                         (case assignFields
                                 [(''fhevmCategory'',
                                   JObject
                                     [(''name'', JString (CategoryConfig.name config)),
                                      (''category'', JString categoryName),
                                      (''examples'', JNumber (showNat (length (examples config)))),
                                      (''generatedAt'', JString now)])] named of
                            Inl e \<Rightarrow> (Some e, w')
                          | Inr patched \<Rightarrow>
                              fsStep (writeFileSync packageJsonPath (JSON_stringify patched)) w')))))"

text \<open>\<open>a || b\<close> on strings: the empty string is falsy.\<close>

definition orElse :: "string \<Rightarrow> string \<Rightarrow> string" where
  "orElse a b = (if a = [] then b else a)"

text \<open>
  One entry of the README's list of examples. For an identifier the registry does not
  know, \<open>exampleConfig\<close> is \<open>undefined\<close> or an inherited member: the two file names
  print as \<open>undefined\<close>, and the heading is the member's \<open>name\<close> if it has one.
\<close>

definition readme_example_entry :: "registry \<Rightarrow> string \<Rightarrow> string" where
  \<open>readme_example_entry reg example =
     (let exampleConfig = map_of reg example;
          inheritedName = (case map_of Object_prototype example of
                             Some (Some memberName) \<Rightarrow> memberName
                           | _ \<Rightarrow> [])
      in
      ''### '' @ orElse (case exampleConfig of None \<Rightarrow> inheritedName | Some c \<Rightarrow> ExampleConfig.name c) example @ nl
      @ (case exampleConfig of None \<Rightarrow> [] | Some c \<Rightarrow> ExampleConfig.description c) @ nl
      @ nl
      @ ''- **Contract**: `contracts/''
      @ (case exampleConfig of None \<Rightarrow> ''undefined'' | Some c \<Rightarrow> contractFile c) @ ''`'' @ nl
      @ ''- **Tests**: `test/''
      @ (case exampleConfig of None \<Rightarrow> ''undefined'' | Some c \<Rightarrow> testFile c) @ ''`'' @ nl)\<close>

definition category_readme_quick_start :: "string list" where
  \<open>category_readme_quick_start = [[],
     ''## Quick Start'',
     [],
     ''### Installation'',
     ''```bash'',
     ''npm install'',
     ''```'',
     [],
     ''### Compilation'',
     ''```bash'',
     ''npm run compile'',
     ''```'',
     [],
     ''### Testing'',
     ''```bash'',
     ''npm run test'',
     ''```'',
     [],
     ''### Deployment'',
     ''```bash'',
     ''npm run deploy:sepolia'',
     ''```'',
     [],
     ''## Project Structure'',
     [],
     ''```'',
     ''contracts/'']\<close>

definition category_readme_learning_path :: "string list" where
  \<open>category_readme_learning_path = [''scripts/'',
     (''  '' @ [CHR 0xE2, CHR 0x94, CHR 0x9C, CHR 0xE2, CHR 0x94, CHR 0x80, CHR 0xE2, CHR 0x94, CHR 0x80] @ '' deploy.ts''),
     (''  '' @ [CHR 0xE2, CHR 0x94, CHR 0x94, CHR 0xE2, CHR 0x94, CHR 0x80, CHR 0xE2, CHR 0x94, CHR 0x80] @ '' helpers.ts''),
     ''hardhat.config.ts'',
     ''package.json'',
     ''README.md'',
     ''```'',
     [],
     ''## Learning Path'',
     [],
     ''1. Start with the first example'',
     ''2. Review the contract comments'',
     ''3. Study the test cases'',
     ''4. Run the tests locally'',
     ''5. Deploy to testnet'',
     ''6. Experiment with modifications'',
     [],
     ''## Resources'',
     [],
     ''- [FHEVM Documentation](https://docs.zama.ai/fhevm)'',
     ''- [Hardhat Documentation](https://hardhat.org/)'',
     ''- [Zama Community](https://www.zama.ai/community)'',
     [],
     ''---'',
     []]\<close>

definition treeLine :: "string \<Rightarrow> string" where
  \<open>treeLine f = (''  '' @ [CHR 0xE2, CHR 0x94, CHR 0x9C, CHR 0xE2, CHR 0x94, CHR 0x80, CHR 0xE2, CHR 0x94, CHR 0x80] @ '' '') @ f\<close>

definition category_readme_text ::
    "registry \<Rightarrow> CategoryConfig \<Rightarrow> string list \<Rightarrow> string list \<Rightarrow> string \<Rightarrow> string" where
  \<open>category_readme_text reg config contractFiles testFiles now =
     unlines
       ([''# '' @ CategoryConfig.name config,
         [],
         ''## Overview'',
         [],
         CategoryConfig.description config,
         [],
         ''## Key Topics'',
         [],
         bullets (keyTopics config),
         [],
         ''## Included Examples'',
         [],
         join nl (map (readme_example_entry reg) (examples config))]
        @ category_readme_quick_start
        @ [join nl (map treeLine contractFiles),
           ''test/'',
           join nl (map treeLine testFiles)]
        @ category_readme_learning_path
        @ [''Generated: '' @ now])\<close>

text \<open>\<open>generateReadme(outputPath, categoryName, config, contractFiles, testFiles)\<close>.\<close>

definition generateReadme_category ::
    "host \<Rightarrow> registry \<Rightarrow> string \<Rightarrow> string \<Rightarrow> CategoryConfig \<Rightarrow> string list \<Rightarrow> string list \<Rightarrow> step" where
  "generateReadme_category h reg outputPath categoryName config contractFiles testFiles w =
     (case toISOString_now h w of
        (now, w') \<Rightarrow>
          fsStep (writeFileSync (fs_path h [outputPath, ''README.md''])
                    (category_readme_text reg config contractFiles testFiles now)) w')"

definition category_metadata_json :: "string \<Rightarrow> CategoryConfig \<Rightarrow> string \<Rightarrow> json" where
  "category_metadata_json categoryName config now =
     JObject
       [(''category'', JString categoryName),
        (''name'', JString (CategoryConfig.name config)),
        (''description'', JString (CategoryConfig.description config)),
        (''examples'', JStrings (examples config)),
        (''keyTopics'', JStrings (keyTopics config)),
        (''generatedAt'', JString now)]"

text \<open>\<open>createMetadata(outputPath, categoryName, config)\<close> of the category script.\<close>

definition createMetadata_category :: "host \<Rightarrow> string \<Rightarrow> string \<Rightarrow> CategoryConfig \<Rightarrow> step" where
  "createMetadata_category h outputPath categoryName config w =
     (case toISOString_now h w of
        (now, w') \<Rightarrow>
          fsStep (writeFileSync (fs_path h [outputPath, ''.fhevm-category.json''])
                    (JSON_stringify (category_metadata_json categoryName config now))) w')"

text \<open>\<open>s.replace(pattern, replacement)\<close> with a string pattern: the first occurrence only.\<close>

fun replaceFirst :: "string \<Rightarrow> string \<Rightarrow> string \<Rightarrow> string" where
  "replaceFirst pat rep [] = (if pat = [] then rep else [])"
| "replaceFirst pat rep (c # cs) =
     (if prefix pat (c # cs) then rep @ drop (length pat) (c # cs)
      else c # replaceFirst pat rep cs)"

definition deploy_script_head :: "string list" where
  \<open>deploy_script_head = [''async function main() {'',
     ''  console.log("Starting deployment of category examples...");'',
     [],
     ''  const network = await ethers.provider.getNetwork();'',
     ''  const [deployer] = await ethers.getSigners();'',
     [],
     ''  console.log(`Network: ${network.name} (Chain ID: ${network.chainId})`);'',
     ''  console.log(`Deployer: ${deployer.address}`);'',
     [],
     ''  const deployedContracts: Record<string, string> = {};'',
     []]\<close>

definition deploy_script_tail :: "string list" where
  \<open>deploy_script_tail = [[],
     (''  console.log("'' @ [CHR 0x5C] @ ''n'' @ [CHR 0xE2, CHR 0x9C, CHR 0x85] @ '' All contracts deployed successfully!");''),
     ''  console.log(JSON.stringify(deployedContracts, null, 2));'',
     ''}'',
     [],
     ''main().catch((error) => {'',
     ''  console.error(error);'',
     ''  process.exitCode = 1;'',
     ''});'']\<close>

text \<open>The deployment step the script holds for one contract name.\<close>

definition deploy_block :: "string \<Rightarrow> string" where
  \<open>deploy_block contractName =
     nl @ ''  // Deploy '' @ contractName @ nl
     @ ''  console.log("'' @ [CHR 0x5C] @ ''nDeploying '' @ contractName @ ''...");'' @ nl
     @ ''  const '' @ contractName @ ''Factory = await ethers.getContractFactory("'' @ contractName @ ''");'' @ nl
     @ ''  const '' @ contractName @ ''Instance = await '' @ contractName @ ''Factory.deploy();'' @ nl
     @ ''  await '' @ contractName @ ''Instance.deployed();'' @ nl
     @ ''  deployedContracts["'' @ contractName @ ''"] = '' @ contractName @ ''Instance.address;'' @ nl
     @ (''  console.log(`'' @ [CHR 0xE2, CHR 0x9C, CHR 0x85] @ '' '') @ contractName @ '' deployed to: ${'' @ contractName @ ''Instance.address}`);''\<close>

definition deploy_script_text :: "string list \<Rightarrow> string" where
  \<open>deploy_script_text contractFiles =
     (let contractNames = map (replaceFirst ''.sol'' []) contractFiles in
      unlines
        ([''import { ethers } from "hardhat";'',
          [],
          ''/**'',
          '' * Deployment script for '' @ join '', '' contractNames,
          '' */'']
         @ deploy_script_head
         @ [''  '' @ join nl (map deploy_block contractNames)]
         @ deploy_script_tail))\<close>

text \<open>\<open>generateDeploymentScript(outputPath, contractFiles)\<close>.\<close>

definition generateDeploymentScript :: "host \<Rightarrow> string \<Rightarrow> string list \<Rightarrow> step" where
  "generateDeploymentScript h outputPath contractFiles =
     fsStep (writeFileSync (fs_path h [outputPath, ''scripts'', ''deploy.ts''])
               (deploy_script_text contractFiles))"

text \<open>
  The \<open>try\<close> block of \<open>createCategory\<close>, in three parts: the steps before the loop
  over the examples (1 to 4 in the source's numbering), the loop (5), and the steps
  after it (6 to 9).
\<close>

definition createCategory_prepare :: "host \<Rightarrow> string \<Rightarrow> step" where
  \<open>createCategory_prepare h outputPath =
     steps
       [whenStep (\<lambda>fs. \<not> existsSync_at (cwd h) fs outputPath)
          (steps [fsStep (mkdirSync_at (cwd h) outputPath),
                  logStep (Log (([CHR 0xE2, CHR 0x9C, CHR 0x85] @ '' Created directory: '') @ outputPath))]),
        fsStep (copyDirectory_category (base_template h) (fs_path h [outputPath])),
        logStep (Log ([CHR 0xE2, CHR 0x9C, CHR 0x85] @ '' Copied base template'')),
        whenStep (\<lambda>fs. \<not> existsSync fs (fs_path h [outputPath, ''contracts'']))
          (fsStep (mkdirSync_recursive (fs_path h [outputPath, ''contracts'']))),
        whenStep (\<lambda>fs. \<not> existsSync fs (fs_path h [outputPath, ''test'']))
          (fsStep (mkdirSync_recursive (fs_path h [outputPath, ''test''])))]\<close>

definition createCategory_finish ::
    "host \<Rightarrow> registry \<Rightarrow> string \<Rightarrow> string \<Rightarrow> CategoryConfig \<Rightarrow> string list \<Rightarrow> string list
      \<Rightarrow> step" where
  \<open>createCategory_finish h reg categoryName outputPath config contractFiles testFiles =
     steps
       [logStep (Log (([CHR 0xE2, CHR 0x9C, CHR 0x85] @ '' Copied '') @ showNat (length contractFiles) @ '' contracts'')),
        logStep (Log (([CHR 0xE2, CHR 0x9C, CHR 0x85] @ '' Copied '') @ showNat (length testFiles) @ '' tests'')),
        updatePackageJson_category h outputPath categoryName config,
        logStep (Log ([CHR 0xE2, CHR 0x9C, CHR 0x85] @ '' Updated package.json'')),
        generateReadme_category h reg outputPath categoryName config contractFiles testFiles,
        logStep (Log ([CHR 0xE2, CHR 0x9C, CHR 0x85] @ '' Generated README.md'')),
        createMetadata_category h outputPath categoryName config,
        logStep (Log ([CHR 0xE2, CHR 0x9C, CHR 0x85] @ '' Created category metadata'')),
        generateDeploymentScript h outputPath contractFiles,
        logStep (Log ([CHR 0xE2, CHR 0x9C, CHR 0x85] @ '' Generated deployment script'')),
        logStep (Log (nl @ ([CHR 0xE2, CHR 0x9C, CHR 0x85] @ '' Category created successfully!'') @ nl)),
        logStep (Log ''Next steps:''),
        logStep (Log (''  cd '' @ outputPath)),
        logStep (Log ''  npm install''),
        logStep (Log ''  npm run compile''),
        logStep (Log ''  npm run test''),
        logStep (Log ''  npm run deploy:sepolia'')]\<close>

text \<open>
  Next to the outcome, the block returns the arrays \<open>contractFiles\<close> and \<open>testFiles\<close>
  as they stand when it is left.
\<close>

definition createCategory_try ::
    "host \<Rightarrow> registry \<Rightarrow> string \<Rightarrow> string \<Rightarrow> CategoryConfig \<Rightarrow> world
      \<Rightarrow> io_error option \<times> (string list \<times> string list) \<times> world" where
  "createCategory_try h reg categoryName outputPath config w =
     (case createCategory_prepare h outputPath w of
        (Some e, w1) \<Rightarrow> (Some e, ([], []), w1)
      | (None, w1) \<Rightarrow>
          (case copyExamples h reg outputPath (examples config) ([], []) w1 of
             (Some e, copied, w2) \<Rightarrow> (Some e, copied, w2)
           | (None, (contractFiles, testFiles), w2) \<Rightarrow>
               (case createCategory_finish h reg categoryName outputPath config
                       contractFiles testFiles w2 of
                  (r, w3) \<Rightarrow> (r, (contractFiles, testFiles), w3))))"

text \<open>
  \<open>createCategory(categoryName, outputPath)\<close>: an unknown category and any exception
  of the \<open>try\<close> block end in \<open>process.exit(1)\<close>. The second component of the result
  is the pair of arrays of \<open>createCategory_try\<close>. For a category name that names an
  inherited member, \<open>config.examples\<close> is \<open>undefined\<close> and the third message, which is
  outside the \<open>try\<close> block, throws \<open>TypeError\<close> on \<open>config.examples.length\<close>.
\<close>

definition createCategory ::
    "host \<Rightarrow> registry \<Rightarrow> categories \<Rightarrow> string \<Rightarrow> string \<Rightarrow> world
      \<Rightarrow> status \<times> (string list \<times> string list) \<times> world" where
  \<open>createCategory h reg cats categoryName outputPath w =
     (case map_of cats categoryName of
        None \<Rightarrow>
          (case map_of Object_prototype categoryName of
             None \<Rightarrow>
               (Exited 1, ([], []),
                say (Log (''Available categories: '' @ join '', '' (map fst cats)))
                  (say (Error (([CHR 0xE2, CHR 0x9D, CHR 0x8C] @ '' Category not found: '') @ categoryName)) w))
           | Some inheritedName \<Rightarrow>
               (Thrown TypeError, ([], []),
                say (Log (([CHR 0xF0, CHR 0x9F, CHR 0x93, CHR 0x8D] @ '' Output: '') @ outputPath))
                  (say (Log (nl @ ([CHR 0xF0, CHR 0x9F, CHR 0x93, CHR 0xA6] @ '' Creating FHEVM Category: '') @ printed inheritedName)) w)))
      | Some config \<Rightarrow>
          (case createCategory_try h reg categoryName outputPath config
                  (say (Log (([CHR 0xF0, CHR 0x9F, CHR 0x93, CHR 0x9A] @ '' Examples: '') @ showNat (length (examples config)) @ nl))
                     (say (Log (([CHR 0xF0, CHR 0x9F, CHR 0x93, CHR 0x8D] @ '' Output: '') @ outputPath))
                        (say (Log (nl @ ([CHR 0xF0, CHR 0x9F, CHR 0x93, CHR 0xA6] @ '' Creating FHEVM Category: '') @ CategoryConfig.name config)) w))) of
             (None, copied, w') \<Rightarrow> (Completed, copied, w')
           | (Some e, copied, w') \<Rightarrow>
               (Exited 1, copied, say (ErrorObj ([CHR 0xE2, CHR 0x9D, CHR 0x8C] @ '' Error creating category:'') e) w')))\<close>

section \<open>The documentation generator (scripts/generate-docs.ts)\<close>

record DocumentationConfig =
  contractPath :: string
  testPath :: string
  outputPath :: string
  category :: string
  complexity :: string
  estimatedTime :: string

type_synonym docs_config = "(string \<times> DocumentationConfig) list"

definition DOCS_CONFIG :: docs_config where
  \<open>DOCS_CONFIG =
    [(''confidential-supplier-management'',
      \<lparr>contractPath = ''./contracts/SupplierManagement.sol'',
       testPath = ''./test/SupplierManagement.ts'',
       outputPath = ''./docs/enterprise/confidential-supplier-management.md'',
       category = ''enterprise'',
       complexity = ''advanced'',
       estimatedTime = ''30-45 minutes''\<rparr>),
     (''fhe-counter'',
      \<lparr>contractPath = ''./contracts/EncryptedContract.sol'',
       testPath = ''./test/EncryptedContract.ts'',
       outputPath = ''./docs/basic/fhe-counter.md'',
       category = ''basic'',
       complexity = ''beginner'',
       estimatedTime = ''15-20 minutes''\<rparr>)]\<close>

text \<open>The loop of \<open>extractContractInfo\<close> over the lines of the file.\<close>

fun contractInfo_lines :: "bool \<Rightarrow> string list \<Rightarrow> string \<times> string \<Rightarrow> string \<times> string" where
  "contractInfo_lines inComment [] (comments, code) = (comments, code)"
| "contractInfo_lines inComment (line # rest) (comments, code) =
     (if inComment \<or> sublist ''/**'' line then
        contractInfo_lines (\<not> sublist ''*/'' line) rest (comments @ line @ nl, code)
      else contractInfo_lines False rest (comments, code @ line @ nl))"

definition extractContractInfo :: "host \<Rightarrow> fsys \<Rightarrow> string \<Rightarrow> io_error + (string \<times> string)" where
  "extractContractInfo h fs filePath =
     (if \<not> existsSync_at (cwd h) fs filePath then Inr ([], [])
      else
        (case readFileSync fs (fs_path h [filePath]) of
           Inl e \<Rightarrow> Inl e
         | Inr content \<Rightarrow> Inr (contractInfo_lines False (splitOn (CHR 0x0A) content) ([], []))))"

text \<open>\<open>extractTestInfo(filePath)\<close>: the test titles and the \<open>coverage\<close> line.\<close>

definition extractTestInfo :: "host \<Rightarrow> fsys \<Rightarrow> string \<Rightarrow> io_error + (string list \<times> string)" where
  "extractTestInfo h fs filePath =
     (if \<not> existsSync_at (cwd h) fs filePath then Inr ([], [])
      else
        (case readFileSync fs (fs_path h [filePath]) of
           Inl e \<Rightarrow> Inl e
         | Inr content \<Rightarrow>
             (let testCases = testCases_of content
              in Inr (testCases, ''Total test cases: '' @ showNat (length testCases)))))"

definition docs_architecture :: "string list" where
  \<open>docs_architecture = [[],
     ''## Architecture'',
     [],
     ''### Contract Structure'',
     [],
     ''The contract is organized into the following main sections:'',
     [],
     ''1. **State Variables** - Storage for encrypted and public data'',
     ''2. **Constructor/Initialization** - Setup logic'',
     ''3. **Core Functions** - Main contract functionality'',
     ''4. **Utility Functions** - Helper methods'',
     ''5. **Events** - Important events for monitoring'',
     [],
     ''### Key FHE Operations'',
     [],
     ''This example demonstrates:'',
     ''- Encrypted data types (`euint8`, `euint32`, etc.)'',
     ''- Permission management (`FHE.allowThis()`, `FHE.allow()`)'',
     ''- Privacy-preserving operations'',
     ''- Async decryption callbacks'',
     [],
     ''## Code Examples'',
     [],
     ''### Contract File'',
     ''```solidity'']\<close>

definition docs_test_heading :: "string list" where
  \<open>docs_test_heading = [''// See the contract file for complete implementation'',
     ''```'',
     [],
     ''### Test Cases'',
     []]\<close>

definition docs_how_it_works :: "string list" where
  \<open>docs_how_it_works = [[],
     ''## How It Works'',
     [],
     ''### Step 1: Setup'',
     ''Initialize the contract and prepare any encrypted data structures.'',
     [],
     ''### Step 2: Encrypt Data'',
     ''Use FHE to encrypt sensitive information:'',
     ''```solidity'',
     ''euint8 encryptedValue = FHE.asEuint8(plainValue);'',
     ''FHE.allowThis(encryptedValue);'',
     ''FHE.allow(encryptedValue, msg.sender);'',
     ''```'',
     [],
     ''### Step 3: Perform Operations'',
     ''Execute functions that operate on encrypted data:'',
     ''```solidity'',
     ''// Examples: add, subtract, compare, etc.'',
     ''```'',
     [],
     ''### Step 4: Decrypt (if needed)'',
     ''Request decryption through async callback:'',
     ''```solidity'',
     ''FHE.requestDecryption(cts, this.callback.selector);'',
     ''```'',
     [],
     ''## Running the Example'',
     [],
     ''### Prerequisites'',
     ''- Node.js >= 14.0.0'',
     ''- npm or yarn'',
     [],
     ''### Installation'',
     ''```bash'',
     ''npm install'',
     ''```'',
     [],
     ''### Compilation'',
     ''```bash'',
     ''npm run compile'',
     ''```'',
     [],
     ''### Testing'',
     ''```bash'',
     ''npm run test'',
     ''```'',
     [],
     ''### Deployment'',
     ''```bash'',
     ''# Deploy to Sepolia testnet'',
     ''npm run deploy:sepolia'',
     [],
     ''# Deploy to Zama testnet'',
     ''npm run deploy:zama'',
     ''```'',
     [],
     ''## FHE Patterns Used'',
     [],
     ''### Pattern 1: Permission Management'',
     ''```solidity'',
     ''euint8 encryptedValue = FHE.asEuint8(plainValue);'',
     (''FHE.allowThis(encryptedValue);              // '' @ [CHR 0xE2, CHR 0x9C, CHR 0x85] @ '' Contract permission''),
     (''FHE.allow(encryptedValue, msg.sender);      // '' @ [CHR 0xE2, CHR 0x9C, CHR 0x85] @ '' User permission''),
     ''```'',
     [],
     ''### Pattern 2: Access Control'',
     ''```solidity'',
     ''require(msg.sender == owner, "Only owner can decrypt");'',
     ''```'',
     [],
     ''### Pattern 3: Encrypted Operations'',
     ''```solidity'',
     ''euint8 result = FHE.add(encryptedA, encryptedB);'',
     ''```'',
     [],
     ''### Pattern 4: Async Decryption'',
     ''```solidity'',
     ''FHE.requestDecryption(cts, this.processDecryption.selector);'',
     ''```'',
     [],
     ''## Common Pitfalls'',
     [],
     (''### '' @ [CHR 0xE2, CHR 0x9D, CHR 0x8C] @ '' Forgetting FHE.allowThis()''),
     ''```solidity'',
     ''// WRONG - missing allowThis'',
     ''FHE.allow(encryptedValue, msg.sender);'',
     ''```'',
     [],
     (''### '' @ [CHR 0xE2, CHR 0x9C, CHR 0x85] @ '' Correct Permission Handling''),
     ''```solidity'',
     ''// RIGHT - both permissions'',
     ''FHE.allowThis(encryptedValue);'',
     ''FHE.allow(encryptedValue, msg.sender);'',
     ''```'',
     [],
     (''### '' @ [CHR 0xE2, CHR 0x9D, CHR 0x8C] @ '' View Functions with Encrypted Returns''),
     ''```solidity'',
     (''// WRONG - can'' @ [CHR 0x27] @ ''t return encrypted from view''),
     ''function getValue() external view returns (euint8) {'',
     ''    return encryptedValue;'',
     ''}'',
     ''```'',
     [],
     ''## Advanced Topics'',
     [],
     ''### State Management'',
     ''How encrypted values are stored and updated in contract state.'',
     [],
     ''### Multi-Step Operations'',
     ''Performing complex logic with encrypted values.'',
     [],
     ''### Decryption Callbacks'',
     ''Understanding async decryption and callback pattern.'',
     [],
     ''## Resources'',
     [],
     ''- [FHEVM Documentation](https://docs.zama.ai/fhevm)'',
     ''- [Hardhat Guide](https://hardhat.org/)'',
     ''- [Solidity Handbook](https://docs.soliditylang.org/)'',
     ''- [Zama Community](https://www.zama.ai/community)'',
     [],
     ''## Next Steps'',
     [],
     (''1. '' @ [CHR 0xE2, CHR 0x9C, CHR 0x85] @ '' Complete this example''),
     ''2. Review related examples in the same category'',
     ''3. Modify the contract to test different scenarios'',
     ''4. Deploy to testnet'',
     ''5. Explore more advanced patterns'',
     [],
     ''## Questions?'',
     [],
     ''- Visit [Zama Community Forum](https://www.zama.ai/community)'',
     ''- Check [FHEVM Documentation](https://docs.zama.ai/fhevm)'',
     ''- Ask on [Zama Discord](https://discord.com/invite/zama)'',
     [],
     ''---'',
     []]\<close>

text \<open>\<open>docsConfig?.field || fallback\<close>.\<close>

definition docsField ::
    "DocumentationConfig option \<Rightarrow> (DocumentationConfig \<Rightarrow> string) \<Rightarrow> string \<Rightarrow> string" where
  "docsField docsConfig field fallback =
     orElse (case docsConfig of None \<Rightarrow> [] | Some d \<Rightarrow> field d) fallback"

text \<open>
  The Markdown of \<open>generateDocumentation\<close>, for the titles found in the test file and
  the clock reading \<open>now\<close>.
\<close>

definition markdown_text ::
    "string \<Rightarrow> ExampleConfig \<Rightarrow> DocumentationConfig option \<Rightarrow> string list \<Rightarrow> string \<Rightarrow> string" where
  \<open>markdown_text exampleName exampleConfig docsConfig testCases now =
     unlines
       ([''# '' @ ExampleConfig.name exampleConfig,
         [],
         ''**Category**: '' @ ExampleConfig.category exampleConfig,
         ''**Complexity**: '' @ docsField docsConfig DocumentationConfig.complexity ''intermediate'',
         ''**Estimated Time**: '' @ docsField docsConfig estimatedTime ''20-30 minutes'',
         [],
         ''## Overview'',
         [],
         overview (documentation exampleConfig),
         [],
         ''## Key Features'',
         [],
         bullets (keyFeatures (documentation exampleConfig)),
         [],
         ''## Learning Outcomes'',
         [],
         bullets (learningOutcomes (documentation exampleConfig))]
        @ docs_architecture
        @ [''// Source: '' @ docsField docsConfig contractPath ''contracts/[Example].sol'']
        @ docs_test_heading
        @ [''**Total Tests**: '' @ showNat (length testCases),
           [],
           (if length testCases > 0
            then nl @ ''Test coverage includes:'' @ nl @ bullets testCases @ nl
            else ''See test file for detailed test cases'')]
        @ docs_how_it_works
        @ [''**Last Updated**: '' @ now,
           ''**Example**: '' @ exampleName,
           ''**Version**: 1.0.0''])\<close>

text \<open>
  \<open>generateDocumentation\<close> when \<open>exampleConfig\<close> is a value inherited from
  \<open>Object.prototype\<close>. \<open>DOCS_CONFIG[exampleName]\<close> is then an own property or the same
  inherited value, truthy in both cases. The function runs until the template literal
  reads \<open>exampleConfig.documentation.overview\<close>, which throws \<open>TypeError\<close>.
\<close>

definition generateDocumentation_inherited ::
    "host \<Rightarrow> docs_config \<Rightarrow> string \<Rightarrow> string option \<Rightarrow> world \<Rightarrow> status \<times> world" where
  \<open>generateDocumentation_inherited h docs exampleName inheritedName w =
     (let docsConfig = map_of docs exampleName;
          w2 = say (Log (nl @ ([CHR 0xF0, CHR 0x9F, CHR 0x93, CHR 0x9A] @ '' Generating Documentation for: '') @ printed inheritedName)) w
      in case extractContractInfo h (disk w2) (docsField docsConfig contractPath []) of
           Inl e \<Rightarrow> (Thrown e, w2)
         | Inr contractInfo \<Rightarrow>
             (case extractTestInfo h (disk w2) (docsField docsConfig testPath []) of
                Inl e \<Rightarrow> (Thrown e, w2)
              | Inr testInfo \<Rightarrow>
                  (let target = docsField docsConfig outputPath
                                  (''./docs/'' @ exampleName @ ''.md'');
                       outputDirPath = resolve (cwd h) (path_dirname (path_join [target]))
                   in case whenStep (\<lambda>fs. \<not> existsSync fs outputDirPath)
                             (fsStep (mkdirSync_recursive outputDirPath)) w2 of
                        (None, w3) \<Rightarrow> (Thrown TypeError, w3)
                      | (Some e, w3) \<Rightarrow> (Thrown e, w3))))\<close>

text \<open>
  \<open>generateDocumentation(exampleName, outputDir)\<close>. Nothing in the body reads the
  parameter \<open>outputDir\<close>. An exception is not caught here: it reaches the caller. The
  two warnings are printed when \<open>docsConfig\<close> is falsy, that is neither an own nor an
  inherited property.
\<close>

definition generateDocumentation ::
    "host \<Rightarrow> registry \<Rightarrow> docs_config \<Rightarrow> string \<Rightarrow> string \<Rightarrow> world \<Rightarrow> status \<times> world" where
  \<open>generateDocumentation h reg docs exampleName outputDir w =
     (case map_of reg exampleName of
        None \<Rightarrow>
          (case map_of Object_prototype exampleName of
             None \<Rightarrow> (Exited 1, say (Error (([CHR 0xE2, CHR 0x9D, CHR 0x8C] @ '' Example not found: '') @ exampleName)) w)
           | Some inheritedName \<Rightarrow> generateDocumentation_inherited h docs exampleName inheritedName w)
      | Some exampleConfig \<Rightarrow>
          (let docsConfig = map_of docs exampleName;
               w1 = (case docsConfig of
                       None \<Rightarrow>
                         (if map_of Object_prototype exampleName = None
                          then say (Warn ''Using default configuration...'')
                                 (say (Warn (([CHR 0xE2, CHR 0x9A, CHR 0xA0, CHR 0xEF, CHR 0xB8, CHR 0x8F] @ ''  Documentation config not found for: '') @ exampleName)) w)
                          else w)
                     | Some d \<Rightarrow> w);
               w2 = say (Log (nl @ ([CHR 0xF0, CHR 0x9F, CHR 0x93, CHR 0x9A] @ '' Generating Documentation for: '')
                                @ ExampleConfig.name exampleConfig)) w1
           in case extractContractInfo h (disk w2) (docsField docsConfig contractPath []) of
                Inl e \<Rightarrow> (Thrown e, w2)
              | Inr contractInfo \<Rightarrow>
                  (case extractTestInfo h (disk w2) (docsField docsConfig testPath []) of
                     Inl e \<Rightarrow> (Thrown e, w2)
                   | Inr testInfo \<Rightarrow>
                       (let target = docsField docsConfig outputPath
                                       (''./docs/'' @ exampleName @ ''.md'');
                            outputDirPath = resolve (cwd h) (path_dirname (path_join [target]))
                        in case steps
                                  [whenStep (\<lambda>fs. \<not> existsSync fs outputDirPath)
                                     (fsStep (mkdirSync_recursive outputDirPath)),
                                   (\<lambda>w3. case toISOString_now h w3 of
                                            (now, w4) \<Rightarrow>
                                              fsStep (writeFileSync (fs_path h [target])
                                                        (markdown_text exampleName exampleConfig
                                                           docsConfig (fst testInfo) now)) w4),
                                   logStep (Log (([CHR 0xE2, CHR 0x9C, CHR 0x85] @ '' Documentation generated: '') @ target))] w2 of
                             (None, w5) \<Rightarrow> (Completed, w5)
                           | (Some e, w5) \<Rightarrow> (Thrown e, w5)))))\<close>

text \<open>
  One section of the summary: \<open>Object.entries(EXAMPLES_MAP).filter(...)\<close>, then
  \<open>.map(...).join(...)\<close>.
\<close>

definition summary_entries :: "registry \<Rightarrow> string \<Rightarrow> (string \<times> ExampleConfig) list" where
  "summary_entries reg cat = filter (\<lambda>entry. ExampleConfig.category (snd entry) = cat) reg"

definition summary_link :: "string \<Rightarrow> string \<times> ExampleConfig \<Rightarrow> string" where
  \<open>summary_link cat entry =
     ''* ['' @ ExampleConfig.name (snd entry) @ '']('' @ cat @ ''/'' @ fst entry @ ''.md)''\<close>

definition summary_links :: "registry \<Rightarrow> string \<Rightarrow> string" where
  "summary_links reg cat = join nl (map (summary_link cat) (summary_entries reg cat))"

definition summary_text :: "registry \<Rightarrow> string" where
  \<open>summary_text reg =
     unlines
       [''# Summary'',
        [],
        ''## Getting Started'',
        ''* [Introduction](README.md)'',
        [],
        ''## Enterprise Applications'',
        summary_links reg ''enterprise'',
        [],
        ''## Basic Examples'',
        summary_links reg ''basic'',
        [],
        ''## Resources'',
        ''* [FHEVM Documentation](https://docs.zama.ai/fhevm)'',
        ''* [Hardhat Guide](https://hardhat.org/)'',
        ''* [Zama Community](https://www.zama.ai/community)'']\<close>

text \<open>\<open>generateSummary(outputDir)\<close>.\<close>

definition generateSummary :: "host \<Rightarrow> registry \<Rightarrow> string \<Rightarrow> world \<Rightarrow> status \<times> world" where
  \<open>generateSummary h reg outputDir w =
     (let summaryPath = path_join [outputDir, ''docs'', ''SUMMARY.md''];
          summaryDir = path_dirname summaryPath
      in case steps
                [whenStep (\<lambda>fs. \<not> existsSync fs (resolve (cwd h) summaryDir))
                   (fsStep (mkdirSync_recursive (resolve (cwd h) summaryDir))),
                 fsStep (writeFileSync (resolve (cwd h) summaryPath) (summary_text reg)),
                 logStep (Log (([CHR 0xE2, CHR 0x9C, CHR 0x85] @ '' SUMMARY.md generated: '') @ showPath summaryPath))] w of
           (None, w') \<Rightarrow> (Completed, w')
         | (Some e, w') \<Rightarrow> (Thrown e, w'))\<close>

section \<open>Notions used in the properties\<close>

text \<open>
  A match of the regular expression \<open>/it\(['"`]([^'"`]+)['"`]/\<close> starts at the head of
  the text: the characters \<open>it(\<close>, a quote character, one or more characters that are
  not quote characters, a quote character.
\<close>

definition startsMatch :: "string \<Rightarrow> bool" where
  "startsMatch s \<longleftrightarrow>
     (\<exists>q t q' rest. s = ''it('' @ q # t @ q' # rest \<and> isQuote q \<and> isQuote q' \<and> t \<noteq> []
        \<and> (\<forall>c \<in> set t. \<not> isQuote c))"

text \<open>A file name that is one path component.\<close>

definition plainName :: "string \<Rightarrow> bool" where
  "plainName f \<longleftrightarrow> f \<noteq> [] \<and> CHR ''/'' \<notin> set f \<and> f \<noteq> ''.'' \<and> f \<noteq> ''..''"

text \<open>
  A copy of a template, flattened into the file-system operations it performs in order:
  \<open>EnsureDir\<close> is the \<open>if (!existsSync(dest)) mkdirSync(dest)\<close> at the head of
  \<open>copyDirectory\<close>, \<open>PutFile\<close> is a \<open>copyFileSync\<close>.
\<close>

datatype copy_op = EnsureDir path | PutFile path string

fun applyOp :: "copy_op \<Rightarrow> fsys \<Rightarrow> io_error option \<times> fsys" where
  "applyOp (EnsureDir q) fs =
     (if \<not> existsSync fs q then mkdirSync_recursive q fs else (None, fs))"
| "applyOp (PutFile q c) fs = writeFileSync q c fs"

fun runOps :: "copy_op list \<Rightarrow> fsys \<Rightarrow> io_error option \<times> fsys" where
  "runOps [] fs = (None, fs)"
| "runOps (op # ops) fs =
     (case applyOp op fs of
        (Some e, fs') \<Rightarrow> (Some e, fs')
      | (None, fs') \<Rightarrow> runOps ops fs')"

fun copyOps :: "string list \<Rightarrow> (string \<times> tnode) list \<Rightarrow> path \<Rightarrow> copy_op list" where
  "copyOps skipped [] dest = []"
| "copyOps skipped ((entryName, TFile c) # rest) dest =
     (if entryName \<in> set skipped then [] else [PutFile (dest @ [entryName]) c])
     @ copyOps skipped rest dest"
| "copyOps skipped ((entryName, TDir sub) # rest) dest =
     (if entryName \<in> set skipped then []
      else EnsureDir (dest @ [entryName]) # copyOps skipped sub (dest @ [entryName]))
     @ copyOps skipped rest dest"

fun opPath :: "copy_op \<Rightarrow> path" where
  "opPath (EnsureDir q) = q"
| "opPath (PutFile q c) = q"

text \<open>The files a list of operations writes.\<close>

definition opFiles :: "copy_op list \<Rightarrow> path set" where
  "opFiles ops = {q. \<exists>c. PutFile q c \<in> set ops}"

text \<open>
  \<open>fs'\<close> has everything \<open>fs\<close> has, of the same kind: directories stay directories,
  files stay files (their content may change).
\<close>

definition keepsKinds :: "fsys \<Rightarrow> fsys \<Rightarrow> bool" where
  "keepsKinds fs fs' \<longleftrightarrow>
     (\<forall>q. (fs q = Some Dir \<longrightarrow> fs' q = Some Dir) \<and> (isFile fs q \<longrightarrow> isFile fs' q))"

text \<open>The top-level fields the manifest patch assigns, and the others of a manifest.\<close>

definition patchedFields :: "string list" where
  "patchedFields = [''name'', ''description'', ''keywords'', ''fhevmExample'']"

definition untouchedFields :: "json \<Rightarrow> (string \<times> json) list" where
  "untouchedFields v =
     (case v of
        JObject kvs \<Rightarrow> filter (\<lambda>kv. fst kv \<notin> set patchedFields) kvs
      | _ \<Rightarrow> [])"

text \<open>The copy of a payload file when it is on disk, nothing when it is not.\<close>

definition copyIfPresent :: "tnode option \<Rightarrow> path \<Rightarrow> fsys \<Rightarrow> io_error option \<times> fsys" where
  "copyIfPresent src dest fs =
     (case src of None \<Rightarrow> (None, fs) | Some node \<Rightarrow> copyFileSync node dest fs)"

text \<open>The value the manifest patch of the example generator assigns as \<open>fhevmExample\<close>.\<close>

definition fhevmExample_json :: "ExampleConfig \<Rightarrow> string \<Rightarrow> json" where
  "fhevmExample_json config now =
     JObject
       [(''name'', JString (ExampleConfig.name config)),
        (''category'', JString (ExampleConfig.category config)),
        (''complexity'', JString (ExampleConfig.complexity config)),
        (''generatedAt'', JString now)]"

text \<open>The manifest after the patch, for the parsed manifest before it.\<close>

definition patchedManifest :: "string \<Rightarrow> ExampleConfig \<Rightarrow> string \<Rightarrow> json \<Rightarrow> io_error + json" where
  "patchedManifest exampleName config now v =
     assignFields
       [(''name'', JString (replaceUnderscores exampleName)),
        (''description'', JString (ExampleConfig.description config)),
        (''keywords'', JStrings (keywords_field config)),
        (''fhevmExample'', fhevmExample_json config now)] v"



text \<open>
  The three files \<open>createExample\<close> generates after the copies, written on top of the
  disk \<open>base\<close> for the parsed manifest \<open>v\<close>, with the clock at its \<open>k\<close>-th reading when
  the manifest is patched.
\<close>

definition generatedFiles ::
    "host \<Rightarrow> string \<Rightarrow> string \<Rightarrow> ExampleConfig \<Rightarrow> json \<Rightarrow> nat \<Rightarrow> fsys \<Rightarrow> fsys" where
  "generatedFiles h dest exampleName config v k base =
     base
       (fs_path h [dest, ''package.json'']
          \<mapsto> File (JSON_stringify (projr (patchedManifest exampleName config (clock h k) v))),
        fs_path h [dest, ''README.md'']
          \<mapsto> File (readme_text h config (clock h (Suc k))),
        fs_path h [dest, ''.fhevm-example.json'']
          \<mapsto> File (JSON_stringify (metadata_json exampleName config (clock h (Suc (Suc k))))))"

text \<open>
  The entries the identifiers of a category resolve to, in order; the payload file names
  among them that are on disk; and the warnings for the identifiers that do not resolve.
\<close>

definition resolvedExamples :: "registry \<Rightarrow> string list \<Rightarrow> ExampleConfig list" where
  "resolvedExamples reg ids =
     concat (map (\<lambda>exampleId. case map_of reg exampleId of None \<Rightarrow> [] | Some e \<Rightarrow> [e]) ids)"

definition bundledContracts :: "host \<Rightarrow> registry \<Rightarrow> string list \<Rightarrow> string list" where
  "bundledContracts h reg ids =
     map contractFile
       (filter (\<lambda>e. contracts_dir h (contractFile e) \<noteq> None) (resolvedExamples reg ids))"

definition bundledTests :: "host \<Rightarrow> registry \<Rightarrow> string list \<Rightarrow> string list" where
  "bundledTests h reg ids =
     map testFile (filter (\<lambda>e. test_dir h (testFile e) \<noteq> None) (resolvedExamples reg ids))"

definition notFoundWarnings :: "registry \<Rightarrow> string list \<Rightarrow> log_entry list" where
  \<open>notFoundWarnings reg ids =
     map (\<lambda>exampleId. Warn (([CHR 0xE2, CHR 0x9A, CHR 0xA0, CHR 0xEF, CHR 0xB8, CHR 0x8F] @ ''  Example not found: '') @ exampleId))
       (filter (\<lambda>exampleId. map_of reg exampleId = None) ids)\<close>

section \<open>Scenarios\<close>

text \<open>Concrete hosts, registries and disks, on which the properties below are exercised.\<close>

definition fresh_world :: world where
  "fresh_world = \<lparr>disk = (\<lambda>p. None), console = [], ticks = 0\<rparr>"

text \<open>A clock that advances between any two consecutive readings.\<close>

definition sample_clock :: "nat \<Rightarrow> string" where
  "sample_clock k = ''2024-01-01T00:00:0'' @ [''0123456789'' ! (k mod 10)] @ ''.000Z''"

text \<open>An upper-casing that agrees with the library's on ASCII text.\<close>

definition asciiUpperCase :: "string \<Rightarrow> string" where
  "asciiUpperCase s =
     map (\<lambda>c. if (97 :: nat) \<le> of_char c \<and> of_char c \<le> (122 :: nat)
              then char_of (of_char c - (32 :: nat)) else c) s"

definition docs_host :: host where
  "docs_host =
     \<lparr>cwd = [], clock = sample_clock, JSON_parse = (\<lambda>content. None), toUpperCase = asciiUpperCase,
      base_template = [],
      contracts_dir = (\<lambda>f. None), test_dir = (\<lambda>f. None)\<rparr>"

text \<open>A working directory that holds the test file of the counter example.\<close>

definition docs_world :: world where
  \<open>docs_world =
     \<lparr>disk = (\<lambda>p. None)
        ([] \<mapsto> Dir,
         [''test''] \<mapsto> Dir,
         [''test'', ''EncryptedContract.ts''] \<mapsto>
           File (''it("Should initialize with encrypted supply", async function () {});'' @ nl
                 @ ''it("Should return encrypted balance", async function () {});'' @ nl)),
      console = [], ticks = 0\<rparr>\<close>

text \<open>A registry with one example whose category is neither of the two the summary names.\<close>

definition governance_registry :: registry where
  "governance_registry =
     [(''zk-vote'',
       \<lparr>ExampleConfig.name = ''Private Vote'',
        ExampleConfig.description = ''Encrypted ballots'',
        ExampleConfig.category = ''governance'',
        contractFile = ''Vote.sol'',
        testFile = ''Vote.ts'',
        ExampleConfig.complexity = ''intermediate'',
        keywords_field = [''voting''],
        documentation = \<lparr>overview = ''Voting on encrypted ballots.'', keyFeatures = [],
                          learningOutcomes = []\<rparr>\<rparr>)]"

text \<open>A host whose working directory is not the root of the file system.\<close>

definition repo_host :: host where
  "repo_host = docs_host\<lparr>cwd := [''home'', ''dev'', ''repo'']\<rparr>"

text \<open>
  The scenario of the specification: the example \<open>alpha\<close> with the payload files
  \<open>Alpha.src\<close> and \<open>Alpha.spec\<close>, and a category that also lists the unregistered
  identifier \<open>ghost\<close>.
\<close>

definition alpha :: ExampleConfig where
  "alpha =
     \<lparr>ExampleConfig.name = ''Alpha'',
      ExampleConfig.description = ''The first example'',
      ExampleConfig.category = ''basic'',
      contractFile = ''Alpha.src'',
      testFile = ''Alpha.spec'',
      ExampleConfig.complexity = ''beginner'',
      keywords_field = [''x''],
      documentation = \<lparr>overview = ''An example.'', keyFeatures = [''one''],
                        learningOutcomes = [''two'']\<rparr>\<rparr>"

definition alpha_registry :: registry where
  "alpha_registry = [(''alpha'', alpha)]"

text \<open>
  A registry with two examples of the category \<open>basic\<close>, one of \<open>enterprise\<close> and,
  between them, one of a third category.
\<close>

definition mixed_registry :: registry where
  "mixed_registry =
     (''alpha'', alpha)
     # governance_registry
     @ [(''beta'', alpha\<lparr>ExampleConfig.name := ''Beta''\<rparr>),
        (''ledger'', alpha\<lparr>ExampleConfig.name := ''Ledger'',
                             ExampleConfig.category := ''enterprise''\<rparr>)]"

definition basic_categories :: categories where
  "basic_categories =
     [(''basic'',
       \<lparr>CategoryConfig.name = ''Basic Examples'',
        CategoryConfig.description = ''Foundational concepts'',
        examples = [''alpha'', ''ghost''],
        keyTopics = [''Encryption basics'']\<rparr>)]"

text \<open>The manifest of the scenario's template, and a parser that knows its text.\<close>

definition sample_manifest :: json where
  "sample_manifest =
     JObject
       [(''name'', JString ''fhevm-hardhat-template''),
        (''version'', JString ''1.0.0''),
        (''description'', JString ''Base template''),
        (''scripts'', JObject [(''compile'', JString ''hardhat compile''),
                               (''test'', JString ''hardhat test'')]),
        (''license'', JString ''MIT'')]"

definition sample_parse :: "string \<Rightarrow> json option" where
  "sample_parse content =
     (if content = JSON_stringify sample_manifest then Some sample_manifest else None)"

definition sample_template :: "(string \<times> tnode) list" where
  \<open>sample_template =
     [(''package.json'', TFile (JSON_stringify sample_manifest)),
      (''hardhat.config.ts'', TFile ''export default {};''),
      (''contracts'', TDir [(''EncryptedContract.sol'', TFile ''contract EncryptedContract {}'')]),
      (''test'', TDir [(''EncryptedContract.ts'', TFile ''it("runs", f);'')]),
      (''scripts'', TDir [(''deploy.ts'', TFile ''main();'')]),
      (''node_modules'', TDir [(''lib.js'', TFile ''module.exports = {};'')])]\<close>

definition sample_host :: host where
  \<open>sample_host =
     \<lparr>cwd = [], clock = sample_clock,
      JSON_parse = sample_parse,
      toUpperCase = asciiUpperCase,
      base_template = sample_template,
      contracts_dir = (\<lambda>f. None)(''Alpha.src'' \<mapsto> TFile ''contract Alpha {}''),
      test_dir = (\<lambda>f. None)(''Alpha.spec'' \<mapsto> TFile ''it("alpha", f);'')\<rparr>\<close>

text \<open>
  The same host at work in a project directory, and a registry whose identifier has
  underscores.
\<close>

definition project_host :: host where
  "project_host = sample_host\<lparr>cwd := [''home'', ''dev'', ''repo'']\<rparr>"

definition snake_registry :: registry where
  "snake_registry = [(''my_first_example'', alpha)]"

text \<open>The same host after the two payload files were deleted.\<close>

definition bare_host :: host where
  "bare_host = sample_host\<lparr>contracts_dir := (\<lambda>f. None), test_dir := (\<lambda>f. None)\<rparr>"

text \<open>A destination that holds nothing but the template's manifest.\<close>

definition manifest_world :: world where
  "manifest_world =
     \<lparr>disk = (\<lambda>p. None)
        ([] \<mapsto> Dir, [''out''] \<mapsto> Dir, [''out'', ''a''] \<mapsto> Dir,
         [''out'', ''a'', ''package.json''] \<mapsto> File (JSON_stringify sample_manifest)),
      console = [], ticks = 0\<rparr>"

section \<open>Properties of the test-title extraction\<close>

lemma testRegex_at_match:
  assumes "isQuote q" "isQuote q'" "t \<noteq> []" "\<forall>c \<in> set t. \<not> isQuote c"
  shows "testRegex_at (''it('' @ q # t @ q' # rest) = Some (t, rest)"
proof -
  have "takeWhile (\<lambda>x. \<not> isQuote x) (t @ q' # rest) = t"
    using assms by (simp add: takeWhile_tail)
  moreover have "dropWhile (\<lambda>x. \<not> isQuote x) (t @ q' # rest) = q' # rest"
    using assms by (simp add: dropWhile_append3)
  ultimately show ?thesis using assms by (simp add: Let_def)
qed

lemma testRegex_at_SomeD:
  assumes "testRegex_at s = Some (t, rest)"
  shows "\<exists>q q'. s = ''it('' @ q # t @ q' # rest \<and> isQuote q \<and> isQuote q' \<and> t \<noteq> []
           \<and> (\<forall>c \<in> set t. \<not> isQuote c)"
proof (cases s rule: testRegex_at.cases)
  case (1 a b c q r)
  let ?P = "\<lambda>x. \<not> isQuote x"
  from assms 1 have h: "a = CHR ''i''" "b = CHR ''t''" "c = CHR ''(''" "isQuote q"
    and t: "t = takeWhile ?P r" "t \<noteq> []" and d: "dropWhile ?P r \<noteq> []"
    and rest: "rest = tl (dropWhile ?P r)"
    by (auto simp: Let_def split: if_splits)
  from d have q': "isQuote (hd (dropWhile ?P r))"
    using hd_dropWhile [of ?P r] by simp
  have "r = t @ hd (dropWhile ?P r) # rest"
    using t rest d by (metis takeWhile_dropWhile_id list.collapse)
  moreover have "\<forall>c \<in> set t. \<not> isQuote c"
    using t by (auto dest: set_takeWhileD)
  ultimately show ?thesis using 1 h t q' by auto
qed (use assms in simp_all)

lemma startsMatch_iff: "startsMatch s \<longleftrightarrow> testRegex_at s \<noteq> None"
proof
  assume "startsMatch s"
  then show "testRegex_at s \<noteq> None"
    unfolding startsMatch_def using testRegex_at_match by fastforce
next
  assume "testRegex_at s \<noteq> None"
  then obtain t rest where "testRegex_at s = Some (t, rest)" by auto
  from testRegex_at_SomeD [OF this] show "startsMatch s"
    unfolding startsMatch_def by blast
qed

lemma testRegex_at_None_iff: "testRegex_at s = None \<longleftrightarrow> \<not> startsMatch s"
  using startsMatch_iff [of s] by blast

lemma testCases_of_pass:
  "\<forall>i<length pre. \<not> startsMatch (drop i (pre @ s)) \<Longrightarrow> testCases_of (pre @ s) = testCases_of s"
proof (induction pre)
  case Nil
  then show ?case by simp
next
  case (Cons c pre)
  from Cons.prems have "\<not> startsMatch (drop 0 ((c # pre) @ s))" by blast
  then have n: "testRegex_at (c # pre @ s) = None" by (simp add: testRegex_at_None_iff)
  have "\<forall>i<length pre. \<not> startsMatch (drop i (pre @ s))"
  proof (intro allI impI)
    fix i assume "i < length pre"
    then have "Suc i < length (c # pre)" by simp
    with Cons.prems have "\<not> startsMatch (drop (Suc i) ((c # pre) @ s))" by blast
    then show "\<not> startsMatch (drop i (pre @ s))" by simp
  qed
  with Cons.IH have "testCases_of (pre @ s) = testCases_of s" by simp
  with n show ?case by simp
qed

lemma testCases_of_found:
  "i < length s \<Longrightarrow> startsMatch (drop i s) \<Longrightarrow> testCases_of s \<noteq> []"
proof (induction s arbitrary: i)
  case Nil
  then show ?case by simp
next
  case (Cons c s)
  show ?case
  proof (cases "testRegex_at (c # s)")
    case (Some r)
    then show ?thesis by (cases r) simp
  next
    case None
    then have "\<not> startsMatch (c # s)" by (simp add: testRegex_at_None_iff)
    with Cons.prems obtain j where i: "i = Suc j" by (cases i) auto
    with Cons.prems have "j < length s" "startsMatch (drop j s)" by simp_all
    with Cons.IH have "testCases_of s \<noteq> []" by blast
    with None show ?thesis by simp
  qed
qed

lemma testRegex_at_other: "c \<noteq> CHR ''i'' \<Longrightarrow> testRegex_at (c # s) = None"
  by (cases "c # s" rule: testRegex_at.cases) auto

lemma testRegex_at_empty_title:
  "isQuote q' \<Longrightarrow> testRegex_at (''it('' @ q # q' # rest) = None"
  by (simp add: Let_def)

lemma isQuote_not_i: "isQuote q \<Longrightarrow> q \<noteq> CHR ''i''"
  by (auto simp: isQuote_def)

text \<open>
  C8 (as amended). The extraction is a total function of the text: the model is a
  terminating recursion. An occurrence is the characters \<open>it(\<close>, a quote character, a
  non-empty run of non-quote characters and a quote character (any of the three, not
  necessarily the opening one). The extraction returns no title for the empty text, and
  it returns no title exactly when no occurrence starts anywhere in the text. Where the
  first occurrence starts behind a prefix of the text, at no place of which an
  occurrence starts, the first title is the run between its quotes, and the remaining
  titles are those of the text behind its closing quote: the titles of all occurrences
  found from left to right, none overlapping the one before, in order of appearance,
  duplicates kept. A declaration with an empty title contributes nothing: the search
  goes on behind its two quotes.
\<close>

theorem extractTestInfo_titles:
  "testCases_of [] = []
   \<and> (testCases_of s = [] \<longleftrightarrow> (\<forall>i<length s. \<not> startsMatch (drop i s)))
   \<and> ((\<forall>i<length pre. \<not> startsMatch (drop i (pre @ ''it('' @ q # t @ q' # rest)))
        \<and> isQuote q \<and> isQuote q' \<and> t \<noteq> [] \<and> (\<forall>c \<in> set t. \<not> isQuote c)
       \<longrightarrow> testCases_of (pre @ ''it('' @ q # t @ q' # rest) = t # testCases_of rest)
   \<and> ((\<forall>i<length pre. \<not> startsMatch (drop i (pre @ ''it('' @ q # q' # rest)))
        \<and> isQuote q \<and> isQuote q'
       \<longrightarrow> testCases_of (pre @ ''it('' @ q # q' # rest) = testCases_of rest)"
proof (intro conjI impI)
  show "testCases_of [] = []" by simp
next
  show "testCases_of s = [] \<longleftrightarrow> (\<forall>i<length s. \<not> startsMatch (drop i s))"
  proof
    assume "testCases_of s = []"
    with testCases_of_found [of _ s] show "\<forall>i<length s. \<not> startsMatch (drop i s)" by blast
  next
    assume "\<forall>i<length s. \<not> startsMatch (drop i s)"
    then have "\<forall>i<length s. \<not> startsMatch (drop i (s @ []))" by simp
    then have "testCases_of (s @ []) = testCases_of []" by (rule testCases_of_pass)
    then show "testCases_of s = []" by simp
  qed
next
  assume a: "(\<forall>i<length pre. \<not> startsMatch (drop i (pre @ ''it('' @ q # t @ q' # rest)))
        \<and> isQuote q \<and> isQuote q' \<and> t \<noteq> [] \<and> (\<forall>c \<in> set t. \<not> isQuote c)"
  then have "testCases_of (pre @ ''it('' @ q # t @ q' # rest)
               = testCases_of (''it('' @ q # t @ q' # rest)"
    by (intro testCases_of_pass) blast
  also have "\<dots> = t # testCases_of rest"
    using testRegex_at_match [of q q' t rest] a by simp
  finally show "testCases_of (pre @ ''it('' @ q # t @ q' # rest) = t # testCases_of rest" .
next
  assume a: "(\<forall>i<length pre. \<not> startsMatch (drop i (pre @ ''it('' @ q # q' # rest)))
        \<and> isQuote q \<and> isQuote q'"
  then have "testCases_of (pre @ ''it('' @ q # q' # rest) = testCases_of (''it('' @ q # q' # rest)"
    by (intro testCases_of_pass) blast
  also have "\<dots> = testCases_of (''t('' @ q # q' # rest)"
    using a testRegex_at_empty_title [of q' q rest] by simp
  also have "\<dots> = testCases_of (''('' @ q # q' # rest)"
    using testRegex_at_other [of "CHR ''t''"] by simp
  also have "\<dots> = testCases_of (q # q' # rest)"
    using testRegex_at_other [of "CHR ''(''"] by simp
  also have "\<dots> = testCases_of (q' # rest)"
    using a testRegex_at_other [of q] isQuote_not_i by simp
  also have "\<dots> = testCases_of rest"
    using a testRegex_at_other [of q'] isQuote_not_i by simp
  finally show "testCases_of (pre @ ''it('' @ q # q' # rest) = testCases_of rest" .
qed


text \<open>The places before the first occurrence, checked one by one.\<close>

lemma no_match_before:
  "list_all (\<lambda>i. testRegex_at (drop i s) = None) [0..<n] \<Longrightarrow> \<forall>i<n. \<not> startsMatch (drop i s)"
  by (simp add: list_all_iff testRegex_at_None_iff)

text \<open>
  The scenario of the specification: three declarations, each with its own kind of quote,
  inside a \<open>describe\<close> block, next to a call \<open>wait(5)\<close>, which contains \<open>it(\<close>, and
  to a declaration with an empty title.
\<close>

theorem extractTestInfo_titles_witness:
  \<open>list_all (\<lambda>i. \<not> startsMatch (drop i (''describe("x", () => { wait(5); it("t1", f); it('' @ [CHR 0x27] @ ''t2'' @ [CHR 0x27] @ '', g); it("", k); it(`t3`, h); });''))) [0..<31]
   \<and> testCases_of (''describe("x", () => { wait(5); it("t1", f); it('' @ [CHR 0x27] @ ''t2'' @ [CHR 0x27] @ '', g); it("", k); it(`t3`, h); });'') = [''t1'', ''t2'', ''t3'']\<close>
proof -
  have q: "isQuote (CHR 0x22)" "isQuote (CHR 0x27)" "isQuote (CHR 0x60)"
    by (simp_all add: isQuote_def)
  have t: "\<forall>c \<in> set ''t1''. \<not> isQuote c" "\<forall>c \<in> set ''t2''. \<not> isQuote c"
    "\<forall>c \<in> set ''t3''. \<not> isQuote c"
    by (simp_all add: isQuote_def)
  have e: "''t1'' \<noteq> []" "''t2'' \<noteq> []" "''t3'' \<noteq> []" by simp_all
  note found = extractTestInfo_titles [THEN conjunct2, THEN conjunct2, THEN conjunct1, rule_format]
  note empty = extractTestInfo_titles [THEN conjunct2, THEN conjunct2, THEN conjunct2, rule_format]
  note none = extractTestInfo_titles [THEN conjunct2, THEN conjunct1, THEN iffD2]
  have n1: \<open>\<forall>i<length ''describe("x", () => { wait(5); ''. \<not> startsMatch (drop i (''describe("x", () => { wait(5); '' @ ''it('' @ CHR 0x22 # ''t1'' @ CHR 0x22 # ('', f); it('' @ [CHR 0x27] @ ''t2'' @ [CHR 0x27] @ '', g); it("", k); it(`t3`, h); });'')))\<close>
    by (rule no_match_before) (simp add: upt_rec [of _ "numeral _"] upt_rec [of _ "Suc _"] isQuote_def)
  have n2: \<open>\<forall>i<length '', f); ''. \<not> startsMatch (drop i ('', f); '' @ ''it('' @ CHR 0x27 # ''t2'' @ CHR 0x27 # '', g); it("", k); it(`t3`, h); });''))\<close>
    by (rule no_match_before) (simp add: upt_rec [of _ "numeral _"] upt_rec [of _ "Suc _"] isQuote_def)
  have n3: \<open>\<forall>i<length '', g); ''. \<not> startsMatch (drop i ('', g); '' @ ''it('' @ CHR 0x22 # CHR 0x22 # '', k); it(`t3`, h); });''))\<close>
    by (rule no_match_before) (simp add: upt_rec [of _ "numeral _"] upt_rec [of _ "Suc _"] isQuote_def)
  have n4: \<open>\<forall>i<length '', k); ''. \<not> startsMatch (drop i ('', k); '' @ ''it('' @ CHR 0x60 # ''t3'' @ CHR 0x60 # '', h); });''))\<close>
    by (rule no_match_before) (simp add: upt_rec [of _ "numeral _"] upt_rec [of _ "Suc _"] isQuote_def)
  have n5: \<open>\<forall>i<length '', h); });''. \<not> startsMatch (drop i '', h); });'')\<close>
    by (rule no_match_before) (simp add: upt_rec [of _ "numeral _"] upt_rec [of _ "Suc _"] isQuote_def)
  have s1: \<open>testCases_of (''describe("x", () => { wait(5); '' @ ''it('' @ CHR 0x22 # ''t1'' @ CHR 0x22 # ('', f); it('' @ [CHR 0x27] @ ''t2'' @ [CHR 0x27] @ '', g); it("", k); it(`t3`, h); });'')) = ''t1'' # testCases_of ('', f); it('' @ [CHR 0x27] @ ''t2'' @ [CHR 0x27] @ '', g); it("", k); it(`t3`, h); });'')\<close>
    by (rule found) (intro conjI n1 q t e)
  have s2: \<open>testCases_of ('', f); '' @ ''it('' @ CHR 0x27 # ''t2'' @ CHR 0x27 # '', g); it("", k); it(`t3`, h); });'') = ''t2'' # testCases_of '', g); it("", k); it(`t3`, h); });''\<close>
    by (rule found) (intro conjI n2 q t e)
  have s3: \<open>testCases_of ('', g); '' @ ''it('' @ CHR 0x22 # CHR 0x22 # '', k); it(`t3`, h); });'') = testCases_of '', k); it(`t3`, h); });''\<close>
    by (rule empty) (intro conjI n3 q)
  have s4: \<open>testCases_of ('', k); '' @ ''it('' @ CHR 0x60 # ''t3'' @ CHR 0x60 # '', h); });'') = ''t3'' # testCases_of '', h); });''\<close>
    by (rule found) (intro conjI n4 q t e)
  have s5: \<open>testCases_of '', h); });'' = []\<close>
    by (rule none) (rule n5)
  have a1: \<open>(''describe("x", () => { wait(5); it("t1", f); it('' @ [CHR 0x27] @ ''t2'' @ [CHR 0x27] @ '', g); it("", k); it(`t3`, h); });'') = ''describe("x", () => { wait(5); '' @ ''it('' @ CHR 0x22 # ''t1'' @ CHR 0x22 # ('', f); it('' @ [CHR 0x27] @ ''t2'' @ [CHR 0x27] @ '', g); it("", k); it(`t3`, h); });'')\<close> by simp
  have a2: \<open>('', f); it('' @ [CHR 0x27] @ ''t2'' @ [CHR 0x27] @ '', g); it("", k); it(`t3`, h); });'') = '', f); '' @ ''it('' @ CHR 0x27 # ''t2'' @ CHR 0x27 # '', g); it("", k); it(`t3`, h); });''\<close> by simp
  have a3: \<open>'', g); it("", k); it(`t3`, h); });'' = '', g); '' @ ''it('' @ CHR 0x22 # CHR 0x22 # '', k); it(`t3`, h); });''\<close> by simp
  have a4: \<open>'', k); it(`t3`, h); });'' = '', k); '' @ ''it('' @ CHR 0x60 # ''t3'' @ CHR 0x60 # '', h); });''\<close> by simp
  note r1 = trans [OF arg_cong [where f = testCases_of, OF a1] s1]
  note r2 = trans [OF arg_cong [where f = testCases_of, OF a2] s2]
  note r3 = trans [OF arg_cong [where f = testCases_of, OF a3] s3]
  note r4 = trans [OF arg_cong [where f = testCases_of, OF a4] s4]
  have r: \<open>testCases_of (''describe("x", () => { wait(5); it("t1", f); it('' @ [CHR 0x27] @ ''t2'' @ [CHR 0x27] @ '', g); it("", k); it(`t3`, h); });'') = [''t1'', ''t2'', ''t3'']\<close>
    by (simp only: r1 r2 r3 r4 s5)
  from n1 have \<open>list_all (\<lambda>i. \<not> startsMatch (drop i (''describe("x", () => { wait(5); it("t1", f); it('' @ [CHR 0x27] @ ''t2'' @ [CHR 0x27] @ '', g); it("", k); it(`t3`, h); });''))) [0..<31]\<close>
    by (simp add: list_all_iff)
  with r show ?thesis by (rule conjI [rotated])
qed

text \<open>
  C8 as the specification states it fails: code that declares no test, here a call of
  \<open>split\<close>, adds a title, and a declaration with an empty title adds none.
\<close>

theorem extractTestInfo_titles_counterexample:
  \<open>testCases_of ''it("t1", f); it("t2", g); const xs = s.split(","); it("t3", h);''
     = [''t1'', ''t2'', '','', ''t3'']
   \<and> testCases_of ''it("t1", f); it("t2", g); const xs = s.split(","); it("t3", h);''
     \<noteq> [''t1'', ''t2'', ''t3'']
   \<and> testCases_of ''it("", f); it("t2", g);'' = [''t2'']\<close>
  by (simp add: isQuote_def)

section \<open>Basic facts about steps and the file system\<close>

lemma steps_Nil: "steps [] = skip"
  by (simp add: steps_def)

lemma steps_Cons: "steps (s # ss) = andThen s (steps ss)"
  by (simp add: steps_def)

lemma steps_Cons_result:
  "steps (s # ss) w = (case s w of (None, w') \<Rightarrow> steps ss w' | (Some e, w') \<Rightarrow> (Some e, w'))"
  by (simp add: steps_Cons andThen_def)

lemma writeFileSync_None_iff:
  "writeFileSync p d fs = (None, fs') \<longleftrightarrow>
     fs (butlast p) = Some Dir \<and> fs p \<noteq> Some Dir \<and> fs' = fs(p \<mapsto> File d)"
  by (auto simp: writeFileSync_def split: option.splits entry.splits)

lemma writeFileSync_unchanged:
  "writeFileSync p d fs = (Some e, fs') \<Longrightarrow> fs' = fs"
  by (auto simp: writeFileSync_def split: option.splits entry.splits)

lemma mkdirSync_recursive_None:
  "mkdirSync_recursive p fs = (None, fs') \<Longrightarrow>
     fs' = (\<lambda>q. if prefix q p \<and> fs q = None then Some Dir else fs q)"
  by (auto simp: mkdirSync_recursive_def split: if_splits)

text \<open>Paths that end in plain file names.\<close>

lemma splitOn_plain: "d \<notin> set s \<Longrightarrow> splitOn d s = [s]"
  by (induction s) auto

lemma path_join_snoc:
  assumes "plainName f"
  shows "path_join (parts @ [f]) = (fst (path_join parts), snd (path_join parts) @ [f])"
proof -
  from assms have f: "f \<noteq> []" "hd f \<noteq> CHR ''/''" "splitOn (CHR ''/'') f = [f]"
    "f \<noteq> ''.''" "f \<noteq> ''..''"
    by (cases f; auto simp: plainName_def splitOn_plain)+
  show ?thesis
  proof (cases "filter (\<lambda>part. part \<noteq> []) parts = []")
    case True
    with f show ?thesis by (simp add: path_join_def Let_def normalizeStep_def)
  next
    case False
    with f show ?thesis by (simp add: path_join_def Let_def normalizeStep_def)
  qed
qed

lemma resolve_snoc:
  "plainName f \<Longrightarrow> resolve c (b, segs @ [f]) = resolve c (b, segs) @ [f]"
  by (simp add: resolve_def plainName_def normalizeStep_def)

lemma fs_path_snoc: "plainName f \<Longrightarrow> fs_path h (parts @ [f]) = fs_path h parts @ [f]"
  by (simp add: fs_path_def path_join_snoc resolve_snoc)

lemma resolve_dirname_snoc:
  "plainName f \<Longrightarrow> resolve c (path_dirname (path_join (parts @ [f]))) = resolve c (path_join parts)"
  by (simp add: path_join_snoc path_dirname_def)

lemma path_join_2: "plainName f \<Longrightarrow> fs_path h [a, f] = fs_path h [a] @ [f]"
  using fs_path_snoc [of f h "[a]"] by simp

lemma path_join_3:
  "plainName f \<Longrightarrow> plainName g \<Longrightarrow> fs_path h [a, f, g] = fs_path h [a] @ [f, g]"
  using fs_path_snoc [of g h "[a, f]"] fs_path_snoc [of f h "[a]"] by simp

lemma plainName_literals [simp]:
  "plainName ''package.json''" "plainName ''README.md''" "plainName ''.fhevm-example.json''"
  "plainName ''contracts''" "plainName ''test''" "plainName ''scripts''" "plainName ''deploy.ts''"
  "plainName ''.fhevm-category.json''" "plainName ''docs''" "plainName ''SUMMARY.md''"
  by (simp_all add: plainName_def)

section \<open>Properties of the documentation generator\<close>

lemma extractTestInfo_cong:
  "fs' (fs_path h [p]) = fs (fs_path h [p]) \<Longrightarrow> extractTestInfo h fs' p = extractTestInfo h fs p"
  by (simp add: extractTestInfo_def existsSync_at_def existsSync_def readFileSync_def fs_path_def)

lemma extractContractInfo_cong:
  "fs' (fs_path h [p]) = fs (fs_path h [p]) \<Longrightarrow>
     extractContractInfo h fs' p = extractContractInfo h fs p"
  by (simp add: extractContractInfo_def existsSync_at_def existsSync_def readFileSync_def fs_path_def)

text \<open>Two renderings differ exactly when the clock readings in them differ.\<close>

lemma markdown_text_inj:
  "markdown_text n c dc ts a = markdown_text n c dc ts b \<longleftrightarrow> a = b"
  by (simp add: markdown_text_def unlines_def)

lemma docs_steps_NoneD:
  assumes "steps [whenStep (\<lambda>fs. \<not> existsSync fs E) (fsStep (mkdirSync_recursive E)),
                  (\<lambda>w3. case toISOString_now h w3 of
                           (now, w4) \<Rightarrow> fsStep (writeFileSync T (md now)) w4),
                  logStep m] w = (None, w')"
  shows "\<exists>fs1. existsSync fs1 E
           \<and> writeFileSync T (md (clock h (ticks w))) fs1 = (None, disk w')
           \<and> ticks w' = Suc (ticks w)"
proof (cases "existsSync (disk w) E")
  case True
  with assms show ?thesis
    by (auto simp: steps_Cons_result steps_Nil skip_def whenStep_def fsStep_def logStep_def
        say_def toISOString_now_def split: prod.splits option.splits)
next
  case False
  with assms obtain fs1 where mk: "mkdirSync_recursive E (disk w) = (None, fs1)"
    and wr: "writeFileSync T (md (clock h (ticks w))) fs1 = (None, disk w')"
    and tk: "ticks w' = Suc (ticks w)"
    by (auto simp: steps_Cons_result steps_Nil skip_def whenStep_def fsStep_def logStep_def
        say_def toISOString_now_def split: prod.splits option.splits)
  from mk have "existsSync fs1 E"
    by (auto simp: mkdirSync_recursive_def existsSync_def split: if_splits)
  with wr tk show ?thesis by blast
qed

text \<open>What a completed run of \<open>generateDocumentation\<close> has done.\<close>

lemma generateDocumentation_CompletedD:
  assumes "generateDocumentation h reg docs n d w = (Completed, w1)"
  shows "\<exists>cfg ci ti fs1. map_of reg n = Some cfg
     \<and> extractContractInfo h (disk w) (docsField (map_of docs n) contractPath []) = Inr ci
     \<and> extractTestInfo h (disk w) (docsField (map_of docs n) testPath []) = Inr ti
     \<and> existsSync fs1
           (resolve (cwd h)
              (path_dirname
                 (path_join [docsField (map_of docs n) outputPath (''./docs/'' @ n @ ''.md'')])))
     \<and> writeFileSync
           (fs_path h [docsField (map_of docs n) outputPath (''./docs/'' @ n @ ''.md'')])
           (markdown_text n cfg (map_of docs n) (fst ti) (clock h (ticks w))) fs1 = (None, disk w1)
     \<and> ticks w1 = Suc (ticks w)"
proof (cases "map_of reg n")
  case None
  have "fst (generateDocumentation_inherited h docs n m w) \<noteq> Completed" for m
    by (simp add: generateDocumentation_inherited_def Let_def split: sum.splits prod.splits option.splits)
  with None assms show ?thesis
    by (auto simp: generateDocumentation_def split: option.splits dest: arg_cong [where f = fst])
next
  case (Some cfg)
  from Some assms show ?thesis
    by (auto simp: generateDocumentation_def Let_def say_def
        split: option.splits sum.splits prod.splits if_splits dest!: docs_steps_NoneD)
qed

lemma generateDocumentation_CompletedI:
  assumes "map_of reg n = Some cfg"
    and "extractContractInfo h (disk w) (docsField (map_of docs n) contractPath []) = Inr ci"
    and "extractTestInfo h (disk w) (docsField (map_of docs n) testPath []) = Inr ti"
    and "existsSync (disk w)
           (resolve (cwd h)
              (path_dirname
                 (path_join [docsField (map_of docs n) outputPath (''./docs/'' @ n @ ''.md'')])))"
    and "writeFileSync
           (fs_path h [docsField (map_of docs n) outputPath (''./docs/'' @ n @ ''.md'')])
           (markdown_text n cfg (map_of docs n) (fst ti) (clock h (ticks w))) (disk w) = (None, fs')"
  shows "\<exists>w1. generateDocumentation h reg docs n d w = (Completed, w1) \<and> disk w1 = fs'
           \<and> ticks w1 = Suc (ticks w)"
  using assms
  by (cases "map_of docs n")
    (simp_all add: generateDocumentation_def Let_def steps_Cons_result steps_Nil skip_def
      whenStep_def fsStep_def logStep_def say_def toISOString_now_def)

text \<open>Evaluation of the counter example's documentation run on concrete worlds.\<close>

lemmas docs_eval =
  generateDocumentation_def EXAMPLES_MAP_def DOCS_CONFIG_def Let_def
  docsField_def orElse_def extractContractInfo_def extractTestInfo_def existsSync_at_def
  fs_path_def resolve_def path_join_def normalizeStep_def path_dirname_def steps_Cons_result steps_Nil skip_def
  whenStep_def fsStep_def logStep_def say_def existsSync_def mkdirSync_recursive_def isFile_def
  writeFileSync_def readFileSync_def toISOString_now_def

text \<open>
  C1 (as amended). Let a run of \<open>generateDocumentation\<close> for an example complete, and
  let the two payload files be on disk afterwards as they were before. Then a second
  run for the same example completes too; it changes nothing on disk but the Markdown
  file, and the two Markdown files are the same rendering of the same registry entry,
  documentation settings and test titles, taken at the two readings of the clock (the
  line \<open>Last Updated\<close>). They are byte-identical if the two readings are equal.
\<close>

theorem generateDocumentation_rerun:
  assumes run1: "generateDocumentation h reg docs n d w = (Completed, w1)"
    and contract_same: "disk w1 (fs_path h [docsField (map_of docs n) contractPath []])
                        = disk w (fs_path h [docsField (map_of docs n) contractPath []])"
    and test_same: "disk w1 (fs_path h [docsField (map_of docs n) testPath []])
                        = disk w (fs_path h [docsField (map_of docs n) testPath []])"
  shows "\<exists>cfg titles w2.
           map_of reg n = Some cfg
         \<and> disk w1 (fs_path h [docsField (map_of docs n) outputPath (''./docs/'' @ n @ ''.md'')])
             = Some (File (markdown_text n cfg (map_of docs n) titles (clock h (ticks w))))
         \<and> generateDocumentation h reg docs n d' w1 = (Completed, w2)
         \<and> disk w2 =
             (disk w1)(fs_path h [docsField (map_of docs n) outputPath (''./docs/'' @ n @ ''.md'')]
               \<mapsto> File (markdown_text n cfg (map_of docs n) titles (clock h (Suc (ticks w)))))
         \<and> (clock h (Suc (ticks w)) = clock h (ticks w) \<longrightarrow> disk w2 = disk w1)"
proof -
  let ?T = "fs_path h [docsField (map_of docs n) outputPath (''./docs/'' @ n @ ''.md'')]"
  let ?D = "butlast ?T"
  let ?E = "resolve (cwd h)
              (path_dirname
                 (path_join [docsField (map_of docs n) outputPath (''./docs/'' @ n @ ''.md'')]))"
  from generateDocumentation_CompletedD [OF run1]
  obtain cfg ci ti fs1 where cfg: "map_of reg n = Some cfg"
    and ci: "extractContractInfo h (disk w) (docsField (map_of docs n) contractPath []) = Inr ci"
    and ti: "extractTestInfo h (disk w) (docsField (map_of docs n) testPath []) = Inr ti"
    and made: "existsSync fs1 ?E"
    and wr: "writeFileSync ?T (markdown_text n cfg (map_of docs n) (fst ti) (clock h (ticks w))) fs1
               = (None, disk w1)"
    and tk: "ticks w1 = Suc (ticks w)"
    by (elim exE conjE) (rule that)
  let ?md = "\<lambda>t. markdown_text n cfg (map_of docs n) (fst ti) t"
  from wr have dir: "fs1 ?D = Some Dir" and nodir: "fs1 ?T \<noteq> Some Dir"
    and d1: "disk w1 = fs1(?T \<mapsto> File (?md (clock h (ticks w))))"
    by (simp_all add: writeFileSync_None_iff)
  from dir nodir have ne: "?D \<noteq> ?T" by auto
  have file1: "disk w1 ?T = Some (File (?md (clock h (ticks w))))"
    using d1 by simp
  have dir1: "disk w1 ?D = Some Dir"
    using d1 dir ne by simp
  have ci1: "extractContractInfo h (disk w1) (docsField (map_of docs n) contractPath []) = Inr ci"
    using ci contract_same extractContractInfo_cong [of "disk w1" h _ "disk w"] by simp
  have ti1: "extractTestInfo h (disk w1) (docsField (map_of docs n) testPath []) = Inr ti"
    using ti test_same extractTestInfo_cong [of "disk w1" h _ "disk w"] by simp
  have wr2: "writeFileSync ?T (?md (clock h (ticks w1))) (disk w1)
               = (None, (disk w1)(?T \<mapsto> File (?md (clock h (ticks w1)))))"
    using file1 dir1 by (simp add: writeFileSync_None_iff)
  have ex1: "existsSync (disk w1) ?E" using made d1 by (simp add: existsSync_def)
  from generateDocumentation_CompletedI [OF cfg ci1 ti1 ex1 wr2, of d']
  obtain w2 where run2: "generateDocumentation h reg docs n d' w1 = (Completed, w2)"
    and d2: "disk w2 = (disk w1)(?T \<mapsto> File (?md (clock h (ticks w1))))"
    by (elim exE conjE) (rule that)
  have same: "clock h (Suc (ticks w)) = clock h (ticks w) \<longrightarrow> disk w2 = disk w1"
  proof
    assume "clock h (Suc (ticks w)) = clock h (ticks w)"
    with d2 tk have "disk w2 = (disk w1)(?T \<mapsto> File (?md (clock h (ticks w))))" by simp
    also have "\<dots> = disk w1" using file1 by (rule fun_upd_idem)
    finally show "disk w2 = disk w1" .
  qed
  have d2': "disk w2 = (disk w1)(?T \<mapsto> File (?md (clock h (Suc (ticks w)))))"
    using d2 tk by simp
  show ?thesis
  proof (intro exI conjI)
    show "map_of reg n = Some cfg" by (rule cfg)
    show "disk w1 ?T = Some (File (?md (clock h (ticks w))))" by (rule file1)
    show "generateDocumentation h reg docs n d' w1 = (Completed, w2)" by (rule run2)
    show "disk w2 = (disk w1)(?T \<mapsto> File (?md (clock h (Suc (ticks w)))))" by (rule d2')
    show "clock h (Suc (ticks w)) = clock h (ticks w) \<longrightarrow> disk w2 = disk w1" by (rule same)
  qed
qed

text \<open>
  The theorem at the counter example, in a working directory that holds its test file:
  the first run completes and leaves the test file alone, so the second run completes.
\<close>

theorem generateDocumentation_rerun_witness:
  "fst (generateDocumentation docs_host EXAMPLES_MAP DOCS_CONFIG ''fhe-counter'' ''./docs''
          docs_world) = Completed
   \<and> (\<exists>cfg titles w2.
         map_of EXAMPLES_MAP ''fhe-counter'' = Some cfg
       \<and> generateDocumentation docs_host EXAMPLES_MAP DOCS_CONFIG ''fhe-counter'' ''./docs''
           (snd (generateDocumentation docs_host EXAMPLES_MAP DOCS_CONFIG ''fhe-counter''
                   ''./docs'' docs_world)) = (Completed, w2)
       \<and> disk w2 [''docs'', ''basic'', ''fhe-counter.md'']
           = Some (File (markdown_text ''fhe-counter'' cfg (map_of DOCS_CONFIG ''fhe-counter'')
                           titles (sample_clock 1))))"
proof -
  let ?run = "generateDocumentation docs_host EXAMPLES_MAP DOCS_CONFIG ''fhe-counter'' ''./docs''"
  have c: "fst (?run docs_world) = Completed"
    by (simp add: docs_eval docs_world_def docs_host_def)
  then have r: "?run docs_world = (Completed, snd (?run docs_world))"
    by (metis prod.collapse)
  have p1: "disk (snd (?run docs_world))
              (fs_path docs_host [docsField (map_of DOCS_CONFIG ''fhe-counter'') contractPath []])
            = disk docs_world
              (fs_path docs_host [docsField (map_of DOCS_CONFIG ''fhe-counter'') contractPath []])"
    by (simp add: docs_eval docs_world_def docs_host_def)
  have p2: "disk (snd (?run docs_world))
              (fs_path docs_host [docsField (map_of DOCS_CONFIG ''fhe-counter'') testPath []])
            = disk docs_world
              (fs_path docs_host [docsField (map_of DOCS_CONFIG ''fhe-counter'') testPath []])"
    by (simp add: docs_eval docs_world_def docs_host_def)
  have t: "fs_path docs_host [docsField (map_of DOCS_CONFIG ''fhe-counter'') outputPath
                        (''./docs/'' @ ''fhe-counter'' @ ''.md'')]
           = [''docs'', ''basic'', ''fhe-counter.md'']"
    by (simp add: docs_eval docs_host_def)
  have k: "clock docs_host (Suc (ticks docs_world)) = sample_clock 1"
    by (simp add: docs_host_def docs_world_def)
  from generateDocumentation_rerun [OF r p1 p2, of "''./docs''"]
  obtain cfg titles w2 where "map_of EXAMPLES_MAP ''fhe-counter'' = Some cfg"
    and "?run (snd (?run docs_world)) = (Completed, w2)"
    and "disk w2 = (disk (snd (?run docs_world)))
           ([''docs'', ''basic'', ''fhe-counter.md'']
              \<mapsto> File (markdown_text ''fhe-counter'' cfg (map_of DOCS_CONFIG ''fhe-counter'')
                          titles (sample_clock 1)))"
    unfolding t k by (elim exE conjE) (rule that)
  then show ?thesis using c
    by (intro conjI exI [of _ cfg] exI [of _ titles] exI [of _ w2]) simp_all
qed

text \<open>
  C1 as the specification states it fails: the clock is read into the document, so two
  runs on an unchanged disk write different files.
\<close>

theorem generateDocumentation_rerun_counterexample:
  "fst (generateDocumentation docs_host EXAMPLES_MAP DOCS_CONFIG ''fhe-counter'' ''./docs''
          docs_world) = Completed
   \<and> fst (generateDocumentation docs_host EXAMPLES_MAP DOCS_CONFIG ''fhe-counter'' ''./docs''
          (snd (generateDocumentation docs_host EXAMPLES_MAP DOCS_CONFIG ''fhe-counter''
                  ''./docs'' docs_world))) = Completed
   \<and> disk (snd (generateDocumentation docs_host EXAMPLES_MAP DOCS_CONFIG ''fhe-counter'' ''./docs''
          (snd (generateDocumentation docs_host EXAMPLES_MAP DOCS_CONFIG ''fhe-counter''
                  ''./docs'' docs_world)))) [''docs'', ''basic'', ''fhe-counter.md'']
     \<noteq> disk (snd (generateDocumentation docs_host EXAMPLES_MAP DOCS_CONFIG ''fhe-counter''
                  ''./docs'' docs_world)) [''docs'', ''basic'', ''fhe-counter.md'']"
  by (simp add: docs_eval docs_world_def docs_host_def sample_clock_def markdown_text_inj)

text \<open>
  C5. The specification places the Markdown file below the \<open>outputRoot\<close> argument. The
  function never reads that argument: the outcome is the same for any two values of it,
  and with \<open>/tmp/out\<close> the counter example's document is written to
  \<open>./docs/basic/fhe-counter.md\<close> below the working directory, while nothing appears at
  \<open>/tmp/out/basic/fhe-counter.md\<close>.
\<close>

theorem generateDocumentation_ignores_outputDir:
  "generateDocumentation h reg docs n d1 w = generateDocumentation h reg docs n d2 w
   \<and> fst (generateDocumentation docs_host EXAMPLES_MAP DOCS_CONFIG ''fhe-counter'' ''/tmp/out''
            fresh_world) = Completed
   \<and> isFile (disk (snd (generateDocumentation docs_host EXAMPLES_MAP DOCS_CONFIG ''fhe-counter''
                           ''/tmp/out'' fresh_world)))
        (fs_path docs_host [''./docs/basic/fhe-counter.md''])
   \<and> disk (snd (generateDocumentation docs_host EXAMPLES_MAP DOCS_CONFIG ''fhe-counter''
                   ''/tmp/out'' fresh_world))
        (fs_path docs_host [''/tmp/out'', ''basic'', ''fhe-counter.md'']) = None"
proof (intro conjI)
  show "generateDocumentation h reg docs n d1 w = generateDocumentation h reg docs n d2 w"
    by (simp add: generateDocumentation_def)
qed (simp_all add: docs_eval fresh_world_def docs_host_def)

section \<open>Properties of the summary\<close>

lemma count_list_filter:
  "count_list (filter P xs) x = (if P x then count_list xs x else 0)"
  by (induction xs) auto

lemma count_list_distinct_keys:
  "distinct (map fst xs) \<Longrightarrow> x \<in> set xs \<Longrightarrow> count_list xs x = 1"
  by (induction xs) (auto simp: rev_image_eqI count_list_0_iff)

lemma generateSummary_file:
  assumes "generateSummary h reg dir w = (Completed, w')"
  shows "disk w' (fs_path h [dir, ''docs'', ''SUMMARY.md'']) = Some (File (summary_text reg))"
  using assms
  by (auto simp: generateSummary_def Let_def steps_Cons_result steps_Nil skip_def whenStep_def
      fsStep_def logStep_def say_def writeFileSync_None_iff fs_path_def
      split: prod.splits option.splits if_splits)

lemma join_eq:
  "join sep xs = (case xs of [] \<Rightarrow> [] | x # rest \<Rightarrow> x @ concat (map (\<lambda>y. sep @ y) rest))"
  by (induction sep xs rule: join.induct) simp_all

lemma summary_text_eq:
  "summary_text reg =
     ''# Summary'' @ nl @ nl
     @ ''## Getting Started'' @ nl
     @ ''* [Introduction](README.md)'' @ nl @ nl
     @ ''## Enterprise Applications'' @ nl
     @ (case map (\<lambda>e. ''* ['' @ ExampleConfig.name (snd e) @ ''](enterprise/'' @ fst e @ ''.md)'')
               (filter (\<lambda>e. ExampleConfig.category (snd e) = ''enterprise'') reg) of
          [] \<Rightarrow> []
        | l # ls \<Rightarrow> l @ concat (map (\<lambda>x. nl @ x) ls)) @ nl @ nl
     @ ''## Basic Examples'' @ nl
     @ (case map (\<lambda>e. ''* ['' @ ExampleConfig.name (snd e) @ ''](basic/'' @ fst e @ ''.md)'')
               (filter (\<lambda>e. ExampleConfig.category (snd e) = ''basic'') reg) of
          [] \<Rightarrow> []
        | l # ls \<Rightarrow> l @ concat (map (\<lambda>x. nl @ x) ls)) @ nl @ nl
     @ ''## Resources'' @ nl
     @ ''* [FHEVM Documentation](https://docs.zama.ai/fhevm)'' @ nl
     @ ''* [Hardhat Guide](https://hardhat.org/)'' @ nl
     @ ''* [Zama Community](https://www.zama.ai/community)'' @ nl"
  by (simp add: summary_text_def unlines_def summary_links_def summary_entries_def
      summary_link_def [abs_def] join_eq [of nl])

text \<open>
  C4 (as amended). A completed \<open>generateSummary\<close> has written the file
  \<open>docs/SUMMARY.md\<close> below the directory its argument names. The text has two sections
  with fixed headings. Under \<open>Enterprise Applications\<close> stand the lines
  \<open>* [name](enterprise/id.md)\<close> of the registered examples whose own \<open>category\<close> field
  is \<open>enterprise\<close>, in registry order, one per line; under \<open>Basic Examples\<close> the lines
  \<open>* [name](basic/id.md)\<close> of those whose category is \<open>basic\<close>. Nothing else in the
  text depends on the registry: an example of any other category is not listed. When
  the identifiers are distinct, an example of one of the two categories is listed
  exactly once.
\<close>

theorem generateSummary_sections:
  "(generateSummary h reg dir w = (Completed, w') \<longrightarrow>
      disk w' (fs_path h [dir] @ [''docs'', ''SUMMARY.md'']) =
        Some (File
          (''# Summary'' @ nl @ nl
           @ ''## Getting Started'' @ nl
           @ ''* [Introduction](README.md)'' @ nl @ nl
           @ ''## Enterprise Applications'' @ nl
           @ (case map (\<lambda>e. ''* ['' @ ExampleConfig.name (snd e) @ ''](enterprise/'' @ fst e @ ''.md)'')
                     (filter (\<lambda>e. ExampleConfig.category (snd e) = ''enterprise'') reg) of
                [] \<Rightarrow> []
              | l # ls \<Rightarrow> l @ concat (map (\<lambda>x. nl @ x) ls)) @ nl @ nl
           @ ''## Basic Examples'' @ nl
           @ (case map (\<lambda>e. ''* ['' @ ExampleConfig.name (snd e) @ ''](basic/'' @ fst e @ ''.md)'')
                     (filter (\<lambda>e. ExampleConfig.category (snd e) = ''basic'') reg) of
                [] \<Rightarrow> []
              | l # ls \<Rightarrow> l @ concat (map (\<lambda>x. nl @ x) ls)) @ nl @ nl
           @ ''## Resources'' @ nl
           @ ''* [FHEVM Documentation](https://docs.zama.ai/fhevm)'' @ nl
           @ ''* [Hardhat Guide](https://hardhat.org/)'' @ nl
           @ ''* [Zama Community](https://www.zama.ai/community)'' @ nl)))
   \<and> (distinct (map fst reg) \<longrightarrow>
        (\<forall>e \<in> set reg.
           count_list (filter (\<lambda>e. ExampleConfig.category (snd e) = ''enterprise'') reg
                       @ filter (\<lambda>e. ExampleConfig.category (snd e) = ''basic'') reg) e
           = (if ExampleConfig.category (snd e) = ''enterprise''
                 \<or> ExampleConfig.category (snd e) = ''basic'' then 1 else 0)))"
proof (intro conjI impI ballI)
  assume "generateSummary h reg dir w = (Completed, w')"
  then have "disk w' (fs_path h [dir, ''docs'', ''SUMMARY.md'']) = Some (File (summary_text reg))"
    by (rule generateSummary_file)
  then show "disk w' (fs_path h [dir] @ [''docs'', ''SUMMARY.md'']) =
        Some (File
          (''# Summary'' @ nl @ nl
           @ ''## Getting Started'' @ nl
           @ ''* [Introduction](README.md)'' @ nl @ nl
           @ ''## Enterprise Applications'' @ nl
           @ (case map (\<lambda>e. ''* ['' @ ExampleConfig.name (snd e) @ ''](enterprise/'' @ fst e @ ''.md)'')
                     (filter (\<lambda>e. ExampleConfig.category (snd e) = ''enterprise'') reg) of
                [] \<Rightarrow> []
              | l # ls \<Rightarrow> l @ concat (map (\<lambda>x. nl @ x) ls)) @ nl @ nl
           @ ''## Basic Examples'' @ nl
           @ (case map (\<lambda>e. ''* ['' @ ExampleConfig.name (snd e) @ ''](basic/'' @ fst e @ ''.md)'')
                     (filter (\<lambda>e. ExampleConfig.category (snd e) = ''basic'') reg) of
                [] \<Rightarrow> []
              | l # ls \<Rightarrow> l @ concat (map (\<lambda>x. nl @ x) ls)) @ nl @ nl
           @ ''## Resources'' @ nl
           @ ''* [FHEVM Documentation](https://docs.zama.ai/fhevm)'' @ nl
           @ ''* [Hardhat Guide](https://hardhat.org/)'' @ nl
           @ ''* [Zama Community](https://www.zama.ai/community)'' @ nl))"
    unfolding summary_text_eq by (simp only: path_join_3 plainName_literals)
next
  fix e
  assume d: "distinct (map fst reg)" and e: "e \<in> set reg"
  have "count_list reg e = 1" using d e by (rule count_list_distinct_keys)
  then show "count_list (filter (\<lambda>e. ExampleConfig.category (snd e) = ''enterprise'') reg
                       @ filter (\<lambda>e. ExampleConfig.category (snd e) = ''basic'') reg) e
           = (if ExampleConfig.category (snd e) = ''enterprise''
                 \<or> ExampleConfig.category (snd e) = ''basic'' then 1 else 0)"
    by (simp add: count_list_filter)
qed

text \<open>
  A registry with examples of three categories, read from a working directory that is
  not the root, with an output directory above it: the file is written next to the
  working directory, the two basic examples are listed in registry order, the example
  of the third category is not listed.
\<close>

theorem generateSummary_sections_witness:
  \<open>fst (generateSummary repo_host mixed_registry ''../site'' fresh_world) = Completed
   \<and> distinct (map fst mixed_registry)
   \<and> disk (snd (generateSummary repo_host mixed_registry ''../site'' fresh_world))
         [''home'', ''dev'', ''site'', ''docs'', ''SUMMARY.md'']
       = Some (File
           (''# Summary'' @ nl @ nl
            @ ''## Getting Started'' @ nl
            @ ''* [Introduction](README.md)'' @ nl @ nl
            @ ''## Enterprise Applications'' @ nl
            @ ''* [Ledger](enterprise/ledger.md)'' @ nl @ nl
            @ ''## Basic Examples'' @ nl
            @ ''* [Alpha](basic/alpha.md)'' @ nl
            @ ''* [Beta](basic/beta.md)'' @ nl @ nl
            @ ''## Resources'' @ nl
            @ ''* [FHEVM Documentation](https://docs.zama.ai/fhevm)'' @ nl
            @ ''* [Hardhat Guide](https://hardhat.org/)'' @ nl
            @ ''* [Zama Community](https://www.zama.ai/community)'' @ nl))
   \<and> isFile (disk (snd (generateSummary repo_host mixed_registry ''/tmp/out'' fresh_world)))
         [''tmp'', ''out'', ''docs'', ''SUMMARY.md'']
   \<and> list_all
       (\<lambda>e. count_list (filter (\<lambda>e. ExampleConfig.category (snd e) = ''enterprise'') mixed_registry
                          @ filter (\<lambda>e. ExampleConfig.category (snd e) = ''basic'') mixed_registry) e
            = (if ExampleConfig.category (snd e) = ''governance'' then 0 else 1))
       mixed_registry\<close>
proof -
  let ?r = "generateSummary repo_host mixed_registry ''../site'' fresh_world"
  have c: "fst ?r = Completed"
    by (simp add: generateSummary_def fresh_world_def repo_host_def docs_host_def resolve_def
        path_join_def normalizeStep_def path_dirname_def steps_Cons_result steps_Nil skip_def
        whenStep_def fsStep_def logStep_def say_def existsSync_def mkdirSync_recursive_def
        isFile_def writeFileSync_def)
  then have r: "?r = (Completed, snd ?r)" by (metis prod.collapse)
  have dst: "distinct (map fst mixed_registry)"
    by (simp add: mixed_registry_def governance_registry_def)
  have p: "fs_path repo_host [''../site''] = [''home'', ''dev'', ''site'']"
    by (simp add: fs_path_def resolve_def path_join_def normalizeStep_def repo_host_def
        docs_host_def)
  note inst = generateSummary_sections [of repo_host mixed_registry "''../site''" fresh_world "snd ?r"]
  from inst [THEN conjunct1, rule_format, OF r]
  have f: \<open>disk (snd ?r) [''home'', ''dev'', ''site'', ''docs'', ''SUMMARY.md'']
       = Some (File
           (''# Summary'' @ nl @ nl
            @ ''## Getting Started'' @ nl
            @ ''* [Introduction](README.md)'' @ nl @ nl
            @ ''## Enterprise Applications'' @ nl
            @ ''* [Ledger](enterprise/ledger.md)'' @ nl @ nl
            @ ''## Basic Examples'' @ nl
            @ ''* [Alpha](basic/alpha.md)'' @ nl
            @ ''* [Beta](basic/beta.md)'' @ nl @ nl
            @ ''## Resources'' @ nl
            @ ''* [FHEVM Documentation](https://docs.zama.ai/fhevm)'' @ nl
            @ ''* [Hardhat Guide](https://hardhat.org/)'' @ nl
            @ ''* [Zama Community](https://www.zama.ai/community)'' @ nl))\<close>
    by (simp add: p mixed_registry_def alpha_def governance_registry_def)
  have a: "isFile (disk (snd (generateSummary repo_host mixed_registry ''/tmp/out'' fresh_world)))
         [''tmp'', ''out'', ''docs'', ''SUMMARY.md'']"
    by (simp add: generateSummary_def fresh_world_def repo_host_def docs_host_def resolve_def
        path_join_def normalizeStep_def path_dirname_def steps_Cons_result steps_Nil skip_def
        whenStep_def fsStep_def logStep_def say_def existsSync_def mkdirSync_recursive_def
        isFile_def writeFileSync_def)
  from inst [THEN conjunct2, rule_format, OF dst]
  have l: "list_all
       (\<lambda>e. count_list (filter (\<lambda>e. ExampleConfig.category (snd e) = ''enterprise'') mixed_registry
                          @ filter (\<lambda>e. ExampleConfig.category (snd e) = ''basic'') mixed_registry) e
            = (if ExampleConfig.category (snd e) = ''governance'' then 0 else 1))
       mixed_registry"
    by (simp add: mixed_registry_def alpha_def governance_registry_def list_all_iff)
  from c dst f a l show ?thesis by (intro conjI)
qed

text \<open>
  C4 as the specification states it fails: an example of a third category is registered
  and the summary does not mention it; the file written is that of the empty registry.
\<close>

theorem generateSummary_sections_counterexample:
  \<open>map fst governance_registry = [''zk-vote'']
   \<and> fst (generateSummary docs_host governance_registry ''.'' fresh_world) = Completed
   \<and> disk (snd (generateSummary docs_host governance_registry ''.'' fresh_world))
         [''docs'', ''SUMMARY.md'']
       = Some (File
           (''# Summary'' @ nl @ nl
            @ ''## Getting Started'' @ nl
            @ ''* [Introduction](README.md)'' @ nl @ nl
            @ ''## Enterprise Applications'' @ nl @ nl @ nl
            @ ''## Basic Examples'' @ nl @ nl @ nl
            @ ''## Resources'' @ nl
            @ ''* [FHEVM Documentation](https://docs.zama.ai/fhevm)'' @ nl
            @ ''* [Hardhat Guide](https://hardhat.org/)'' @ nl
            @ ''* [Zama Community](https://www.zama.ai/community)'' @ nl))
   \<and> disk (snd (generateSummary docs_host governance_registry ''.'' fresh_world))
       = disk (snd (generateSummary docs_host [] ''.'' fresh_world))\<close>
  by (simp add: generateSummary_def fresh_world_def docs_host_def resolve_def
      path_join_def normalizeStep_def path_dirname_def steps_Cons_result steps_Nil skip_def
      whenStep_def fsStep_def logStep_def say_def existsSync_def mkdirSync_recursive_def
      isFile_def writeFileSync_def summary_text_def summary_links_def summary_entries_def
      governance_registry_def unlines_def)

section \<open>Properties of the template copy\<close>

lemma isFile_iff: "isFile fs q \<longleftrightarrow> (\<exists>c. fs q = Some (File c))"
  by (auto simp: isFile_def split: option.splits entry.splits)

lemma not_None_cases: "x \<noteq> None \<longleftrightarrow> x = Some Dir \<or> (\<exists>c. x = Some (File c))"
  by (cases x) (auto intro: entry.exhaust)

lemma keepsKinds_refl [simp]: "keepsKinds fs fs"
  by (simp add: keepsKinds_def)

lemma keepsKinds_trans: "keepsKinds a b \<Longrightarrow> keepsKinds b c \<Longrightarrow> keepsKinds a c"
  by (simp add: keepsKinds_def)

lemma keepsKinds_exists: "keepsKinds a b \<Longrightarrow> a q \<noteq> None \<Longrightarrow> b q \<noteq> None"
  unfolding keepsKinds_def isFile_iff not_None_cases by blast

lemma keepsKinds_Dir: "keepsKinds a b \<Longrightarrow> a q = Some Dir \<Longrightarrow> b q = Some Dir"
  by (simp add: keepsKinds_def)

lemma keepsKinds_notDir: "keepsKinds a b \<Longrightarrow> isFile a q \<Longrightarrow> b q \<noteq> Some Dir"
  by (auto simp: keepsKinds_def isFile_iff)

lemma writeFileSync_keeps: "writeFileSync p d fs = (r, fs') \<Longrightarrow> keepsKinds fs fs'"
  by (auto simp: writeFileSync_def keepsKinds_def isFile_iff split: option.splits entry.splits if_splits)

lemma copyFileSync_keeps: "copyFileSync src p fs = (r, fs') \<Longrightarrow> keepsKinds fs fs'"
  by (auto simp: copyFileSync_def dest: writeFileSync_keeps split: tnode.splits)

lemma mkdirSync_recursive_keeps: "mkdirSync_recursive p fs = (r, fs') \<Longrightarrow> keepsKinds fs fs'"
  by (auto simp: mkdirSync_recursive_def keepsKinds_def isFile_iff split: if_splits)

lemma copyWith_keeps:
  "copyDirectoryWith sk es p fs = (r, fs') \<Longrightarrow> keepsKinds fs fs'"
  "copyEntriesWith sk es p fs = (r, fs') \<Longrightarrow> keepsKinds fs fs'"
proof (induction sk es p fs and sk es p fs arbitrary: r fs' and r fs'
    rule: copyDirectoryWith_copyEntriesWith.induct)
  case (1 skipped es dest fs)
  show ?case
  proof (cases "existsSync fs dest")
    case True
    with 1 show ?thesis by (auto split: prod.splits)
  next
    case False
    obtain r1 fs1 where m: "mkdirSync_recursive dest fs = (r1, fs1)" by force
    then have k: "keepsKinds fs fs1" by (rule mkdirSync_recursive_keeps)
    show ?thesis
    proof (cases r1)
      case None
      with 1 False m k show ?thesis by (auto intro: keepsKinds_trans)
    next
      case (Some e)
      with 1 False m k show ?thesis by auto
    qed
  qed
next
  case (2 skipped dest fs)
  then show ?case by simp
next
  case (3 skipped entryName node rest dest fs)
  show ?case
  proof (cases "entryName \<in> set skipped")
    case True
    with 3 show ?thesis by auto
  next
    case False
    obtain r1 fs1 where s: "(case node of
                 TDir sub \<Rightarrow> copyDirectoryWith skipped sub (dest @ [entryName]) fs
               | TFile c \<Rightarrow> copyFileSync node (dest @ [entryName]) fs) = (r1, fs1)" by force
    have k: "keepsKinds fs fs1"
      using s 3(2) [OF False] by (cases node) (auto dest: copyFileSync_keeps)
    show ?thesis
    proof (cases r1)
      case None
      with 3 False s k show ?thesis by (auto intro: keepsKinds_trans)
    next
      case (Some e)
      with 3 False s k show ?thesis by auto
    qed
  qed
qed

text \<open>The recursive copy performs the flattened list of operations.\<close>

lemma runOps_append:
  "runOps (xs @ ys) fs =
     (case runOps xs fs of (Some e, fs') \<Rightarrow> (Some e, fs') | (None, fs') \<Rightarrow> runOps ys fs')"
  by (induction xs arbitrary: fs) (auto split: prod.splits option.splits)

lemma copyWith_runOps:
  "copyDirectoryWith sk es p fs = runOps (EnsureDir p # copyOps sk es p) fs"
  "copyEntriesWith sk es p fs = runOps (copyOps sk es p) fs"
proof (induction sk es p fs and sk es p fs rule: copyDirectoryWith_copyEntriesWith.induct)
  case (1 skipped es dest fs)
  then show ?case by (auto split: prod.splits option.splits)
next
  case (2 skipped dest fs)
  then show ?case by simp
next
  case (3 skipped entryName node rest dest fs)
  show ?case
  proof (cases "entryName \<in> set skipped")
    case True
    with 3 show ?thesis by (cases node) auto
  next
    case False
    show ?thesis
    proof (cases node)
      case (TFile c)
      with 3 False show ?thesis
        by (auto simp: copyFileSync_def split: prod.splits option.splits)
    next
      case (TDir sub)
      with 3 False show ?thesis
        by (auto simp: runOps_append split: prod.splits option.splits)
    qed
  qed
qed

lemma applyOp_keeps: "applyOp op fs = (r, fs') \<Longrightarrow> keepsKinds fs fs'"
  by (cases op) (auto dest: mkdirSync_recursive_keeps writeFileSync_keeps split: if_splits)

lemma runOps_keeps: "runOps ops fs = (r, fs') \<Longrightarrow> keepsKinds fs fs'"
proof (induction ops arbitrary: fs)
  case Nil
  then show ?case by simp
next
  case (Cons op ops)
  obtain r1 fs1 where a: "applyOp op fs = (r1, fs1)" by force
  then have k: "keepsKinds fs fs1" by (rule applyOp_keeps)
  show ?case
  proof (cases r1)
    case None
    with Cons a have "keepsKinds fs1 fs'" by simp
    with k show ?thesis by (rule keepsKinds_trans)
  next
    case (Some e)
    with Cons.prems a k show ?thesis by simp
  qed
qed

text \<open>What exists stays as it is unless an operation writes that very file.\<close>

lemma applyOp_frame:
  assumes "applyOp op fs = (r, fs')" and "fs q \<noteq> None" and "q \<notin> opFiles [op]"
  shows "fs' q = fs q"
proof (cases op)
  case (EnsureDir t)
  with assms show ?thesis
    by (auto simp: mkdirSync_recursive_def split: if_splits)
next
  case (PutFile t c)
  with assms have "t \<noteq> q" by (auto simp: opFiles_def)
  with assms PutFile show ?thesis
    by (auto simp: writeFileSync_def split: option.splits entry.splits)
qed

lemma opFiles_Cons: "opFiles (op # ops) = opFiles [op] \<union> opFiles ops"
  by (auto simp: opFiles_def)

lemma opFiles_append: "opFiles (xs @ ys) = opFiles xs \<union> opFiles ys"
  by (auto simp: opFiles_def)

lemma opFiles_simps [simp]:
  "opFiles [] = {}" "opFiles [EnsureDir t] = {}" "opFiles [PutFile t c] = {t}"
  by (auto simp: opFiles_def)

lemma runOps_frame:
  "runOps ops fs = (r, fs') \<Longrightarrow> fs q \<noteq> None \<Longrightarrow> q \<notin> opFiles ops \<Longrightarrow> fs' q = fs q"
proof (induction ops arbitrary: fs)
  case Nil
  then show ?case by simp
next
  case (Cons op ops)
  obtain r1 fs1 where a: "applyOp op fs = (r1, fs1)" by force
  from Cons.prems have n1: "q \<notin> opFiles [op]" and n2: "q \<notin> opFiles ops"
    by (simp_all add: opFiles_Cons [of op ops])
  have e: "fs1 q = fs q" using a Cons.prems(2) n1 by (rule applyOp_frame)
  show ?case
  proof (cases r1)
    case None
    with Cons.prems a have "runOps ops fs1 = (r, fs')" by simp
    moreover have "fs1 q \<noteq> None" using e Cons.prems(2) by simp
    ultimately have "fs' q = fs1 q" using n2 by (rule Cons.IH)
    with e show ?thesis by simp
  next
    case (Some x)
    with Cons.prems a e show ?thesis by simp
  qed
qed

text \<open>A file the operations wrote is a file afterwards.\<close>

lemma runOps_files:
  "runOps ops fs = (None, fs') \<Longrightarrow> q \<in> opFiles ops \<Longrightarrow> isFile fs' q"
proof (induction ops arbitrary: fs)
  case Nil
  then show ?case by simp
next
  case (Cons op ops)
  from Cons.prems obtain fs1 where a: "applyOp op fs = (None, fs1)"
    and b: "runOps ops fs1 = (None, fs')"
    by (auto split: prod.splits option.splits)
  show ?case
  proof (cases "q \<in> opFiles ops")
    case True
    with b show ?thesis by (rule Cons.IH)
  next
    case False
    with Cons.prems have "q \<in> opFiles [op]" by (simp add: opFiles_Cons [of op ops])
    then obtain c where "op = PutFile q c" by (cases op) auto
    with a have "isFile fs1 q" by (auto simp: writeFileSync_None_iff isFile_iff)
    moreover have "keepsKinds fs1 fs'" using b by (rule runOps_keeps)
    ultimately show ?thesis by (simp add: keepsKinds_def)
  qed
qed

text \<open>
  Running the operations again, on any later state that kept what the first run left:
  they succeed, directories are found in place, and the files are written anew.
\<close>

lemma applyOp_again:
  assumes "applyOp op fs = (None, fs1)" and "keepsKinds fs1 g"
  shows "\<exists>g'. applyOp op g = (None, g') \<and> keepsKinds fs1 g'
            \<and> (\<forall>q. g' q = (if q \<in> opFiles [op] then fs1 q else g q))"
proof (cases op)
  case (EnsureDir t)
  have "fs1 t \<noteq> None"
    using assms(1) EnsureDir
    by (auto simp: existsSync_def mkdirSync_recursive_def split: if_splits)
  with assms(2) have "g t \<noteq> None" by (rule keepsKinds_exists)
  with EnsureDir assms(2) show ?thesis by (simp add: existsSync_def)
next
  case (PutFile t c)
  with assms(1) have d: "fs (butlast t) = Some Dir" and n: "fs t \<noteq> Some Dir"
    and f: "fs1 = fs(t \<mapsto> File c)"
    by (simp_all add: writeFileSync_None_iff)
  from d n have ne: "butlast t \<noteq> t" by auto
  have "fs1 (butlast t) = Some Dir" using f d ne by simp
  with assms(2) have gd: "g (butlast t) = Some Dir" by (rule keepsKinds_Dir)
  have ft: "fs1 t = Some (File c)" using f by simp
  then have "isFile fs1 t" by (simp add: isFile_iff)
  with assms(2) have gn: "g t \<noteq> Some Dir" by (rule keepsKinds_notDir)
  have w: "applyOp op g = (None, g(t \<mapsto> File c))"
    using PutFile gd gn by (simp add: writeFileSync_None_iff)
  have k: "keepsKinds fs1 (g(t \<mapsto> File c))"
    using assms(2) ft by (auto simp: keepsKinds_def isFile_iff)
  show ?thesis using w k ft PutFile by auto
qed

lemma runOps_again:
  "runOps ops fs = (None, fs1) \<Longrightarrow> keepsKinds fs1 g \<Longrightarrow>
     \<exists>g'. runOps ops g = (None, g') \<and> keepsKinds fs1 g'
          \<and> (\<forall>q. g' q = (if q \<in> opFiles ops then fs1 q else g q))"
proof (induction ops arbitrary: fs g)
  case Nil
  then show ?case by simp
next
  case (Cons op ops)
  from Cons.prems(1) obtain fsa where a: "applyOp op fs = (None, fsa)"
    and b: "runOps ops fsa = (None, fs1)"
    by (auto split: prod.splits option.splits)
  have ka: "keepsKinds fsa fs1" using b by (rule runOps_keeps)
  then have "keepsKinds fsa g" using Cons.prems(2) by (rule keepsKinds_trans)
  with a obtain ga where ga: "applyOp op g = (None, ga)" and kga: "keepsKinds fsa ga"
    and qa: "\<forall>q. ga q = (if q \<in> opFiles [op] then fsa q else g q)"
    using applyOp_again by blast
  have k1: "keepsKinds fs1 ga"
    unfolding keepsKinds_def
  proof (intro allI conjI impI)
    fix q
    assume "fs1 q = Some Dir"
    then have "g q = Some Dir" using Cons.prems(2) by (simp add: keepsKinds_def)
    moreover have "q \<notin> opFiles [op]"
    proof
      assume "q \<in> opFiles [op]"
      then have "isFile fsa q" using a by (cases op) (auto simp: writeFileSync_None_iff isFile_iff)
      with ka have "isFile fs1 q" by (simp add: keepsKinds_def)
      with \<open>fs1 q = Some Dir\<close> show False by (simp add: isFile_iff)
    qed
    ultimately show "ga q = Some Dir" using qa by simp
  next
    fix q
    assume f: "isFile fs1 q"
    show "isFile ga q"
    proof (cases "q \<in> opFiles [op]")
      case True
      then have "isFile fsa q" using a by (cases op) (auto simp: writeFileSync_None_iff isFile_iff)
      with True qa show ?thesis by (simp add: isFile_iff)
    next
      case False
      from f Cons.prems(2) have "isFile g q" by (simp add: keepsKinds_def)
      with False qa show ?thesis by (simp add: isFile_iff)
    qed
  qed
  from Cons.IH [OF b k1] obtain g' where r: "runOps ops ga = (None, g')"
    and k': "keepsKinds fs1 g'"
    and q': "\<forall>q. g' q = (if q \<in> opFiles ops then fs1 q else ga q)"
    by blast
  have "g' q = (if q \<in> opFiles (op # ops) then fs1 q else g q)" for q
  proof (cases "q \<in> opFiles ops")
    case True
    with q' show ?thesis by (simp add: opFiles_Cons [of op ops])
  next
    case False
    show ?thesis
    proof (cases "q \<in> opFiles [op]")
      case True
      then have "isFile fsa q" using a by (cases op) (auto simp: writeFileSync_None_iff isFile_iff)
      then have "fsa q \<noteq> None" by (auto simp: isFile_iff)
      with b have "fs1 q = fsa q" using False by (rule runOps_frame)
      with True False q' qa show ?thesis by (simp add: opFiles_Cons [of op ops])
    next
      case False
      with \<open>q \<notin> opFiles ops\<close> q' qa show ?thesis by (simp add: opFiles_Cons [of op ops])
    qed
  qed
  with ga r k' show ?case by simp
qed

section \<open>Properties of the example generator\<close>

lemma steps_None_iff:
  "steps (s # ss) w = (None, w') \<longleftrightarrow> (\<exists>w1. s w = (None, w1) \<and> steps ss w1 = (None, w'))"
  by (auto simp: steps_Cons_result split: prod.splits option.splits)

lemma steps_Nil_iff: "steps [] w = (r, w') \<longleftrightarrow> r = None \<and> w' = w"
  by (auto simp: steps_Nil skip_def)

lemma logStep_iff: "logStep m w = (r, w') \<longleftrightarrow> r = None \<and> w' = say m w"
  by (auto simp: logStep_def)

lemma fsStep_iff:
  "fsStep f w = (r, w') \<longleftrightarrow> (\<exists>fs'. f (disk w) = (r, fs') \<and> w' = w\<lparr>disk := fs'\<rparr>)"
  by (auto simp: fsStep_def split: prod.splits)

lemma skip_iff: "skip w = (r, w') \<longleftrightarrow> r = None \<and> w' = w"
  by (auto simp: skip_def)

lemma say_simps [simp]:
  "disk (say m w) = disk w" "ticks (say m w) = ticks w" "console (say m w) = console w @ [m]"
  by (simp_all add: say_def)

text \<open>What a successful \<open>updatePackageJson\<close> has done, and when it succeeds.\<close>

lemma updatePackageJson_None_iff:
  "updatePackageJson h out n cfg w = (None, w') \<longleftrightarrow>
     (\<exists>content v named patched.
        readFileSync (disk w) (fs_path h [out, ''package.json'']) = Inr content
      \<and> JSON_parse h content = Some v
      \<and> assignFields
           [(''name'', JString (replaceUnderscores n)),
            (''description'', JString (ExampleConfig.description cfg)),
            (''keywords'', JStrings (keywords_field cfg))] v = Inr named
      \<and> assignFields
           [(''fhevmExample'',
             JObject
               [(''name'', JString (ExampleConfig.name cfg)),
                (''category'', JString (ExampleConfig.category cfg)),
                (''complexity'', JString (ExampleConfig.complexity cfg)),
                (''generatedAt'', JString (clock h (ticks w)))])] named = Inr patched
      \<and> (\<exists>fs'. writeFileSync (fs_path h [out, ''package.json'']) (JSON_stringify patched)
                   (disk w) = (None, fs')
               \<and> w' = w\<lparr>ticks := Suc (ticks w), disk := fs'\<rparr>))"
  by (auto simp: updatePackageJson_def Let_def toISOString_now_def fsStep_iff
      split: sum.splits option.splits)

lemma generateReadme_iff:
  "generateReadme h out n cfg w = (r, w') \<longleftrightarrow>
     (\<exists>fs'. writeFileSync (fs_path h [out, ''README.md'']) (readme_text h cfg (clock h (ticks w)))
              (disk w) = (r, fs')
      \<and> w' = w\<lparr>ticks := Suc (ticks w), disk := fs'\<rparr>)"
  by (auto simp: generateReadme_def toISOString_now_def fsStep_iff)

lemma createMetadata_iff:
  "createMetadata h out n cfg w = (r, w') \<longleftrightarrow>
     (\<exists>fs'. writeFileSync (fs_path h [out, ''.fhevm-example.json''])
              (JSON_stringify (metadata_json n cfg (clock h (ticks w)))) (disk w) = (r, fs')
      \<and> w' = w\<lparr>ticks := Suc (ticks w), disk := fs'\<rparr>)"
  by (auto simp: createMetadata_def toISOString_now_def fsStep_iff)

lemma assignFields_append:
  "assignFields (xs @ ys) v = (case assignFields xs v of Inl e \<Rightarrow> Inl e | Inr v' \<Rightarrow> assignFields ys v')"
  by (cases v) (simp_all add: assignFields_def)

lemma patchedManifest_two_steps:
  "(\<exists>named. assignFields
        [(''name'', JString (replaceUnderscores n)),
         (''description'', JString (ExampleConfig.description cfg)),
         (''keywords'', JStrings (keywords_field cfg))] v = Inr named
      \<and> assignFields
         [(''fhevmExample'',
           JObject
             [(''name'', JString (ExampleConfig.name cfg)),
              (''category'', JString (ExampleConfig.category cfg)),
              (''complexity'', JString (ExampleConfig.complexity cfg)),
              (''generatedAt'', JString now)])] named = Inr patched)
   \<longleftrightarrow> patchedManifest n cfg now v = Inr patched"
  by (cases v) (auto simp: patchedManifest_def fhevmExample_json_def assignFields_def)

lemma updatePackageJson_None_iff2:
  "updatePackageJson h out n cfg w = (None, w') \<longleftrightarrow>
     (\<exists>content v patched fs'.
        readFileSync (disk w) (fs_path h [out, ''package.json'']) = Inr content
      \<and> JSON_parse h content = Some v
      \<and> patchedManifest n cfg (clock h (ticks w)) v = Inr patched
      \<and> writeFileSync (fs_path h [out, ''package.json'']) (JSON_stringify patched) (disk w)
           = (None, fs')
      \<and> w' = w\<lparr>ticks := Suc (ticks w), disk := fs'\<rparr>)"
  unfolding updatePackageJson_None_iff patchedManifest_two_steps [symmetric] by blast

text \<open>What a successful \<open>try\<close> block of \<open>createExample\<close> has done.\<close>

lemma createExample_try_NoneD:
  assumes "createExample_try h n out cfg w = (None, w')"
  shows "\<exists>fs0 fs1 fs2 fs3 content v patched fs4 fs5.
      (if existsSync_at (cwd h) (disk w) out then fs0 = disk w else mkdirSync_at (cwd h) out (disk w) = (None, fs0))
    \<and> copyDirectory (base_template h) (fs_path h [out]) fs0 = (None, fs1)
    \<and> copyIfPresent (contracts_dir h (contractFile cfg))
         (fs_path h [out, ''contracts'', contractFile cfg]) fs1 = (None, fs2)
    \<and> copyIfPresent (test_dir h (testFile cfg))
         (fs_path h [out, ''test'', testFile cfg]) fs2 = (None, fs3)
    \<and> readFileSync fs3 (fs_path h [out, ''package.json'']) = Inr content
    \<and> JSON_parse h content = Some v
    \<and> patchedManifest n cfg (clock h (ticks w)) v = Inr patched
    \<and> writeFileSync (fs_path h [out, ''package.json'']) (JSON_stringify patched) fs3 = (None, fs4)
    \<and> writeFileSync (fs_path h [out, ''README.md''])
         (readme_text h cfg (clock h (Suc (ticks w)))) fs4 = (None, fs5)
    \<and> writeFileSync (fs_path h [out, ''.fhevm-example.json''])
         (JSON_stringify (metadata_json n cfg (clock h (Suc (Suc (ticks w)))))) fs5
         = (None, disk w')
    \<and> ticks w' = Suc (Suc (Suc (ticks w)))"
  using assms
  unfolding createExample_try_def
  by (cases "contracts_dir h (contractFile cfg)"; cases "test_dir h (testFile cfg)";
      cases "existsSync_at (cwd h) (disk w) out")
    (auto simp: steps_None_iff steps_Nil_iff logStep_iff fsStep_iff skip_iff whenStep_def
      updatePackageJson_None_iff2 generateReadme_iff createMetadata_iff copyIfPresent_def)

lemma createExample_try_NoneI:
  assumes "if existsSync_at (cwd h) (disk w) out then fs0 = disk w
           else mkdirSync_at (cwd h) out (disk w) = (None, fs0)"
    and "copyDirectory (base_template h) (fs_path h [out]) fs0 = (None, fs1)"
    and "copyIfPresent (contracts_dir h (contractFile cfg))
           (fs_path h [out, ''contracts'', contractFile cfg]) fs1 = (None, fs2)"
    and "copyIfPresent (test_dir h (testFile cfg))
           (fs_path h [out, ''test'', testFile cfg]) fs2 = (None, fs3)"
    and "readFileSync fs3 (fs_path h [out, ''package.json'']) = Inr content"
    and "JSON_parse h content = Some v"
    and "patchedManifest n cfg (clock h (ticks w)) v = Inr patched"
    and "writeFileSync (fs_path h [out, ''package.json'']) (JSON_stringify patched) fs3
           = (None, fs4)"
    and "writeFileSync (fs_path h [out, ''README.md''])
           (readme_text h cfg (clock h (Suc (ticks w)))) fs4 = (None, fs5)"
    and "writeFileSync (fs_path h [out, ''.fhevm-example.json''])
           (JSON_stringify (metadata_json n cfg (clock h (Suc (Suc (ticks w)))))) fs5
           = (None, fs6)"
  shows "\<exists>w'. createExample_try h n out cfg w = (None, w') \<and> disk w' = fs6
           \<and> ticks w' = Suc (Suc (Suc (ticks w)))"
  using assms
  unfolding createExample_try_def
  by (cases "contracts_dir h (contractFile cfg)"; cases "test_dir h (testFile cfg)";
      cases "existsSync_at (cwd h) (disk w) out")
    (simp_all add: steps_None_iff steps_Nil_iff logStep_iff fsStep_iff skip_iff whenStep_def
      updatePackageJson_None_iff2 generateReadme_iff createMetadata_iff copyIfPresent_def)

text \<open>The same for \<open>createExample\<close> itself.\<close>

lemma createExample_CompletedD:
  assumes "createExample h reg n out w = (Completed, w')"
  shows "\<exists>cfg fs0 fs1 fs2 fs3 content v patched fs4 fs5.
      map_of reg n = Some cfg
    \<and> (if existsSync_at (cwd h) (disk w) out then fs0 = disk w else mkdirSync_at (cwd h) out (disk w) = (None, fs0))
    \<and> copyDirectory (base_template h) (fs_path h [out]) fs0 = (None, fs1)
    \<and> copyIfPresent (contracts_dir h (contractFile cfg))
         (fs_path h [out, ''contracts'', contractFile cfg]) fs1 = (None, fs2)
    \<and> copyIfPresent (test_dir h (testFile cfg))
         (fs_path h [out, ''test'', testFile cfg]) fs2 = (None, fs3)
    \<and> readFileSync fs3 (fs_path h [out, ''package.json'']) = Inr content
    \<and> JSON_parse h content = Some v
    \<and> patchedManifest n cfg (clock h (ticks w)) v = Inr patched
    \<and> writeFileSync (fs_path h [out, ''package.json'']) (JSON_stringify patched) fs3 = (None, fs4)
    \<and> writeFileSync (fs_path h [out, ''README.md''])
         (readme_text h cfg (clock h (Suc (ticks w)))) fs4 = (None, fs5)
    \<and> writeFileSync (fs_path h [out, ''.fhevm-example.json''])
         (JSON_stringify (metadata_json n cfg (clock h (Suc (Suc (ticks w)))))) fs5
         = (None, disk w')
    \<and> ticks w' = Suc (Suc (Suc (ticks w)))"
proof -
  from assms obtain cfg where cfg: "map_of reg n = Some cfg"
    by (cases "map_of reg n") (auto simp: createExample_def split: option.splits prod.splits)
  let ?w0 = "say (Log ([CHR 0xF0, CHR 0x9F, CHR 0x93, CHR 0x8D] @ '' Output: '' @ out @ nl))
               (say (Log (nl @ [CHR 0xF0, CHR 0x9F, CHR 0x93, CHR 0xA6]
                            @ '' Creating FHEVM Example: '' @ ExampleConfig.name cfg)) w)"
  from assms cfg have "createExample_try h n out cfg ?w0 = (None, w')"
    by (auto simp: createExample_def split: prod.splits option.splits)
  from createExample_try_NoneD [OF this] cfg show ?thesis
    by (simp only: say_simps) blast
qed

lemma createExample_CompletedI:
  assumes "map_of reg n = Some cfg"
    and "if existsSync_at (cwd h) (disk w) out then fs0 = disk w
           else mkdirSync_at (cwd h) out (disk w) = (None, fs0)"
    and "copyDirectory (base_template h) (fs_path h [out]) fs0 = (None, fs1)"
    and "copyIfPresent (contracts_dir h (contractFile cfg))
           (fs_path h [out, ''contracts'', contractFile cfg]) fs1 = (None, fs2)"
    and "copyIfPresent (test_dir h (testFile cfg))
           (fs_path h [out, ''test'', testFile cfg]) fs2 = (None, fs3)"
    and "readFileSync fs3 (fs_path h [out, ''package.json'']) = Inr content"
    and "JSON_parse h content = Some v"
    and "patchedManifest n cfg (clock h (ticks w)) v = Inr patched"
    and "writeFileSync (fs_path h [out, ''package.json'']) (JSON_stringify patched) fs3
           = (None, fs4)"
    and "writeFileSync (fs_path h [out, ''README.md''])
           (readme_text h cfg (clock h (Suc (ticks w)))) fs4 = (None, fs5)"
    and "writeFileSync (fs_path h [out, ''.fhevm-example.json''])
           (JSON_stringify (metadata_json n cfg (clock h (Suc (Suc (ticks w)))))) fs5
           = (None, fs6)"
  shows "\<exists>w'. createExample h reg n out w = (Completed, w') \<and> disk w' = fs6
           \<and> ticks w' = Suc (Suc (Suc (ticks w)))"
proof -
  let ?w0 = "say (Log ([CHR 0xF0, CHR 0x9F, CHR 0x93, CHR 0x8D] @ '' Output: '' @ out @ nl))
               (say (Log (nl @ [CHR 0xF0, CHR 0x9F, CHR 0x93, CHR 0xA6]
                            @ '' Creating FHEVM Example: '' @ ExampleConfig.name cfg)) w)"
  have "\<exists>w'. createExample_try h n out cfg ?w0 = (None, w') \<and> disk w' = fs6
           \<and> ticks w' = Suc (Suc (Suc (ticks ?w0)))"
    by (rule createExample_try_NoneI [where ?fs0.0 = fs0 and ?fs1.0 = fs1 and ?fs2.0 = fs2
          and ?fs3.0 = fs3 and ?fs4.0 = fs4 and ?fs5.0 = fs5 and content = content and v = v
          and patched = patched])
      (use assms in \<open>simp_all only: say_simps\<close>)
  then obtain w' where "createExample_try h n out cfg ?w0 = (None, w')" and "disk w' = fs6"
    and "ticks w' = Suc (Suc (Suc (ticks w)))"
    by (auto simp only: say_simps)
  with assms(1) show ?thesis by (simp add: createExample_def)
qed

section \<open>The manifest patch\<close>

lemma map_of_setField:
  "map_of (setField k v kvs) k' = (if k' = k then Some v else map_of kvs k')"
  by (induction kvs) auto

lemma filter_setField:
  "(\<And>x. \<not> P (k, x)) \<Longrightarrow> filter P (setField k v kvs) = filter P kvs"
  by (induction kvs) auto

lemma patchedManifest_cases:
  assumes "patchedManifest n cfg now v = Inr patched"
  shows "(\<exists>kvs. v = JObject kvs
            \<and> patched = JObject
                (setField ''fhevmExample'' (fhevmExample_json cfg now)
                  (setField ''keywords'' (JStrings (keywords_field cfg))
                    (setField ''description'' (JString (ExampleConfig.description cfg))
                      (setField ''name'' (JString (replaceUnderscores n)) kvs)))))
         \<or> (\<exists>vs. v = JArray vs \<and> patched = v)"
  using assms by (cases v) (auto simp: patchedManifest_def assignFields_def)

lemma patchedManifest_untouched:
  assumes "patchedManifest n cfg now v = Inr patched"
  shows "untouchedFields patched = untouchedFields v"
    and "k \<notin> set patchedFields \<Longrightarrow> fieldOf patched k = fieldOf v k"
  using patchedManifest_cases [OF assms]
  by (auto simp: untouchedFields_def fieldOf_def patchedFields_def filter_setField
      map_of_setField)

lemma patchedManifest_fields:
  assumes "patchedManifest n cfg now (JObject kvs) = Inr patched"
  shows "fieldOf patched ''name'' = Some (JString (replaceUnderscores n))"
    and "fieldOf patched ''description'' = Some (JString (ExampleConfig.description cfg))"
    and "fieldOf patched ''keywords'' = Some (JStrings (keywords_field cfg))"
  using patchedManifest_cases [OF assms]
  by (auto simp: fieldOf_def map_of_setField)

lemma updatePackageJson_failed:
  "updatePackageJson h out n cfg w = (Some e, w') \<Longrightarrow> disk w' = disk w"
  by (auto simp: updatePackageJson_def Let_def toISOString_now_def fsStep_iff
      split: sum.splits option.splits dest: writeFileSync_unchanged)

text \<open>
  C9. Whatever the manifest holds: when the patch fails, the disk is as before; when it
  succeeds, the manifest is rewritten with the serialisation of a value whose top-level
  fields other than \<open>name\<close>, \<open>description\<close>, \<open>keywords\<close> and \<open>fhevmExample\<close> are
  those of the parsed manifest, with the same values and in the same order.
\<close>

theorem updatePackageJson_preserves_fields:
  assumes "updatePackageJson h out n cfg w = (r, w')"
  shows "(r \<noteq> None \<longrightarrow> disk w' = disk w)
       \<and> (r = None \<longrightarrow>
            (\<exists>content v patched.
                readFileSync (disk w) (fs_path h [out, ''package.json'']) = Inr content
              \<and> JSON_parse h content = Some v
              \<and> disk w' = (disk w)(fs_path h [out, ''package.json'']
                                     \<mapsto> File (JSON_stringify patched))
              \<and> untouchedFields patched = untouchedFields v
              \<and> (\<forall>k. k \<notin> set patchedFields \<longrightarrow> fieldOf patched k = fieldOf v k)))"
proof (intro conjI impI)
  assume "r \<noteq> None"
  with assms show "disk w' = disk w" by (auto dest: updatePackageJson_failed)
next
  assume "r = None"
  with assms have "updatePackageJson h out n cfg w = (None, w')" by simp
  then obtain content v patched fs'
    where c: "readFileSync (disk w) (fs_path h [out, ''package.json'']) = Inr content"
      and v: "JSON_parse h content = Some v"
      and p: "patchedManifest n cfg (clock h (ticks w)) v = Inr patched"
      and wr: "writeFileSync (fs_path h [out, ''package.json'']) (JSON_stringify patched) (disk w)
                 = (None, fs')"
      and w': "w' = w\<lparr>ticks := Suc (ticks w), disk := fs'\<rparr>"
    unfolding updatePackageJson_None_iff2 by blast
  from wr w' have d: "disk w' = (disk w)(fs_path h [out, ''package.json'']
                                     \<mapsto> File (JSON_stringify patched))"
    by (simp add: writeFileSync_None_iff)
  show "\<exists>content v patched.
                readFileSync (disk w) (fs_path h [out, ''package.json'']) = Inr content
              \<and> JSON_parse h content = Some v
              \<and> disk w' = (disk w)(fs_path h [out, ''package.json'']
                                     \<mapsto> File (JSON_stringify patched))
              \<and> untouchedFields patched = untouchedFields v
              \<and> (\<forall>k. k \<notin> set patchedFields \<longrightarrow> fieldOf patched k = fieldOf v k)"
    using c v d patchedManifest_untouched [OF p] by blast
qed

text \<open>The patch of the scenario's manifest keeps \<open>version\<close>, \<open>scripts\<close> and \<open>license\<close>.\<close>

theorem updatePackageJson_preserves_fields_witness:
  "fst (updatePackageJson sample_host ''/out/a'' ''alpha'' alpha manifest_world) = None
   \<and> (\<exists>patched.
          disk (snd (updatePackageJson sample_host ''/out/a'' ''alpha'' alpha manifest_world))
            [''out'', ''a'', ''package.json''] = Some (File (JSON_stringify patched))
        \<and> untouchedFields patched =
            [(''version'', JString ''1.0.0''),
             (''scripts'', JObject [(''compile'', JString ''hardhat compile''),
                                    (''test'', JString ''hardhat test'')]),
             (''license'', JString ''MIT'')])"
proof -
  let ?r = "updatePackageJson sample_host ''/out/a'' ''alpha'' alpha manifest_world"
  have p: "fs_path sample_host [''/out/a'', ''package.json''] = [''out'', ''a'', ''package.json'']"
    by (simp add: fs_path_def resolve_def path_join_def normalizeStep_def)
  have rd: "readFileSync (disk manifest_world) [''out'', ''a'', ''package.json'']
              = Inr (JSON_stringify sample_manifest)"
    by (simp add: readFileSync_def manifest_world_def)
  have pv: "JSON_parse sample_host (JSON_stringify sample_manifest) = Some sample_manifest"
    by (simp add: sample_host_def sample_parse_def)
  have "\<exists>patched. patchedManifest ''alpha'' alpha (clock sample_host (ticks manifest_world))
                       sample_manifest = Inr patched"
    by (simp add: patchedManifest_def assignFields_def sample_manifest_def)
  then obtain patched0
    where pm: "patchedManifest ''alpha'' alpha (clock sample_host (ticks manifest_world))
                       sample_manifest = Inr patched0" ..
  have wr: "writeFileSync [''out'', ''a'', ''package.json''] (JSON_stringify patched0)
              (disk manifest_world)
            = (None, (disk manifest_world)([''out'', ''a'', ''package.json'']
                        \<mapsto> File (JSON_stringify patched0)))"
    by (simp add: writeFileSync_None_iff path_dirname_def manifest_world_def)
  have "\<exists>w'. ?r = (None, w')"
    unfolding updatePackageJson_None_iff2 p using rd pv pm wr by blast
  then have c: "fst ?r = None" by auto
  then have r: "?r = (None, snd ?r)" by (metis prod.collapse)
  from updatePackageJson_preserves_fields [OF r]
  obtain content v patched
    where "readFileSync (disk manifest_world) (fs_path sample_host [''/out/a'', ''package.json''])
             = Inr content"
      and "JSON_parse sample_host content = Some v"
      and d: "disk (snd ?r) = (disk manifest_world)(fs_path sample_host [''/out/a'', ''package.json'']
                                     \<mapsto> File (JSON_stringify patched))"
      and u: "untouchedFields patched = untouchedFields v"
    by blast
  then have "v = sample_manifest"
    by (auto simp: p rd sample_host_def sample_parse_def split: if_splits)
  with u have "untouchedFields patched =
            [(''version'', JString ''1.0.0''),
             (''scripts'', JObject [(''compile'', JString ''hardhat compile''),
                                    (''test'', JString ''hardhat test'')]),
             (''license'', JString ''MIT'')]"
    by (simp add: untouchedFields_def sample_manifest_def patchedFields_def)
  moreover from d have "disk (snd ?r) [''out'', ''a'', ''package.json'']
                          = Some (File (JSON_stringify patched))"
    by (simp add: p)
  ultimately show ?thesis using c by blast
qed

section \<open>The manifest of a generated example\<close>

text \<open>Every operation of a copy acts below the destination, on a path free of skipped names.\<close>

lemma copyOps_paths:
  "op \<in> set (copyOps sk es p) \<Longrightarrow>
     \<exists>ns. opPath op = p @ ns \<and> ns \<noteq> [] \<and> set ns \<inter> set sk = {}"
proof (induction sk es p rule: copyOps.induct)
  case (1 skipped dest)
  then show ?case by simp
next
  case (2 skipped entryName c rest dest)
  then show ?case by (auto split: if_splits)
next
  case (3 skipped entryName sub rest dest)
  from "3.prems" consider
      (skip) "op \<in> set (copyOps skipped rest dest)"
    | (dir) "entryName \<notin> set skipped" "op = EnsureDir (dest @ [entryName])"
    | (sub) "entryName \<notin> set skipped" "op \<in> set (copyOps skipped sub (dest @ [entryName]))"
    by (auto split: if_splits)
  then show ?case
  proof cases
    case skip
    then show ?thesis by (rule "3.IH"(2))
  next
    case dir
    then show ?thesis by auto
  next
    case sub
    from "3.IH"(1) [OF sub] obtain ns
      where "opPath op = (dest @ [entryName]) @ ns" and "set ns \<inter> set skipped = {}"
      by blast
    with sub(1) show ?thesis by (intro exI [of _ "entryName # ns"]) auto
  qed
qed

lemma copyOps_top_name:
  "PutFile (p @ [f]) c \<in> set (copyOps sk es p) \<Longrightarrow> (f, TFile c) \<in> set es"
proof (induction sk es p rule: copyOps.induct)
  case (1 skipped dest)
  then show ?case by simp
next
  case (2 skipped entryName c0 rest dest)
  then show ?case by (auto split: if_splits)
next
  case (3 skipped entryName sub rest dest)
  have "PutFile (dest @ [f]) c \<notin> set (copyOps skipped sub (dest @ [entryName]))"
  proof
    assume "PutFile (dest @ [f]) c \<in> set (copyOps skipped sub (dest @ [entryName]))"
    from copyOps_paths [OF this] obtain ns
      where "dest @ [f] = (dest @ [entryName]) @ ns" and "ns \<noteq> []"
      by auto
    then show False by (cases ns) auto
  qed
  with 3 show ?case by (auto split: if_splits)
qed

lemma copyOps_top_file:
  "(f, TFile c) \<in> set es \<Longrightarrow> f \<notin> set sk \<Longrightarrow> PutFile (p @ [f]) c \<in> set (copyOps sk es p)"
  by (induction sk es p rule: copyOps.induct) (auto split: if_splits)

lemma distinct_keys_value:
  "distinct (map fst es) \<Longrightarrow> (k, x) \<in> set es \<Longrightarrow> (k, y) \<in> set es \<Longrightarrow> x = y"
  by (meson eq_key_imp_eq_value)

lemma runOps_content:
  "runOps ops fs = (None, fs') \<Longrightarrow> PutFile q c \<in> set ops
     \<Longrightarrow> (\<And>c'. PutFile q c' \<in> set ops \<Longrightarrow> c' = c) \<Longrightarrow> fs' q = Some (File c)"
proof (induction ops arbitrary: fs)
  case Nil
  then show ?case by simp
next
  case (Cons op ops)
  from Cons.prems(1) obtain fs1 where a: "applyOp op fs = (None, fs1)"
    and b: "runOps ops fs1 = (None, fs')"
    by (auto split: prod.splits option.splits)
  show ?case
  proof (cases "q \<in> opFiles ops")
    case True
    then obtain c'' where m: "PutFile q c'' \<in> set ops" by (auto simp: opFiles_def)
    with Cons.prems(3) [of c''] have "c'' = c" by simp
    with m have "PutFile q c \<in> set ops" by simp
    with b show ?thesis using Cons.prems(3) by (intro Cons.IH) auto
  next
    case False
    with Cons.prems(2) have "op = PutFile q c" by (auto simp: opFiles_def)
    with a have "fs1 q = Some (File c)" by (simp add: writeFileSync_None_iff)
    moreover from this b False have "fs' q = fs1 q" by (intro runOps_frame) auto
    ultimately show ?thesis by simp
  qed
qed

text \<open>A regular file at the top of the template is at the top of the destination.\<close>

lemma copyDirectory_top_file:
  assumes "copyDirectory es p fs = (None, fs')"
    and "distinct (map fst es)" and "(f, TFile c) \<in> set es"
    and "f \<notin> set [''node_modules'', ''artifacts'', ''cache'', ''.git'']"
  shows "fs' (p @ [f]) = Some (File c)"
proof -
  let ?sk = "[''node_modules'', ''artifacts'', ''cache'', ''.git'']"
  from assms(1) have r: "runOps (EnsureDir p # copyOps ?sk es p) fs = (None, fs')"
    by (simp only: copyDirectory_def copyWith_runOps)
  show ?thesis
  proof (rule runOps_content [OF r])
    show "PutFile (p @ [f]) c \<in> set (EnsureDir p # copyOps ?sk es p)"
      using copyOps_top_file [OF assms(3,4)] by simp
    show "c' = c" if "PutFile (p @ [f]) c' \<in> set (EnsureDir p # copyOps ?sk es p)" for c'
    proof -
      from that have "(f, TFile c') \<in> set es" by (auto dest: copyOps_top_name)
      with assms(2,3) have "TFile c' = TFile c" by (auto dest: distinct_keys_value)
      then show ?thesis by simp
    qed
  qed
qed

lemma copyIfPresent_frame:
  "copyIfPresent src d fs = (None, fs') \<Longrightarrow> q \<noteq> d \<Longrightarrow> fs' q = fs q"
  by (auto simp: copyIfPresent_def copyFileSync_def writeFileSync_None_iff
      split: option.splits tnode.splits)

lemma setField_not_Nil: "setField k v kvs \<noteq> []"
  by (cases kvs) (auto split: if_splits)

lemma map_fst_setField:
  "map fst (setField k v kvs) = (if k \<in> fst ` set kvs then map fst kvs else map fst kvs @ [k])"
  by (induction kvs) force+

lemma distinct_setField:
  "distinct (map fst kvs) \<Longrightarrow> distinct (map fst (setField k v kvs))"
  by (simp add: map_fst_setField)

text \<open>The text of an object with members: one member per line, indented by two spaces.\<close>

lemma JSON_stringify_object:
  "kvs \<noteq> [] \<Longrightarrow>
     JSON_stringify (JObject kvs) =
       ''{'' @ nl
       @ (case map (\<lambda>kv. ''  '' @ quoteJSON (fst kv) @ '': '' @ stringify_at 2 (snd kv)) kvs of
            [] \<Rightarrow> []
          | l # ls \<Rightarrow> l @ concat (map (\<lambda>x. '','' @ nl @ x) ls))
       @ nl @ ''}''"
  by (cases kvs) (simp_all add: JSON_stringify_def join_eq spaces_def eval_nat_numeral comp_def)

text \<open>
  C3. Let the template hold a manifest \<open>package.json\<close> that parses to a JSON object,
  and let the payload file names of the example be plain file names. After a completed
  \<open>createExample\<close> the manifest of the destination is the text of an object, one
  member per line. Its member \<open>name\<close> is a string as long as the example identifier
  that has a hyphen wherever the identifier has an underscore and the identifier's
  character everywhere else; its \<open>description\<close> is the entry's description and its
  \<open>keywords\<close> are the entry's keywords, in their order. No two members have the same
  key if that was so in the template's manifest.
\<close>

theorem createExample_manifest:
  assumes run: "createExample h reg n out w = (Completed, w')"
    and entry: "map_of reg n = Some cfg"
    and names: "plainName (contractFile cfg)" "plainName (testFile cfg)"
    and tmpl: "(''package.json'', TFile content) \<in> set (base_template h)"
              "distinct (map fst (base_template h))"
    and obj: "JSON_parse h content = Some (JObject kvs)"
  shows "\<exists>fields newName.
           disk w' (fs_path h [out, ''package.json''])
             = Some (File (JSON_stringify (JObject fields)))
         \<and> JSON_stringify (JObject fields) =
             ''{'' @ nl
             @ (case map (\<lambda>kv. ''  '' @ quoteJSON (fst kv) @ '': '' @ stringify_at 2 (snd kv))
                       fields of
                  [] \<Rightarrow> []
                | l # ls \<Rightarrow> l @ concat (map (\<lambda>x. '','' @ nl @ x) ls))
             @ nl @ ''}''
         \<and> (distinct (map fst kvs) \<longrightarrow> distinct (map fst fields))
         \<and> map_of fields ''name'' = Some (JString newName)
         \<and> length newName = length n
         \<and> (\<forall>i<length n. newName ! i = (if n ! i = CHR ''_'' then CHR ''-'' else n ! i))
         \<and> map_of fields ''description'' = Some (JString (ExampleConfig.description cfg))
         \<and> map_of fields ''keywords'' = Some (JArray (map JString (keywords_field cfg)))"
proof -
  let ?O = "fs_path h [out]"
  let ?P = "?O @ [''package.json'']"
  have P: "fs_path h [out, ''package.json''] = ?P" by (simp add: path_join_2)
  have R: "fs_path h [out, ''README.md''] = ?O @ [''README.md'']" by (simp add: path_join_2)
  have M: "fs_path h [out, ''.fhevm-example.json''] = ?O @ [''.fhevm-example.json'']"
    by (simp add: path_join_2)
  have C: "fs_path h [out, ''contracts'', contractFile cfg] = ?O @ [''contracts'', contractFile cfg]"
    using names by (simp add: path_join_3)
  have T: "fs_path h [out, ''test'', testFile cfg] = ?O @ [''test'', testFile cfg]"
    using names by (simp add: path_join_3)
  from createExample_CompletedD [OF run] entry
  obtain fs0 fs1 fs2 fs3 content' v patched fs4 fs5
    where copy: "copyDirectory (base_template h) ?O fs0 = (None, fs1)"
      and c1': "copyIfPresent (contracts_dir h (contractFile cfg))
                 (fs_path h [out, ''contracts'', contractFile cfg]) fs1 = (None, fs2)"
      and c2': "copyIfPresent (test_dir h (testFile cfg))
                 (fs_path h [out, ''test'', testFile cfg]) fs2 = (None, fs3)"
      and rd': "readFileSync fs3 (fs_path h [out, ''package.json'']) = Inr content'"
      and pv: "JSON_parse h content' = Some v"
      and pm: "patchedManifest n cfg (clock h (ticks w)) v = Inr patched"
      and w4': "writeFileSync (fs_path h [out, ''package.json'']) (JSON_stringify patched) fs3
                  = (None, fs4)"
      and w5': "writeFileSync (fs_path h [out, ''README.md''])
                 (readme_text h cfg (clock h (Suc (ticks w)))) fs4 = (None, fs5)"
      and w6': "writeFileSync (fs_path h [out, ''.fhevm-example.json''])
                 (JSON_stringify (metadata_json n cfg (clock h (Suc (Suc (ticks w)))))) fs5
                 = (None, disk w')"
    by auto
  note c1 = c1' [unfolded C] and c2 = c2' [unfolded T] and rd = rd' [unfolded P]
    and w4 = w4' [unfolded P] and w5 = w5' [unfolded R] and w6 = w6' [unfolded M]
  have "fs1 ?P = Some (File content)"
    using copy tmpl(2,1) by (rule copyDirectory_top_file) simp
  moreover have "fs2 ?P = fs1 ?P" using c1 by (rule copyIfPresent_frame) simp
  moreover have "fs3 ?P = fs2 ?P" using c2 by (rule copyIfPresent_frame) simp
  ultimately have "content' = content" using rd by (simp add: readFileSync_def)
  with pv obj have v: "v = JObject kvs" by simp
  let ?N = "map (\<lambda>c. if c = CHR ''_'' then CHR ''-'' else c) n"
  let ?F = "setField ''fhevmExample'' (fhevmExample_json cfg (clock h (ticks w)))
              (setField ''keywords'' (JArray (map JString (keywords_field cfg)))
                (setField ''description'' (JString (ExampleConfig.description cfg))
                  (setField ''name'' (JString ?N) kvs)))"
  from patchedManifest_cases [OF pm] v have patched: "patched = JObject ?F"
    by (simp add: replaceUnderscores_def JStrings_def)
  have written: "disk w' ?P = Some (File (JSON_stringify (JObject ?F)))"
    using w4 w5 w6 by (simp add: writeFileSync_None_iff patched)
  show ?thesis
  proof (intro exI [of _ ?F] exI [of _ ?N] conjI)
    show "disk w' (fs_path h [out, ''package.json'']) = Some (File (JSON_stringify (JObject ?F)))"
      unfolding P by (rule written)
    show "JSON_stringify (JObject ?F) =
             ''{'' @ nl
             @ (case map (\<lambda>kv. ''  '' @ quoteJSON (fst kv) @ '': '' @ stringify_at 2 (snd kv)) ?F of
                  [] \<Rightarrow> []
                | l # ls \<Rightarrow> l @ concat (map (\<lambda>x. '','' @ nl @ x) ls))
             @ nl @ ''}''"
      by (rule JSON_stringify_object) (rule setField_not_Nil)
    show "distinct (map fst kvs) \<longrightarrow> distinct (map fst ?F)"
      by (simp add: distinct_setField)
    show "map_of ?F ''name'' = Some (JString ?N)" by (simp add: map_of_setField)
    show "length ?N = length n" by simp
    show "\<forall>i<length n. ?N ! i = (if n ! i = CHR ''_'' then CHR ''-'' else n ! i)" by simp
    show "map_of ?F ''description'' = Some (JString (ExampleConfig.description cfg))"
      by (simp add: map_of_setField)
    show "map_of ?F ''keywords'' = Some (JArray (map JString (keywords_field cfg)))"
      by (simp add: map_of_setField)
  qed
qed

text \<open>Evaluation of the generators on the concrete scenarios.\<close>

lemmas scenario_defs =
  alpha_registry_def alpha_def basic_categories_def sample_host_def bare_host_def
  sample_template_def sample_parse_def fresh_world_def snake_registry_def project_host_def

lemmas generator_eval =
  createExample_def createExample_try_def updatePackageJson_def generateReadme_def
  createMetadata_def copyDirectory_def Let_def
  existsSync_at_def mkdirSync_at_def fs_path_def resolve_def path_join_def normalizeStep_def path_dirname_def
  steps_Cons_result steps_Nil skip_def whenStep_def fsStep_def logStep_def say_def
  existsSync_def mkdirSync_recursive_def isFile_def writeFileSync_def readFileSync_def
  copyFileSync_def toISOString_now_def assignFields_def

text \<open>\<open>materialize("alpha", "/out/a")\<close> on an empty disk completes.\<close>

lemma alpha_run_completes:
  "fst (createExample sample_host alpha_registry ''alpha'' ''/out/a'' fresh_world) = Completed"
  by (simp add: generator_eval scenario_defs sample_manifest_def)

text \<open>The bytes of the manifest that the run of the next scenario writes.\<close>

lemma snake_manifest_text:
  \<open>JSON_stringify
      (JObject
        [(''name'', JString ''my-first-example''),
         (''version'', JString ''1.0.0''),
         (''description'', JString ''The first example''),
         (''scripts'', JObject [(''compile'', JString ''hardhat compile''),
                                (''test'', JString ''hardhat test'')]),
         (''license'', JString ''MIT''),
         (''keywords'', JArray [JString ''x'']),
         (''fhevmExample'',
          JObject [(''name'', JString ''Alpha''), (''category'', JString ''basic''),
                   (''complexity'', JString ''beginner''),
                   (''generatedAt'', JString ''2024-01-01T00:00:00.000Z'')])])
    = ''{'' @ nl
      @ ''  "name": "my-first-example",'' @ nl
      @ ''  "version": "1.0.0",'' @ nl
      @ ''  "description": "The first example",'' @ nl
      @ ''  "scripts": {'' @ nl
      @ ''    "compile": "hardhat compile",'' @ nl
      @ ''    "test": "hardhat test"'' @ nl
      @ ''  },'' @ nl
      @ ''  "license": "MIT",'' @ nl
      @ ''  "keywords": ['' @ nl
      @ ''    "x"'' @ nl
      @ ''  ],'' @ nl
      @ ''  "fhevmExample": {'' @ nl
      @ ''    "name": "Alpha",'' @ nl
      @ ''    "category": "basic",'' @ nl
      @ ''    "complexity": "beginner",'' @ nl
      @ ''    "generatedAt": "2024-01-01T00:00:00.000Z"'' @ nl
      @ ''  }'' @ nl
      @ ''}''\<close>
  by (simp add: JSON_stringify_def quoteJSON_def escapeChar_def spaces_def nl_def
      eval_nat_numeral)

text \<open>
  An example whose identifier has underscores, generated from a working directory that
  is not the root into a relative destination: the run completes and the manifest has
  the name with hyphens, byte for byte.
\<close>

theorem createExample_manifest_witness:
  \<open>fst (createExample project_host snake_registry ''my_first_example'' ''out/a'' fresh_world)
     = Completed
   \<and> map_of snake_registry ''my_first_example'' = Some alpha
   \<and> plainName (contractFile alpha) \<and> plainName (testFile alpha)
   \<and> distinct (map fst (base_template project_host))
   \<and> (\<exists>fields.
          disk (snd (createExample project_host snake_registry ''my_first_example'' ''out/a''
                       fresh_world))
            [''home'', ''dev'', ''repo'', ''out'', ''a'', ''package.json'']
            = Some (File (JSON_stringify (JObject fields)))
        \<and> map_of fields ''name'' = Some (JString ''my-first-example'')
        \<and> map_of fields ''description'' = Some (JString ''The first example'')
        \<and> map_of fields ''keywords'' = Some (JArray [JString ''x'']))
   \<and> disk (snd (createExample project_host snake_registry ''my_first_example'' ''out/a''
                   fresh_world))
        [''home'', ''dev'', ''repo'', ''out'', ''a'', ''package.json'']
      = Some (File
          (''{'' @ nl
           @ ''  "name": "my-first-example",'' @ nl
           @ ''  "version": "1.0.0",'' @ nl
           @ ''  "description": "The first example",'' @ nl
           @ ''  "scripts": {'' @ nl
           @ ''    "compile": "hardhat compile",'' @ nl
           @ ''    "test": "hardhat test"'' @ nl
           @ ''  },'' @ nl
           @ ''  "license": "MIT",'' @ nl
           @ ''  "keywords": ['' @ nl
           @ ''    "x"'' @ nl
           @ ''  ],'' @ nl
           @ ''  "fhevmExample": {'' @ nl
           @ ''    "name": "Alpha",'' @ nl
           @ ''    "category": "basic",'' @ nl
           @ ''    "complexity": "beginner",'' @ nl
           @ ''    "generatedAt": "2024-01-01T00:00:00.000Z"'' @ nl
           @ ''  }'' @ nl
           @ ''}''))\<close>
proof -
  let ?r = "createExample project_host snake_registry ''my_first_example'' ''out/a'' fresh_world"
  have c: "fst ?r = Completed"
    by (simp add: generator_eval scenario_defs sample_manifest_def)
  then have r: "?r = (Completed, snd ?r)" by (metis prod.collapse)
  have e: "map_of snake_registry ''my_first_example'' = Some alpha"
    by (simp add: snake_registry_def)
  have n: "plainName (contractFile alpha)" "plainName (testFile alpha)"
    by (simp_all add: alpha_def plainName_def)
  have t: "(''package.json'', TFile (JSON_stringify sample_manifest))
             \<in> set (base_template project_host)"
    by (simp add: project_host_def sample_host_def sample_template_def)
  have d: "distinct (map fst (base_template project_host))"
    by (simp add: project_host_def sample_host_def sample_template_def)
  have o: "JSON_parse project_host (JSON_stringify sample_manifest)
             = Some (JObject
                 [(''name'', JString ''fhevm-hardhat-template''),
                  (''version'', JString ''1.0.0''),
                  (''description'', JString ''Base template''),
                  (''scripts'', JObject [(''compile'', JString ''hardhat compile''),
                                         (''test'', JString ''hardhat test'')]),
                  (''license'', JString ''MIT'')])"
    by (simp add: project_host_def sample_host_def sample_parse_def) (simp add: sample_manifest_def)
  have p: "fs_path project_host [''out/a'', ''package.json'']
             = [''home'', ''dev'', ''repo'', ''out'', ''a'', ''package.json'']"
    by (simp add: fs_path_def resolve_def path_join_def normalizeStep_def project_host_def)
  from createExample_manifest [OF r e n t d o] obtain fields newName
    where f: "disk (snd ?r) [''home'', ''dev'', ''repo'', ''out'', ''a'', ''package.json'']
                = Some (File (JSON_stringify (JObject fields)))"
      and nm: "map_of fields ''name'' = Some (JString newName)"
      and len: "length newName = length ''my_first_example''"
      and chars: "\<forall>i<length ''my_first_example''.
                    newName ! i = (if ''my_first_example'' ! i = CHR ''_'' then CHR ''-''
                                   else ''my_first_example'' ! i)"
      and ds: "map_of fields ''description'' = Some (JString (ExampleConfig.description alpha))"
      and kw: "map_of fields ''keywords'' = Some (JArray (map JString (keywords_field alpha)))"
    unfolding p by (elim exE conjE) (rule that)
  have "newName = ''my-first-example''"
  proof (rule nth_equalityI)
    show "length newName = length ''my-first-example''" using len by simp
    show "newName ! i = ''my-first-example'' ! i" if "i < length newName" for i
      using that len chars [rule_format, of i]
      by (simp add: nth_Cons' less_Suc_eq eval_nat_numeral split: if_splits)
  qed
  with f nm ds kw have x: "\<exists>fields.
          disk (snd ?r) [''home'', ''dev'', ''repo'', ''out'', ''a'', ''package.json'']
            = Some (File (JSON_stringify (JObject fields)))
        \<and> map_of fields ''name'' = Some (JString ''my-first-example'')
        \<and> map_of fields ''description'' = Some (JString ''The first example'')
        \<and> map_of fields ''keywords'' = Some (JArray [JString ''x''])"
    by (intro exI [of _ fields]) (simp add: alpha_def)
  have "disk (snd ?r) [''home'', ''dev'', ''repo'', ''out'', ''a'', ''package.json'']
      = Some (File (JSON_stringify
          (JObject
            [(''name'', JString ''my-first-example''),
             (''version'', JString ''1.0.0''),
             (''description'', JString ''The first example''),
             (''scripts'', JObject [(''compile'', JString ''hardhat compile''),
                                    (''test'', JString ''hardhat test'')]),
             (''license'', JString ''MIT''),
             (''keywords'', JArray [JString ''x'']),
             (''fhevmExample'',
              JObject [(''name'', JString ''Alpha''), (''category'', JString ''basic''),
                       (''complexity'', JString ''beginner''),
                       (''generatedAt'', JString ''2024-01-01T00:00:00.000Z'')])])))"
    by (simp add: generator_eval scenario_defs sample_manifest_def replaceUnderscores_def
        JStrings_def sample_clock_def)
  then have y: \<open>disk (snd ?r) [''home'', ''dev'', ''repo'', ''out'', ''a'', ''package.json'']
      = Some (File
          (''{'' @ nl
           @ ''  "name": "my-first-example",'' @ nl
           @ ''  "version": "1.0.0",'' @ nl
           @ ''  "description": "The first example",'' @ nl
           @ ''  "scripts": {'' @ nl
           @ ''    "compile": "hardhat compile",'' @ nl
           @ ''    "test": "hardhat test"'' @ nl
           @ ''  },'' @ nl
           @ ''  "license": "MIT",'' @ nl
           @ ''  "keywords": ['' @ nl
           @ ''    "x"'' @ nl
           @ ''  ],'' @ nl
           @ ''  "fhevmExample": {'' @ nl
           @ ''    "name": "Alpha",'' @ nl
           @ ''    "category": "basic",'' @ nl
           @ ''    "complexity": "beginner",'' @ nl
           @ ''    "generatedAt": "2024-01-01T00:00:00.000Z"'' @ nl
           @ ''  }'' @ nl
           @ ''}''))\<close>
    by (simp only: snake_manifest_text)
  from c e n d x y show ?thesis by (intro conjI)
qed

section \<open>Missing payload files\<close>
















section \<open>Running the example generator twice\<close>

lemma runOps_single: "runOps [op] fs = applyOp op fs"
  by (cases "applyOp op fs") (auto split: option.splits)

lemma runOps_append_None_iff:
  "runOps (xs @ ys) fs = (None, fs') \<longleftrightarrow>
     (\<exists>fs1. runOps xs fs = (None, fs1) \<and> runOps ys fs1 = (None, fs'))"
  by (auto simp: runOps_append split: prod.splits option.splits)

lemma copyIfPresent_ops:
  assumes "copyIfPresent src d fs = (None, fs')"
  shows "\<exists>ops. \<forall>g. copyIfPresent src d g = runOps ops g"
proof (cases src)
  case None
  then have "\<forall>g. copyIfPresent src d g = runOps [] g" by (simp add: copyIfPresent_def)
  then show ?thesis ..
next
  case (Some node)
  show ?thesis
  proof (cases node)
    case (TFile c)
    with Some have "\<forall>g. copyIfPresent src d g = runOps [PutFile d c] g"
      by (simp add: copyIfPresent_def copyFileSync_def runOps_single del: runOps.simps)
    then show ?thesis ..
  next
    case (TDir sub)
    with Some assms show ?thesis by (simp add: copyIfPresent_def copyFileSync_def)
  qed
qed

lemma copyIfPresent_keeps: "copyIfPresent src d fs = (r, fs') \<Longrightarrow> keepsKinds fs fs'"
  by (auto simp: copyIfPresent_def dest: copyFileSync_keeps split: option.splits)

lemma patchedManifest_now:
  "patchedManifest n cfg a v = Inr p \<Longrightarrow> \<exists>p'. patchedManifest n cfg b v = Inr p'"
  by (cases v) (auto simp: patchedManifest_def assignFields_def)

lemma readme_text_inj: "readme_text h cfg a = readme_text h cfg b \<longleftrightarrow> a = b"
  by (simp add: readme_text_def unlines_def)

text \<open>
  The template copy and the payload copies of a completed run, as one list of operations
  that performs them on any disk.
\<close>

lemma createExample_prefix_ops:
  assumes "copyDirectory tmpl p fs0 = (None, fs1)"
    and "copyIfPresent src1 d1 fs1 = (None, fs2)"
    and "copyIfPresent src2 d2 fs2 = (None, fs3)"
  shows "\<exists>ops. runOps ops fs0 = (None, fs3)
           \<and> opFiles (copyOps [''node_modules'', ''artifacts'', ''cache'', ''.git''] tmpl p)
               \<subseteq> opFiles ops
           \<and> (\<forall>g g3. runOps ops g = (None, g3) \<longrightarrow>
                 (\<exists>g1 g2. copyDirectory tmpl p g = (None, g1)
                    \<and> copyIfPresent src1 d1 g1 = (None, g2)
                    \<and> copyIfPresent src2 d2 g2 = (None, g3)))"
proof -
  let ?A = "EnsureDir p # copyOps [''node_modules'', ''artifacts'', ''cache'', ''.git''] tmpl p"
  from copyIfPresent_ops [OF assms(2)] obtain B where B: "\<forall>g. copyIfPresent src1 d1 g = runOps B g" ..
  from copyIfPresent_ops [OF assms(3)] obtain C where C: "\<forall>g. copyIfPresent src2 d2 g = runOps C g" ..
  have A: "copyDirectory tmpl p g = runOps ?A g" for g
    by (simp only: copyDirectory_def copyWith_runOps)
  have 1: "runOps (?A @ B @ C) fs0 = (None, fs3)"
    unfolding runOps_append_None_iff using assms A B C by auto
  have 2: "opFiles (copyOps [''node_modules'', ''artifacts'', ''cache'', ''.git''] tmpl p)
             \<subseteq> opFiles (?A @ B @ C)"
    by (auto simp: opFiles_def)
  have 3: "\<exists>g1 g2. copyDirectory tmpl p g = (None, g1)
                    \<and> copyIfPresent src1 d1 g1 = (None, g2)
                    \<and> copyIfPresent src2 d2 g2 = (None, g3)"
    if "runOps (?A @ B @ C) g = (None, g3)" for g g3
    using that unfolding runOps_append_None_iff A B [rule_format] C [rule_format] by blast
  from 1 2 3 show ?thesis by blast
qed

text \<open>The three generated files can be written on a disk: what that takes.\<close>

lemma generatedFiles_written:
  assumes O: "base (fs_path h [out]) = Some Dir"
    and P: "base (fs_path h [out, ''package.json'']) \<noteq> Some Dir"
    and R: "base (fs_path h [out, ''README.md'']) \<noteq> Some Dir"
    and M: "base (fs_path h [out, ''.fhevm-example.json'']) \<noteq> Some Dir"
    and pm: "patchedManifest n cfg (clock h k) v = Inr patched"
  shows "\<exists>fs4 fs5.
      writeFileSync (fs_path h [out, ''package.json'']) (JSON_stringify patched) base = (None, fs4)
    \<and> writeFileSync (fs_path h [out, ''README.md''])
         (readme_text h cfg (clock h (Suc k))) fs4 = (None, fs5)
    \<and> writeFileSync (fs_path h [out, ''.fhevm-example.json''])
         (JSON_stringify (metadata_json n cfg (clock h (Suc (Suc k))))) fs5
         = (None, generatedFiles h out n cfg v k base)"
  using assms
  by (simp add: writeFileSync_None_iff generatedFiles_def path_join_2 path_dirname_def)

lemma generatedFiles_writtenD:
  assumes "writeFileSync (fs_path h [out, ''package.json'']) (JSON_stringify patched) base
             = (None, fs4)"
    and "writeFileSync (fs_path h [out, ''README.md''])
           (readme_text h cfg (clock h (Suc k))) fs4 = (None, fs5)"
    and "writeFileSync (fs_path h [out, ''.fhevm-example.json''])
           (JSON_stringify (metadata_json n cfg (clock h (Suc (Suc k))))) fs5 = (None, fs6)"
    and pm: "patchedManifest n cfg (clock h k) v = Inr patched"
  shows "base (fs_path h [out]) = Some Dir"
    and "base (fs_path h [out, ''package.json'']) \<noteq> Some Dir"
    and "base (fs_path h [out, ''README.md'']) \<noteq> Some Dir"
    and "base (fs_path h [out, ''.fhevm-example.json'']) \<noteq> Some Dir"
    and "fs6 = generatedFiles h out n cfg v k base"
  using assms
  by (auto simp: writeFileSync_None_iff generatedFiles_def path_join_2 path_dirname_def
      split: if_splits)

lemma generatedFiles_other:
  "q \<noteq> fs_path h [out, ''package.json''] \<Longrightarrow> q \<noteq> fs_path h [out, ''README.md'']
     \<Longrightarrow> q \<noteq> fs_path h [out, ''.fhevm-example.json'']
     \<Longrightarrow> generatedFiles h out n cfg v k base q = base q"
  by (simp add: generatedFiles_def)

lemma generatedFiles_isFile:
  "q = fs_path h [out, ''package.json''] \<or> q = fs_path h [out, ''README.md'']
     \<or> q = fs_path h [out, ''.fhevm-example.json'']
     \<Longrightarrow> isFile (generatedFiles h out n cfg v k base) q"
  by (auto simp: generatedFiles_def isFile_iff)

lemma generatedFiles_cong:
  assumes "\<And>q. q \<noteq> fs_path h [out, ''package.json''] \<Longrightarrow> q \<noteq> fs_path h [out, ''README.md'']
     \<Longrightarrow> q \<noteq> fs_path h [out, ''.fhevm-example.json''] \<Longrightarrow> g q = base q"
  shows "generatedFiles h out n cfg v k g = generatedFiles h out n cfg v k base"
  using assms by (auto simp: generatedFiles_def fun_eq_iff)

text \<open>
  A completed run, described by the disk \<open>base\<close> its copies produced and the three
  generated files; the run that follows it; and the same run started with the clock at
  any other position.
\<close>

lemma createExample_twice:
  assumes run1: "createExample h reg n out w = (Completed, w1)"
    and tmpl: "(''package.json'', TFile content) \<in> set (base_template h)"
  shows "\<exists>cfg v base.
      map_of reg n = Some cfg
    \<and> ticks w1 = Suc (Suc (Suc (ticks w)))
    \<and> disk w1 = generatedFiles h out n cfg v (ticks w) base
    \<and> (\<exists>w2. createExample h reg n out w1 = (Completed, w2)
            \<and> disk w2 = generatedFiles h out n cfg v (ticks w1) base)
    \<and> (\<forall>j. \<exists>ws. createExample h reg n out (w\<lparr>ticks := j\<rparr>) = (Completed, ws)
            \<and> disk ws = generatedFiles h out n cfg v j base)"
proof -
  let ?O = "fs_path h [out]"
  let ?P = "fs_path h [out, ''package.json'']"
  let ?R = "fs_path h [out, ''README.md'']"
  let ?M = "fs_path h [out, ''.fhevm-example.json'']"
  let ?sk = "[''node_modules'', ''artifacts'', ''cache'', ''.git'']"
  from createExample_CompletedD [OF run1]
  obtain cfg fs0 fs1 fs2 fs3 content1 v patched fs4 fs5
    where entry: "map_of reg n = Some cfg"
      and mk: "if existsSync_at (cwd h) (disk w) out then fs0 = disk w
               else mkdirSync_at (cwd h) out (disk w) = (None, fs0)"
      and copy: "copyDirectory (base_template h) ?O fs0 = (None, fs1)"
      and c1: "copyIfPresent (contracts_dir h (contractFile cfg))
                 (fs_path h [out, ''contracts'', contractFile cfg]) fs1 = (None, fs2)"
      and c2: "copyIfPresent (test_dir h (testFile cfg))
                 (fs_path h [out, ''test'', testFile cfg]) fs2 = (None, fs3)"
      and rd: "readFileSync fs3 ?P = Inr content1"
      and pv: "JSON_parse h content1 = Some v"
      and pm: "patchedManifest n cfg (clock h (ticks w)) v = Inr patched"
      and w4: "writeFileSync ?P (JSON_stringify patched) fs3 = (None, fs4)"
      and w5: "writeFileSync ?R (readme_text h cfg (clock h (Suc (ticks w)))) fs4 = (None, fs5)"
      and w6: "writeFileSync ?M
                 (JSON_stringify (metadata_json n cfg (clock h (Suc (Suc (ticks w)))))) fs5
                 = (None, disk w1)"
      and tk: "ticks w1 = Suc (Suc (Suc (ticks w)))"
    by (elim exE conjE) (rule that)
  note base = generatedFiles_writtenD [OF w4 w5 w6 pm]
  have pmj: "\<exists>p. patchedManifest n cfg (clock h j) v = Inr p" for j
    using pm by (rule patchedManifest_now)
  \<comment> \<open>the run at another position of the clock\<close>
  have single: "\<exists>ws. createExample h reg n out (w\<lparr>ticks := j\<rparr>) = (Completed, ws)
            \<and> disk ws = generatedFiles h out n cfg v j fs3" for j
  proof -
    from pmj obtain p where p: "patchedManifest n cfg (clock h j) v = Inr p" ..
    from generatedFiles_written [OF base(1-4) p] obtain g4 g5
      where "writeFileSync ?P (JSON_stringify p) fs3 = (None, g4)"
        and "writeFileSync ?R (readme_text h cfg (clock h (Suc j))) g4 = (None, g5)"
        and "writeFileSync ?M (JSON_stringify (metadata_json n cfg (clock h (Suc (Suc j))))) g5
               = (None, generatedFiles h out n cfg v j fs3)"
      by (elim exE conjE)
    with entry mk copy c1 c2 rd pv p
    have "\<exists>ws. createExample h reg n out (w\<lparr>ticks := j\<rparr>) = (Completed, ws)
            \<and> disk ws = generatedFiles h out n cfg v j fs3
            \<and> ticks ws = Suc (Suc (Suc (ticks (w\<lparr>ticks := j\<rparr>))))"
      by (intro createExample_CompletedI [where ?fs0.0 = fs0 and ?fs1.0 = fs1 and ?fs2.0 = fs2
            and ?fs3.0 = fs3 and content = content1 and v = v and patched = p
            and ?fs4.0 = g4 and ?fs5.0 = g5]) simp_all
    then show ?thesis by (elim exE conjE) (intro exI conjI)
  qed
  \<comment> \<open>the run that follows\<close>
  have k01: "keepsKinds fs0 fs1"
    using copy unfolding copyDirectory_def by (rule copyWith_keeps)
  have k03: "keepsKinds fs0 fs3"
    using k01 copyIfPresent_keeps [OF c1] copyIfPresent_keeps [OF c2]
    by (blast intro: keepsKinds_trans)
  have k36: "keepsKinds fs3 (disk w1)"
    using writeFileSync_keeps [OF w4] writeFileSync_keeps [OF w5] writeFileSync_keeps [OF w6]
    by (blast intro: keepsKinds_trans)
  have out0: "out \<noteq> [] \<and> fs0 ?O \<noteq> None"
  proof (cases "existsSync_at (cwd h) (disk w) out")
    case True
    with mk show ?thesis by (simp add: existsSync_at_def existsSync_def fs_path_def)
  next
    case False
    with mk have "mkdirSync_at (cwd h) out (disk w) = (None, fs0)" by simp
    then show ?thesis
      by (auto simp: mkdirSync_at_def mkdirSync_recursive_def fs_path_def split: if_splits)
  qed
  then have ex1: "existsSync_at (cwd h) (disk w1) out"
    using keepsKinds_exists [OF keepsKinds_trans [OF k03 k36], of ?O]
    by (simp add: existsSync_at_def existsSync_def fs_path_def)
  from createExample_prefix_ops [OF copy c1 c2] obtain ops
    where o1: "runOps ops fs0 = (None, fs3)"
      and o2: "opFiles (copyOps ?sk (base_template h) ?O) \<subseteq> opFiles ops"
      and o3: "\<forall>g g3. runOps ops g = (None, g3) \<longrightarrow>
                 (\<exists>g1 g2. copyDirectory (base_template h) ?O g = (None, g1)
                    \<and> copyIfPresent (contracts_dir h (contractFile cfg))
                         (fs_path h [out, ''contracts'', contractFile cfg]) g1 = (None, g2)
                    \<and> copyIfPresent (test_dir h (testFile cfg))
                         (fs_path h [out, ''test'', testFile cfg]) g2 = (None, g3))"
    by (elim exE conjE)
  from runOps_again [OF o1 k36] obtain g3
    where a1: "runOps ops (disk w1) = (None, g3)"
      and a2: "keepsKinds fs3 g3"
      and a3: "\<forall>q. g3 q = (if q \<in> opFiles ops then fs3 q else disk w1 q)"
    by (elim exE conjE)
  from o3 a1 obtain g1 g2
    where copy': "copyDirectory (base_template h) ?O (disk w1) = (None, g1)"
      and c1': "copyIfPresent (contracts_dir h (contractFile cfg))
                  (fs_path h [out, ''contracts'', contractFile cfg]) g1 = (None, g2)"
      and c2': "copyIfPresent (test_dir h (testFile cfg))
                  (fs_path h [out, ''test'', testFile cfg]) g2 = (None, g3)"
    by blast
  have d1: "disk w1 = generatedFiles h out n cfg v (ticks w) fs3" by (rule base(5))
  have Pin: "?P \<in> opFiles ops"
  proof -
    have "PutFile (?O @ [''package.json'']) content \<in> set (copyOps ?sk (base_template h) ?O)"
      using tmpl by (rule copyOps_top_file) simp
    then have "?O @ [''package.json''] \<in> opFiles (copyOps ?sk (base_template h) ?O)"
      by (auto simp: opFiles_def)
    with o2 show ?thesis by (auto simp: path_join_2)
  qed
  have g3P: "g3 ?P = fs3 ?P" using a3 Pin by simp
  have g3other: "g3 q = fs3 q" if "q \<noteq> ?P" "q \<noteq> ?R" "q \<noteq> ?M" for q
    using a3 [rule_format, of q] generatedFiles_other [OF that, of n cfg v "ticks w" fs3] d1
    by simp
  have g3file: "g3 q \<noteq> Some Dir" if "q = ?P \<or> q = ?R \<or> q = ?M" for q
  proof (cases "q \<in> opFiles ops")
    case True
    with a3 have "g3 q = fs3 q" by simp
    with that base(2-4) show ?thesis by auto
  next
    case False
    with a3 have "g3 q = disk w1 q" by simp
    moreover have "isFile (disk w1) q" unfolding d1 using that by (rule generatedFiles_isFile)
    ultimately show ?thesis by (auto simp: isFile_iff)
  qed
  have rd': "readFileSync g3 ?P = Inr content1"
    using rd g3P by (simp add: readFileSync_def)
  from pmj obtain p3 where p3: "patchedManifest n cfg (clock h (ticks w1)) v = Inr p3" ..
  have gO: "g3 ?O = Some Dir" using a2 base(1) by (rule keepsKinds_Dir)
  have gP: "g3 ?P \<noteq> Some Dir" and gR: "g3 ?R \<noteq> Some Dir" and gM: "g3 ?M \<noteq> Some Dir"
    by (rule g3file, simp)+
  from generatedFiles_written [OF gO gP gR gM p3] obtain g4 g5
    where "writeFileSync ?P (JSON_stringify p3) g3 = (None, g4)"
      and "writeFileSync ?R (readme_text h cfg (clock h (Suc (ticks w1)))) g4 = (None, g5)"
      and "writeFileSync ?M
             (JSON_stringify (metadata_json n cfg (clock h (Suc (Suc (ticks w1)))))) g5
             = (None, generatedFiles h out n cfg v (ticks w1) g3)"
    by (elim exE conjE) simp_all
  with entry ex1 copy' c1' c2' rd' pv p3
  have "\<exists>w2. createExample h reg n out w1 = (Completed, w2)
            \<and> disk w2 = generatedFiles h out n cfg v (ticks w1) g3
            \<and> ticks w2 = Suc (Suc (Suc (ticks w1)))"
    by (intro createExample_CompletedI [where ?fs0.0 = "disk w1" and ?fs1.0 = g1 and ?fs2.0 = g2
          and ?fs3.0 = g3 and content = content1 and v = v and patched = p3
          and ?fs4.0 = g4 and ?fs5.0 = g5]) simp_all
  moreover have "generatedFiles h out n cfg v (ticks w1) g3
                   = generatedFiles h out n cfg v (ticks w1) fs3"
    using g3other by (rule generatedFiles_cong)
  ultimately have second: "\<exists>w2. createExample h reg n out w1 = (Completed, w2)
            \<and> disk w2 = generatedFiles h out n cfg v (ticks w1) fs3"
    by auto
  from entry tk d1 second single show ?thesis by blast
qed

text \<open>
  C2 (as amended). Let \<open>createExample\<close> complete, on a template that holds a manifest
  \<open>package.json\<close>. Run again with the same arguments on the disk the first run left,
  it completes, and the destination is exactly what one run produces when it is started,
  on the original disk, at the time of the second run. So the two runs agree on every
  file but the manifest, the README and the metadata file, which carry the time of their
  generation, and they agree on these three too if the clock reads the same in both
  runs.
\<close>

theorem createExample_rerun:
  assumes run1: "createExample h reg n out w = (Completed, w1)"
    and tmpl: "(''package.json'', TFile content) \<in> set (base_template h)"
  shows "\<exists>w2 ws.
      createExample h reg n out w1 = (Completed, w2)
    \<and> createExample h reg n out (w\<lparr>ticks := ticks w1\<rparr>) = (Completed, ws)
    \<and> disk w2 = disk ws
    \<and> (\<forall>q. q \<noteq> fs_path h [out, ''package.json''] \<longrightarrow> q \<noteq> fs_path h [out, ''README.md'']
           \<longrightarrow> q \<noteq> fs_path h [out, ''.fhevm-example.json''] \<longrightarrow> disk w2 q = disk w1 q)
    \<and> (clock h (ticks w1) = clock h (ticks w)
         \<and> clock h (Suc (ticks w1)) = clock h (Suc (ticks w))
         \<and> clock h (Suc (Suc (ticks w1))) = clock h (Suc (Suc (ticks w)))
         \<longrightarrow> disk w2 = disk w1)"
proof -
  from createExample_twice [OF run1 tmpl] obtain cfg v base w2
    where d1: "disk w1 = generatedFiles h out n cfg v (ticks w) base"
      and r2: "createExample h reg n out w1 = (Completed, w2)"
      and d2: "disk w2 = generatedFiles h out n cfg v (ticks w1) base"
      and single: "\<forall>j. \<exists>ws. createExample h reg n out (w\<lparr>ticks := j\<rparr>) = (Completed, ws)
            \<and> disk ws = generatedFiles h out n cfg v j base"
    by (elim exE conjE)
  from single obtain ws
    where rs: "createExample h reg n out (w\<lparr>ticks := ticks w1\<rparr>) = (Completed, ws)"
      and ds: "disk ws = generatedFiles h out n cfg v (ticks w1) base"
    by blast
  have other: "disk w2 q = disk w1 q"
    if "q \<noteq> fs_path h [out, ''package.json'']" "q \<noteq> fs_path h [out, ''README.md'']"
       "q \<noteq> fs_path h [out, ''.fhevm-example.json'']" for q
    unfolding d1 d2 using that by (simp add: generatedFiles_other)
  have same: "disk w2 = disk w1"
    if "clock h (ticks w1) = clock h (ticks w)
         \<and> clock h (Suc (ticks w1)) = clock h (Suc (ticks w))
         \<and> clock h (Suc (Suc (ticks w1))) = clock h (Suc (Suc (ticks w)))"
    unfolding d1 d2 generatedFiles_def using that by simp
  show ?thesis
  proof (intro exI conjI allI impI)
    show "createExample h reg n out w1 = (Completed, w2)" by (rule r2)
    show "createExample h reg n out (w\<lparr>ticks := ticks w1\<rparr>) = (Completed, ws)" by (rule rs)
    show "disk w2 = disk ws" using d2 ds by simp
    show "disk w2 q = disk w1 q"
      if "q \<noteq> fs_path h [out, ''package.json'']" "q \<noteq> fs_path h [out, ''README.md'']"
         "q \<noteq> fs_path h [out, ''.fhevm-example.json'']" for q
      using that by (rule other)
    show "disk w2 = disk w1"
      if "clock h (ticks w1) = clock h (ticks w)
         \<and> clock h (Suc (ticks w1)) = clock h (Suc (ticks w))
         \<and> clock h (Suc (Suc (ticks w1))) = clock h (Suc (Suc (ticks w)))"
      using that by (rule same)
  qed
qed

text \<open>
  The scenario: \<open>materialize("alpha", "/out/a")\<close> twice. The second run completes and
  leaves the copied configuration file as the first run wrote it.
\<close>

theorem createExample_rerun_witness:
  "fst (createExample sample_host alpha_registry ''alpha'' ''/out/a'' fresh_world) = Completed
   \<and> (''package.json'', TFile (JSON_stringify sample_manifest)) \<in> set (base_template sample_host)
   \<and> fst (createExample sample_host alpha_registry ''alpha'' ''/out/a''
            (snd (createExample sample_host alpha_registry ''alpha'' ''/out/a'' fresh_world)))
       = Completed
   \<and> disk (snd (createExample sample_host alpha_registry ''alpha'' ''/out/a''
            (snd (createExample sample_host alpha_registry ''alpha'' ''/out/a'' fresh_world))))
         [''out'', ''a'', ''hardhat.config.ts'']
       = disk (snd (createExample sample_host alpha_registry ''alpha'' ''/out/a'' fresh_world))
           [''out'', ''a'', ''hardhat.config.ts'']"
proof -
  let ?r = "createExample sample_host alpha_registry ''alpha'' ''/out/a'' fresh_world"
  let ?s = "createExample sample_host alpha_registry ''alpha'' ''/out/a'' (snd ?r)"
  have c: "fst ?r = Completed" by (rule alpha_run_completes)
  then have r: "?r = (Completed, snd ?r)" by (metis prod.collapse)
  have t: "(''package.json'', TFile (JSON_stringify sample_manifest))
             \<in> set (base_template sample_host)"
    by (simp add: sample_host_def sample_template_def)
  have p: "[''out'', ''a'', ''hardhat.config.ts''] \<noteq> fs_path sample_host [''/out/a'', ''package.json'']"
    "[''out'', ''a'', ''hardhat.config.ts''] \<noteq> fs_path sample_host [''/out/a'', ''README.md'']"
    "[''out'', ''a'', ''hardhat.config.ts''] \<noteq> fs_path sample_host [''/out/a'', ''.fhevm-example.json'']"
    by (simp_all add: fs_path_def resolve_def path_join_def normalizeStep_def)
  from createExample_rerun [OF r t] obtain w2
    where r2: "?s = (Completed, w2)"
      and q: "\<forall>q. q \<noteq> fs_path sample_host [''/out/a'', ''package.json'']
                \<longrightarrow> q \<noteq> fs_path sample_host [''/out/a'', ''README.md'']
                \<longrightarrow> q \<noteq> fs_path sample_host [''/out/a'', ''.fhevm-example.json'']
                \<longrightarrow> disk w2 q = disk (snd ?r) q"
    by (elim exE conjE)
  from q [rule_format, OF p]
  have eq: "disk w2 [''out'', ''a'', ''hardhat.config.ts'']
              = disk (snd ?r) [''out'', ''a'', ''hardhat.config.ts'']" .
  have f2: "fst ?s = Completed" by (simp only: r2 fst_conv)
  have d2: "disk (snd ?s) [''out'', ''a'', ''hardhat.config.ts'']
              = disk (snd ?r) [''out'', ''a'', ''hardhat.config.ts'']"
    by (simp only: r2 snd_conv eq)
  from c t f2 d2 show ?thesis by (intro conjI)
qed

text \<open>
  C2 as the specification states it fails: the clock has advanced between the two runs,
  and the README of the second run is not the README of the first.
\<close>

theorem createExample_rerun_counterexample:
  "fst (createExample sample_host alpha_registry ''alpha'' ''/out/a'' fresh_world) = Completed
   \<and> fst (createExample sample_host alpha_registry ''alpha'' ''/out/a''
            (snd (createExample sample_host alpha_registry ''alpha'' ''/out/a'' fresh_world)))
       = Completed
   \<and> disk (snd (createExample sample_host alpha_registry ''alpha'' ''/out/a''
            (snd (createExample sample_host alpha_registry ''alpha'' ''/out/a'' fresh_world))))
         [''out'', ''a'', ''README.md'']
       \<noteq> disk (snd (createExample sample_host alpha_registry ''alpha'' ''/out/a'' fresh_world))
           [''out'', ''a'', ''README.md'']"
proof -
  let ?r = "createExample sample_host alpha_registry ''alpha'' ''/out/a'' fresh_world"
  let ?s = "createExample sample_host alpha_registry ''alpha'' ''/out/a'' (snd ?r)"
  have c: "fst ?r = Completed" by (rule alpha_run_completes)
  then have r: "?r = (Completed, snd ?r)" by (metis prod.collapse)
  have t: "(''package.json'', TFile (JSON_stringify sample_manifest))
             \<in> set (base_template sample_host)"
    by (simp add: sample_host_def sample_template_def)
  from createExample_twice [OF r t] obtain cfg v base w2
    where tk: "ticks (snd ?r) = Suc (Suc (Suc (ticks fresh_world)))"
      and d1: "disk (snd ?r) = generatedFiles sample_host ''/out/a'' ''alpha'' cfg v
                                 (ticks fresh_world) base"
      and r2: "?s = (Completed, w2)"
      and d2: "disk w2 = generatedFiles sample_host ''/out/a'' ''alpha'' cfg v
                           (ticks (snd ?r)) base"
    by (elim exE conjE)
  have p: "fs_path sample_host [''/out/a'', ''README.md''] = [''out'', ''a'', ''README.md'']"
    "fs_path sample_host [''/out/a'', ''.fhevm-example.json''] = [''out'', ''a'', ''.fhevm-example.json'']"
    by (simp_all add: fs_path_def resolve_def path_join_def normalizeStep_def)
  have k: "ticks fresh_world = 0" by (simp add: fresh_world_def)
  have x1: "disk (snd ?r) [''out'', ''a'', ''README.md'']
              = Some (File (readme_text sample_host cfg (sample_clock 1)))"
    unfolding d1 generatedFiles_def p k by (simp add: sample_host_def)
  have x2: "disk w2 [''out'', ''a'', ''README.md'']
              = Some (File (readme_text sample_host cfg (sample_clock 4)))"
    unfolding d2 tk generatedFiles_def p k by (simp add: sample_host_def eval_nat_numeral)
  have "sample_clock 4 \<noteq> sample_clock 1" by (simp add: sample_clock_def)
  with x1 x2 have ne: "disk w2 [''out'', ''a'', ''README.md'']
                        \<noteq> disk (snd ?r) [''out'', ''a'', ''README.md'']"
    by (simp add: readme_text_inj)
  have f2: "fst ?s = Completed" by (simp only: r2 fst_conv)
  have d: "disk (snd ?s) [''out'', ''a'', ''README.md'']
             \<noteq> disk (snd ?r) [''out'', ''a'', ''README.md'']"
    unfolding r2 snd_conv by (rule ne)
  from c f2 d show ?thesis by (intro conjI)
qed

end
